theory Spec2Isabelle
  imports Complex_Main "HOL-Library.AList" "HOL-Library.Sublist"
begin

section \<open>Energy corrections of pymatgen.entries.compatibility\<close>

text \<open>
  The development embeds the correction engine of \<^verbatim>\<open>pymatgen/entries/compatibility.py\<close>.
  Python floats are modelled as real numbers with exact arithmetic, the float \<^verbatim>\<open>nan\<close>
  used for an unknown uncertainty as \<open>None\<close>, dictionaries as association lists read
  with \<open>map_of\<close>, exceptions as the left summand of a result. Warnings and the progress bar
  are not modelled; \<^verbatim>\<open>inplace\<close> only selects whether the caller's objects or deep copies
  of them are worked on and is left out. The entries of one batch are distinct objects.
\<close>

subsection \<open>Exceptions\<close>

datatype error =
    CompatibilityError
  | ValueError
  | KeyError
  | IndexError
  | AttributeError
  | AssertionError

subsection \<open>Energy adjustments\<close>

text \<open>
  Modelled from the spec: the classes \<^verbatim>\<open>ConstantEnergyAdjustment\<close>,
  \<^verbatim>\<open>CompositionEnergyAdjustment\<close> and \<^verbatim>\<open>TemperatureEnergyAdjustment\<close> of
  \<^verbatim>\<open>pymatgen.entries.computed_entries\<close>, which is not among the sources. A
  composition-scaled adjustment has the value per-atom value times count, a temperature-scaled
  one per-degree value times temperature times count. The last two arguments are the name
  and \<^verbatim>\<open>cls\<close>, the provenance (the \<^verbatim>\<open>as_dict()\<close> of the scheme, here a tag).
\<close>

datatype energy_adjustment =
    ConstantEnergyAdjustment real "real option" string string
  | CompositionEnergyAdjustment real real "real option" string string
  | TemperatureEnergyAdjustment real real real "real option" string string

fun ea_name :: "energy_adjustment \<Rightarrow> string" where
  "ea_name (ConstantEnergyAdjustment v u n c) = n"
| "ea_name (CompositionEnergyAdjustment a k u n c) = n"
| "ea_name (TemperatureEnergyAdjustment a t k u n c) = n"

fun ea_cls :: "energy_adjustment \<Rightarrow> string" where
  "ea_cls (ConstantEnergyAdjustment v u n c) = c"
| "ea_cls (CompositionEnergyAdjustment a k u n c) = c"
| "ea_cls (TemperatureEnergyAdjustment a t k u n c) = c"

fun ea_value :: "energy_adjustment \<Rightarrow> real" where
  "ea_value (ConstantEnergyAdjustment v u n c) = v"
| "ea_value (CompositionEnergyAdjustment a k u n c) = a * k"
| "ea_value (TemperatureEnergyAdjustment a t k u n c) = a * t * k"

fun ea_uncertainty :: "energy_adjustment \<Rightarrow> real option" where
  "ea_uncertainty (ConstantEnergyAdjustment v u n c) = u"
| "ea_uncertainty (CompositionEnergyAdjustment a k u n c) = map_option (\<lambda>s. s * k) u"
| "ea_uncertainty (TemperatureEnergyAdjustment a t k u n c) = map_option (\<lambda>s. s * t * k) u"

definition ea_triple :: "energy_adjustment \<Rightarrow> string \<times> string \<times> real" where
  "ea_triple ea = (ea_name ea, ea_cls ea, ea_value ea)"

definition ea_key :: "energy_adjustment \<Rightarrow> string \<times> string" where
  "ea_key ea = (ea_name ea, ea_cls ea)"

subsection \<open>Entries\<close>

text \<open>
  Modelled from the spec: \<^verbatim>\<open>Composition\<close> and \<^verbatim>\<open>ComputedEntry\<close> are not among the
  sources. A composition is the list of its keys, each given by its symbol and paired with its
  amount, in the order of \<^verbatim>\<open>comp.elements\<close>, together with what its methods return: the
  reduced formula, the number of atoms, and the reduced composition with its factor. A loop
  over \<^verbatim>\<open>comp.elements\<close> runs over the pairs, and \<^verbatim>\<open>comp[el]\<close> for the key of the
  round is the amount of its pair; \<^verbatim>\<open>comp["O"]\<close>, a lookup by symbol, is \<open>comp_get\<close>. An
  entry has the corrected energy uncorrected energy plus the sum of the values of its
  adjustments, and the energy per atom is that energy divided by the number of atoms, which is
  taken not to be zero.
\<close>

record composition =
  amounts :: "(string \<times> real) list"
  reduced_formula :: string
  num_atoms :: real
  reduced_composition :: "(string \<times> real) list"
  reduction_factor :: real

text \<open>
  A structure is represented by what the external classifiers \<^verbatim>\<open>sulfide_type\<close> and
  \<^verbatim>\<open>oxide_type\<close> (with \<^verbatim>\<open>return_nbonds\<close>) return on it.
\<close>

record structure_info =
  struct_sulfide_type :: string
  struct_oxide_type :: string
  struct_oxide_nbonds :: real

text \<open>The keys of \<^verbatim>\<open>entry.data\<close> that the schemes read or write.\<close>

record entry_data =
  sulfide_type :: "string option"
  oxide_type :: "string option"
  oxidation_states :: "(string \<times> real) list option"

text \<open>The keys of \<^verbatim>\<open>entry.parameters\<close> that the schemes read.\<close>

record parameters =
  run_type :: "string option"
  hubbards :: "(string \<times> real) list option"
  software :: "string option"
  potcar_spec :: "(string \<times> string) list list option"
  potcar_symbols :: "string list option"

record entry =
  entry_id :: string
  composition :: composition
  uncorrected_energy :: real
  parameters :: parameters
  data :: entry_data
  entry_structure :: "structure_info option"
  energy_adjustments :: "energy_adjustment list"

definition comp_get :: "composition \<Rightarrow> string \<Rightarrow> real" where
  "comp_get cmp el = (case map_of (amounts cmp) el of Some a \<Rightarrow> a | None \<Rightarrow> 0)"

definition comp_contains :: "composition \<Rightarrow> string \<Rightarrow> bool" where
  "comp_contains cmp el = (el \<in> set (map fst (amounts cmp)))"

definition comp_elements :: "composition \<Rightarrow> string list" where
  "comp_elements cmp = map fst (amounts cmp)"

definition comp_len :: "composition \<Rightarrow> nat" where
  "comp_len cmp = length (amounts cmp)"

definition entry_correction :: "entry \<Rightarrow> real" where
  "entry_correction e = sum_list (map ea_value (energy_adjustments e))"

definition energy :: "entry \<Rightarrow> real" where
  "energy e = uncorrected_energy e + entry_correction e"

definition energy_per_atom :: "entry \<Rightarrow> real" where
  "energy_per_atom e = energy e / num_atoms (composition e)"

subsection \<open>Compatibility.process_entries\<close>

datatype on_error = Ignore | Warn | Raise

text \<open>
  \<^verbatim>\<open>get_adjustments\<close> of a scheme returns the adjustments or raises, and may write
  \<^verbatim>\<open>entry.data\<close> (the one mutation of an entry that a scheme of the module performs):
  the second component is the data after the call.
\<close>

type_synonym get_adjustments = "entry \<Rightarrow> (error + energy_adjustment list) \<times> entry_data"

text \<open>
  The inner loop over the computed adjustments: the state is the adjustment list of the entry
  and the flag \<^verbatim>\<open>ignore_entry\<close>.
\<close>

fun apply_adjustments ::
  "energy_adjustment list \<Rightarrow> energy_adjustment list \<times> bool \<Rightarrow> energy_adjustment list \<times> bool" where
  "apply_adjustments [] (eas, ignore_entry) = (eas, ignore_entry)"
| "apply_adjustments (ea # rest) (eas, ignore_entry) =
     (if ea_triple ea \<in> set (map ea_triple eas) then apply_adjustments rest (eas, ignore_entry)
      else if ea_key ea \<in> set (map ea_key eas) then apply_adjustments rest (eas, True)
      else apply_adjustments rest (eas @ [ea], ignore_entry))"

text \<open>
  The body of the loop over the entries, for one entry: the entry as the body leaves it, and
  either the exception \<^verbatim>\<open>get_adjustments\<close> raised or whether the entry is appended to
  \<^verbatim>\<open>processed_entry_list\<close>.
\<close>

definition process_entry_body :: "get_adjustments \<Rightarrow> bool \<Rightarrow> entry \<Rightarrow> entry \<times> (error + bool)" where
  "process_entry_body ga clean e =
     (let entry = (if clean then e\<lparr>energy_adjustments := []\<rparr> else e);
          (res, d) = ga entry;
          entry = entry\<lparr>data := d\<rparr>
      in case res of
           Inl exc \<Rightarrow> (entry, Inl exc)
         | Inr adjustments \<Rightarrow>
             (let (eas, ignore_entry) = apply_adjustments adjustments (energy_adjustments entry, False)
              in (entry\<lparr>energy_adjustments := eas\<rparr>, Inr (\<not> ignore_entry))))"

fun process_loop ::
  "get_adjustments \<Rightarrow> bool \<Rightarrow> on_error \<Rightarrow> entry list \<Rightarrow> entry list \<Rightarrow> error + entry list" where
  "process_loop ga clean oe [] processed_entry_list = Inr processed_entry_list"
| "process_loop ga clean oe (e # es) processed_entry_list =
     (case process_entry_body ga clean e of
        (entry, Inl exc) \<Rightarrow>
          (if exc = CompatibilityError \<and> oe \<noteq> Raise
           then process_loop ga clean oe es processed_entry_list
           else Inl exc)
      | (entry, Inr keep) \<Rightarrow>
          process_loop ga clean oe es
            (if keep then processed_entry_list @ [entry] else processed_entry_list))"

definition process_entries ::
  "get_adjustments \<Rightarrow> entry list \<Rightarrow> bool \<Rightarrow> on_error \<Rightarrow> error + entry list" where
  "process_entries ga entries clean oe = process_loop ga clean oe entries []"

subsection \<open>Python values\<close>

text \<open>The truth value of an optional string: \<^verbatim>\<open>None\<close> and the empty string are false.\<close>

definition truthy :: "string option \<Rightarrow> bool" where
  "truthy v = (case v of None \<Rightarrow> False | Some s \<Rightarrow> s \<noteq> [])"

text \<open>\<^verbatim>\<open>d.get(k, 0)\<close> and \<^verbatim>\<open>d[k]\<close> on a plain dictionary.\<close>

definition get0 :: "(string \<times> real) list \<Rightarrow> string \<Rightarrow> real" where
  "get0 d k = (case map_of d k of Some v \<Rightarrow> v | None \<Rightarrow> 0)"

definition table_get :: "(string \<times> real) list \<Rightarrow> string \<Rightarrow> error + real" where
  "table_get d k = (case map_of d k of Some v \<Rightarrow> Inr v | None \<Rightarrow> Inl KeyError)"

text \<open>
  A table read from a section of the configuration with
  \<^verbatim>\<open>c.get(section, defaultdict(float))\<close>: \<open>None\<close> is the absent section, whose
  \<^verbatim>\<open>defaultdict\<close> gives 0.0 for every key and holds none. (The key that reading a
  \<^verbatim>\<open>defaultdict\<close> inserts is not modelled.)
\<close>

type_synonym table = "(string \<times> real) list option"

definition dd_get :: "table \<Rightarrow> string \<Rightarrow> error + real" where
  "dd_get t k = (case t of None \<Rightarrow> Inr 0 | Some d \<Rightarrow> table_get d k)"

definition dd_contains :: "table \<Rightarrow> string \<Rightarrow> bool" where
  "dd_contains t k = (case t of None \<Rightarrow> False | Some d \<Rightarrow> k \<in> set (map fst d))"

text \<open>
  A table of tables keyed by the most electronegative element, read with
  \<^verbatim>\<open>t.get(key, {})\<close>, and with \<^verbatim>\<open>t.get(key, defaultdict(float))[sym]\<close>.
\<close>

definition sub_table :: "(string \<times> (string \<times> real) list) list \<Rightarrow> string \<Rightarrow> (string \<times> real) list" where
  "sub_table t k = (case map_of t k of Some d \<Rightarrow> d | None \<Rightarrow> [])"

definition sub_table_dd :: "(string \<times> (string \<times> real) list) list \<Rightarrow> string \<Rightarrow> table" where
  "sub_table_dd t k = map_of t k"

text \<open>
  \<^verbatim>\<open>str.split()\<close>: the words between runs of whitespace. A character is a code point
  below 256, and the whitespace among those is what \<^verbatim>\<open>str.isspace\<close> accepts.
\<close>

definition is_space :: "char \<Rightarrow> bool" where
  "is_space c = (c \<in> set [CHR '' '', CHR 0x09, CHR 0x0A, CHR 0x0B, CHR 0x0C, CHR 0x0D,
                           CHR 0x1C, CHR 0x1D, CHR 0x1E, CHR 0x1F, CHR 0x85, CHR 0xA0])"

fun split_from :: "string \<Rightarrow> string \<Rightarrow> string list" where
  "split_from [] cur = (if cur = [] then [] else [cur])"
| "split_from (c # cs) cur =
     (if is_space c then (if cur = [] then split_from cs [] else cur # split_from cs [])
      else split_from cs (cur @ [c]))"

definition py_split :: "string \<Rightarrow> string list" where
  "py_split s = split_from s []"

definition second_word :: "string \<Rightarrow> error + string" where
  "second_word s = (case py_split s of w0 # w1 # ws \<Rightarrow> Inr w1 | _ \<Rightarrow> Inl IndexError)"

text \<open>A comprehension or loop whose body may raise: the first exception ends it.\<close>

fun collect :: "('a \<Rightarrow> error + 'b list) \<Rightarrow> 'a list \<Rightarrow> error + 'b list" where
  "collect f [] = Inr []"
| "collect f (x # xs) =
     (case f x of
        Inl exc \<Rightarrow> Inl exc
      | Inr ys \<Rightarrow> (case collect f xs of Inl exc \<Rightarrow> Inl exc | Inr zs \<Rightarrow> Inr (ys @ zs)))"

subsection \<open>Numbers with uncertainties\<close>

text \<open>
  Modelled from the spec: \<^verbatim>\<open>ufloat\<close> of the package \<^verbatim>\<open>uncertainties\<close>, a nominal value
  with a standard deviation; a sum adds the values and combines the uncertainties of
  independent errors as the root of the sum of the squares.
\<close>

record ufloat =
  nominal_value :: real
  std_dev :: real

definition ufloat_zero :: ufloat where
  "ufloat_zero = \<lparr>nominal_value = 0, std_dev = 0\<rparr>"

definition uadd :: "ufloat \<Rightarrow> ufloat \<Rightarrow> ufloat" where
  "uadd a b = \<lparr>nominal_value = nominal_value a + nominal_value b,
              std_dev = sqrt ((std_dev a)\<^sup>2 + (std_dev b)\<^sup>2)\<rparr>"

definition uadd_float :: "ufloat \<Rightarrow> real \<Rightarrow> ufloat" where
  "uadd_float a x = a\<lparr>nominal_value := nominal_value a + x\<rparr>"

definition umul_float :: "ufloat \<Rightarrow> real \<Rightarrow> ufloat" where
  "umul_float a k = \<lparr>nominal_value = nominal_value a * k, std_dev = \<bar>k\<bar> * std_dev a\<rparr>"

definition u_nonzero :: "ufloat \<Rightarrow> bool" where
  "u_nonzero a = (nominal_value a \<noteq> 0 \<or> std_dev a \<noteq> 0)"

subsection \<open>What the module takes from outside\<close>

text \<open>
  The \<^verbatim>\<open>POTCAR\<close> section of the configuration of an input set: every value a dictionary
  (with the keys \<^verbatim>\<open>hash\<close> and \<^verbatim>\<open>symbol\<close>), or every value a symbol.
\<close>

datatype potcar_settings =
    PotcarDicts "(string \<times> (string \<times> string) list) list"
  | PotcarSymbols "(string \<times> string) list"

text \<open>
  The electronegativity \<^verbatim>\<open>Element.X\<close>, the setting \<^verbatim>\<open>PMG_POTCAR_CHECKS\<close>, the
  \<^verbatim>\<open>POTCAR\<close> configuration of \<^verbatim>\<open>MPRelaxSet\<close>, and
  \<^verbatim>\<open>Composition.oxi_state_guesses\<close> (\<open>None\<close> when it raises \<^verbatim>\<open>ValueError\<close>).
\<close>

record environment =
  X :: "string \<Rightarrow> real"
  pmg_potcar_checks :: "bool option"
  mp_relax_set_potcar :: potcar_settings
  oxi_state_guesses :: "composition \<Rightarrow> (string \<times> real) list list option"

text \<open>
  The keys with a positive amount, sorted by electronegativity (the sort is stable), and the
  symbol of the last one: \<^verbatim>\<open>elements[-1].symbol\<close> raises on the empty list.
\<close>

definition sorted_elements :: "(string \<Rightarrow> real) \<Rightarrow> composition \<Rightarrow> (string \<times> real) list" where
  "sorted_elements x cmp =
     sort_key (\<lambda>(el, amt). x el) (filter (\<lambda>(el, amt). amt > 0) (amounts cmp))"

definition most_electroneg :: "(string \<Rightarrow> real) \<Rightarrow> composition \<Rightarrow> error + string" where
  "most_electroneg x cmp =
     (case sorted_elements x cmp of
        [] \<Rightarrow> Inl IndexError
      | el # els \<Rightarrow> Inr (fst (last (el # els))))"

subsection \<open>PotcarCorrection\<close>

record potcar_correction =
  pc_input_set :: string
  valid_potcars :: "(string \<times> string option) list"
  pc_check_hash :: bool
  pc_check_potcar :: bool

text \<open>
  The constructor: \<^verbatim>\<open>list(potcar_settings.values())[-1]\<close> raises on an empty
  configuration, and hashes cannot be checked against a configuration of symbols.
\<close>

definition PotcarCorrection_init ::
  "string \<Rightarrow> potcar_settings \<Rightarrow> bool \<Rightarrow> bool \<Rightarrow> error + potcar_correction" where
  "PotcarCorrection_init input_set settings chk_potcar chk_hash =
     (case settings of
        PotcarDicts ds \<Rightarrow>
          (if ds = [] then Inl IndexError
           else Inr \<lparr>pc_input_set = input_set,
                     valid_potcars =
                       map (\<lambda>(key, dct). (key, map_of dct (if chk_hash then ''hash'' else ''symbol''))) ds,
                     pc_check_hash = chk_hash, pc_check_potcar = chk_potcar\<rparr>)
      | PotcarSymbols ss \<Rightarrow>
          (if ss = [] then Inl IndexError
           else if chk_hash then Inl ValueError
           else Inr \<lparr>pc_input_set = input_set,
                     valid_potcars = map (\<lambda>(key, sym). (key, Some sym)) ss,
                     pc_check_hash = chk_hash, pc_check_potcar = chk_potcar\<rparr>))"

text \<open>
  The members of the set \<^verbatim>\<open>psp_settings\<close>. An absent or empty \<^verbatim>\<open>potcar_spec\<close> is
  false, empty dictionaries and empty symbols are skipped, \<^verbatim>\<open>split()[1]\<close> raises when
  there is no second word.
\<close>

definition psp_settings_of :: "potcar_correction \<Rightarrow> entry \<Rightarrow> error + string option list" where
  "psp_settings_of pc entry =
     (let spec = (case potcar_spec (parameters entry) of None \<Rightarrow> [] | Some l \<Rightarrow> l)
      in if pc_check_hash pc then
           (if spec \<noteq> [] then Inr (map (\<lambda>dct. map_of dct ''hash'') (filter (\<lambda>dct. dct \<noteq> []) spec))
            else Inl ValueError)
         else if spec \<noteq> [] then
           collect (\<lambda>dct. case map_of dct ''titel'' of
                             None \<Rightarrow> Inl AttributeError
                           | Some titel \<Rightarrow>
                               (case second_word titel of Inl exc \<Rightarrow> Inl exc | Inr w \<Rightarrow> Inr [Some w]))
                   (filter (\<lambda>dct. dct \<noteq> []) spec)
         else
           (case potcar_symbols (parameters entry) of
              None \<Rightarrow> Inl KeyError
            | Some syms \<Rightarrow>
                collect (\<lambda>sym. case second_word sym of Inl exc \<Rightarrow> Inl exc | Inr w \<Rightarrow> Inr [Some w])
                        (filter (\<lambda>sym. sym \<noteq> []) syms)))"

definition PotcarCorrection_get_correction ::
  "environment \<Rightarrow> potcar_correction \<Rightarrow> entry \<Rightarrow> error + ufloat" where
  "PotcarCorrection_get_correction env pc entry =
     (if pmg_potcar_checks env = Some False \<or> \<not> pc_check_potcar pc then Inr ufloat_zero
      else case psp_settings_of pc entry of
             Inl exc \<Rightarrow> Inl exc
           | Inr psp_settings \<Rightarrow>
               (let expected_psp =
                      map (\<lambda>el. case map_of (valid_potcars pc) el of Some v \<Rightarrow> v | None \<Rightarrow> None)
                          (comp_elements (composition entry))
                in if set expected_psp \<noteq> set psp_settings then Inl CompatibilityError
                   else Inr ufloat_zero))"

subsection \<open>GasCorrection\<close>

record gas_correction =
  gc_name :: string
  cpd_energies :: "(string \<times> real) list"

definition GasCorrection_get_correction :: "gas_correction \<Rightarrow> entry \<Rightarrow> ufloat" where
  "GasCorrection_get_correction gc entry =
     (let cmp = composition entry;
          correction = ufloat_zero;
          rform = reduced_formula (composition entry)
      in case map_of (cpd_energies gc) rform of
           Some cpd_energy \<Rightarrow>
             uadd_float correction (cpd_energy * num_atoms cmp - uncorrected_energy entry)
         | None \<Rightarrow> correction)"

subsection \<open>UCorrection\<close>

text \<open>
  The tables of a \<^verbatim>\<open>UCorrection\<close> as its constructor leaves them: with the compatibility
  type \<^verbatim>\<open>GGA\<close> the settings and the corrections are empty.
\<close>

record u_correction =
  uc_name :: string
  uc_compat_type :: string
  uc_u_settings :: "(string \<times> (string \<times> real) list) list"
  uc_u_corrections :: "(string \<times> (string \<times> real) list) list"
  uc_u_errors :: "(string \<times> (string \<times> real) list) list"

definition calc_u_of :: "entry \<Rightarrow> (string \<times> real) list" where
  "calc_u_of entry = (case hubbards (parameters entry) of None \<Rightarrow> [] | Some h \<Rightarrow> h)"

text \<open>The loop over \<^verbatim>\<open>comp.elements\<close>: each round has the symbol and the amount of a key.\<close>

fun u_correction_loop ::
  "(string \<times> real) list \<Rightarrow> (string \<times> real) list \<Rightarrow> (string \<times> real) list \<Rightarrow> table \<Rightarrow>
   (string \<times> real) list \<Rightarrow> ufloat \<Rightarrow> error + ufloat" where
  "u_correction_loop calc_u u_settings u_corr u_errors [] correction = Inr correction"
| "u_correction_loop calc_u u_settings u_corr u_errors ((symbol, amt) # els) correction =
     (if get0 calc_u symbol \<noteq> get0 u_settings symbol then Inl CompatibilityError
      else case map_of u_corr symbol of
             Some c \<Rightarrow>
               (case dd_get u_errors symbol of
                  Inl exc \<Rightarrow> Inl exc
                | Inr err \<Rightarrow>
                    u_correction_loop calc_u u_settings u_corr u_errors els
                      (uadd correction (umul_float \<lparr>nominal_value = c, std_dev = err\<rparr> amt)))
           | None \<Rightarrow> u_correction_loop calc_u u_settings u_corr u_errors els correction)"

definition UCorrection_get_correction ::
  "environment \<Rightarrow> u_correction \<Rightarrow> entry \<Rightarrow> error + ufloat" where
  "UCorrection_get_correction env uc entry =
     (let calc_u = calc_u_of entry;
          cmp = composition entry
      in case most_electroneg (X env) cmp of
           Inl exc \<Rightarrow> Inl exc
         | Inr most_en \<Rightarrow>
             u_correction_loop calc_u
               (sub_table (uc_u_settings uc) most_en)
               (sub_table (uc_u_corrections uc) most_en)
               (sub_table_dd (uc_u_errors uc) most_en)
               (amounts cmp) ufloat_zero)"

subsection \<open>MaterialsProject2020Compatibility\<close>

text \<open>
  The scheme as its constructor leaves it: with the compatibility type \<^verbatim>\<open>GGA\<close> the three
  tables of the mixing scheme are empty. \<open>mp_cls\<close> is the \<^verbatim>\<open>as_dict()\<close> of the scheme.
\<close>

record mp2020 =
  correct_peroxide :: bool
  check_potcar :: bool
  check_potcar_hash :: bool
  comp_correction :: table
  comp_errors :: table
  u_settings :: "(string \<times> (string \<times> real) list) list"
  u_corrections :: "(string \<times> (string \<times> real) list) list"
  u_errors :: "(string \<times> (string \<times> real) list) list"
  mp_cls :: string

definition run_type_check :: "entry \<Rightarrow> bool" where
  "run_type_check entry = (run_type (parameters entry) \<in> {Some ''GGA'', Some ''GGA+U''})"

text \<open>
  The check of the POTCAR symbols: the exception it raises, if any. The software defaults to
  \<^verbatim>\<open>vasp\<close>.
\<close>

definition potcar_check :: "environment \<Rightarrow> mp2020 \<Rightarrow> entry \<Rightarrow> error option" where
  "potcar_check env sch entry =
     (if (case software (parameters entry) of None \<Rightarrow> ''vasp'' | Some sw \<Rightarrow> sw) = ''vasp'' then
        (case PotcarCorrection_init ''MPRelaxSet'' (mp_relax_set_potcar env)
                (check_potcar sch) (check_potcar_hash sch) of
           Inl exc \<Rightarrow> Some exc
         | Inr pc \<Rightarrow>
             (case PotcarCorrection_get_correction env pc entry of
                Inl exc \<Rightarrow> Some exc
              | Inr u \<Rightarrow> None))
      else None)"

definition composition_adjustment ::
  "mp2020 \<Rightarrow> composition \<Rightarrow> string \<Rightarrow> string \<Rightarrow> string \<Rightarrow> error + energy_adjustment list" where
  "composition_adjustment sch cmp key el nm =
     (case dd_get (comp_correction sch) key of
        Inl exc \<Rightarrow> Inl exc
      | Inr c \<Rightarrow>
          (case dd_get (comp_errors sch) key of
             Inl exc \<Rightarrow> Inl exc
           | Inr err \<Rightarrow>
               Inr [CompositionEnergyAdjustment c (comp_get cmp el) (Some err) nm (mp_cls sch)]))"

definition sulfide_block :: "mp2020 \<Rightarrow> entry \<Rightarrow> error + energy_adjustment list" where
  "sulfide_block sch entry =
     (let cmp = composition entry
      in if comp_contains cmp ''S'' then
           (let sf_type =
                  (if truthy (sulfide_type (data entry)) then the (sulfide_type (data entry))
                   else case entry_structure entry of
                          Some st \<Rightarrow> struct_sulfide_type st
                        | None \<Rightarrow> ''sulfide'');
                sf_type = (if sf_type = ''polysulfide'' then ''sulfide'' else sf_type)
            in if sf_type = ''sulfide''
               then composition_adjustment sch cmp ''S'' ''S'' ''MP2020 anion correction (S)''
               else Inr [])
         else Inr [])"

definition common_peroxides :: "string list" where
  "common_peroxides = [''Li2O2'', ''Na2O2'', ''K2O2'', ''Cs2O2'', ''Rb2O2'', ''BeO2'', ''MgO2'',
                       ''CaO2'', ''SrO2'', ''BaO2'']"

definition common_superoxides :: "string list" where
  "common_superoxides = [''LiO2'', ''NaO2'', ''KO2'', ''RbO2'', ''CsO2'']"

definition ozonides :: "string list" where
  "ozonides = [''LiO3'', ''NaO3'', ''KO3'', ''NaO5'']"

definition oxide_block :: "mp2020 \<Rightarrow> entry \<Rightarrow> error + energy_adjustment list" where
  "oxide_block sch entry =
     (let cmp = composition entry;
          rform = reduced_formula cmp
      in if comp_contains cmp ''O'' then
           (let ox_type =
                  (if correct_peroxide sch then
                     (if truthy (oxide_type (data entry)) then the (oxide_type (data entry))
                      else case entry_structure entry of
                             Some st \<Rightarrow> struct_oxide_type st
                           | None \<Rightarrow>
                               (if rform \<in> set common_peroxides then ''peroxide''
                                else if rform \<in> set common_superoxides then ''superoxide''
                                else if rform \<in> set ozonides then ''ozonide''
                                else ''oxide''))
                   else ''oxide'');
                ox_type = (if ox_type = ''hydroxide'' then ''oxide'' else ox_type)
            in composition_adjustment sch cmp ox_type ''O''
                 (''MP2020 anion correction ('' @ ox_type @ '')''))
         else Inr [])"

text \<open>
  The value of \<^verbatim>\<open>entry.data["oxidation_states"]\<close> once the guess has been cached: the
  entry's own, or the first guess, or the empty dictionary when there is none.
\<close>

definition cached_oxidation_states :: "environment \<Rightarrow> entry \<Rightarrow> (string \<times> real) list" where
  "cached_oxidation_states env entry =
     (case oxidation_states (data entry) of
        Some states \<Rightarrow> states
      | None \<Rightarrow>
          (case oxi_state_guesses env (composition entry) of
             None \<Rightarrow> []
           | Some [] \<Rightarrow> []
           | Some (guess # guesses) \<Rightarrow> guess))"

definition anions :: "string list" where
  "anions = [''Br'', ''I'', ''Se'', ''Si'', ''Sb'', ''Te'', ''H'', ''N'', ''F'', ''Cl'']"

text \<open>One round of the loop over the anions.\<close>

definition anion_step ::
  "environment \<Rightarrow> mp2020 \<Rightarrow> entry \<Rightarrow> (string \<times> real) list \<Rightarrow> string \<Rightarrow> error + energy_adjustment list" where
  "anion_step env sch entry oxi anion =
     (let cmp = composition entry
      in if comp_contains cmp anion \<and> dd_contains (comp_correction sch) anion then
           (case (if get0 oxi anion < 0 then Inr True
                  else case most_electroneg (X env) cmp of
                         Inl exc \<Rightarrow> Inl exc
                       | Inr most_en \<Rightarrow> Inr (anion = most_en)) of
              Inl exc \<Rightarrow> Inl exc
            | Inr apply_correction \<Rightarrow>
                (if apply_correction
                 then composition_adjustment sch cmp anion anion
                        (''MP2020 anion correction ('' @ anion @ '')'')
                 else Inr []))
         else Inr [])"

text \<open>
  One round of the loop of the mixing scheme over \<^verbatim>\<open>comp.elements\<close>, with the symbol and
  the amount of the key of the round.
\<close>

definition u_step ::
  "mp2020 \<Rightarrow> entry \<Rightarrow> string \<Rightarrow> string \<times> real \<Rightarrow> error + energy_adjustment list" where
  "u_step sch entry most_en el =
     (let symbol = fst el;
          expected_u = get0 (sub_table (u_settings sch) most_en) symbol;
          actual_u = get0 (calc_u_of entry) symbol
      in if actual_u \<noteq> expected_u then Inl CompatibilityError
         else case map_of (sub_table (u_corrections sch) most_en) symbol of
                Some c \<Rightarrow>
                  (case dd_get (sub_table_dd (u_errors sch) most_en) symbol of
                     Inl exc \<Rightarrow> Inl exc
                   | Inr err \<Rightarrow>
                       Inr [CompositionEnergyAdjustment c (snd el) (Some err)
                              (''MP2020 GGA/GGA+U mixing correction ('' @ symbol @ '')'') (mp_cls sch)])
              | None \<Rightarrow> Inr [])"

definition u_block :: "environment \<Rightarrow> mp2020 \<Rightarrow> entry \<Rightarrow> error + energy_adjustment list" where
  "u_block env sch entry =
     (case most_electroneg (X env) (composition entry) of
        Inl exc \<Rightarrow> Inl exc
      | Inr most_en \<Rightarrow> collect (u_step sch entry most_en) (amounts (composition entry)))"

definition MP2020_get_adjustments :: "environment \<Rightarrow> mp2020 \<Rightarrow> get_adjustments" where
  "MP2020_get_adjustments env sch entry =
     (if \<not> run_type_check entry then (Inl CompatibilityError, data entry)
      else case potcar_check env sch entry of
             Some exc \<Rightarrow> (Inl exc, data entry)
           | None \<Rightarrow>
               (if comp_len (composition entry) = 1 then (Inr [], data entry)
                else case sulfide_block sch entry of
                       Inl exc \<Rightarrow> (Inl exc, data entry)
                     | Inr sulfide_adj \<Rightarrow>
                 (case oxide_block sch entry of
                       Inl exc \<Rightarrow> (Inl exc, data entry)
                     | Inr oxide_adj \<Rightarrow>
                 (let oxi = cached_oxidation_states env entry;
                      d = (data entry)\<lparr>oxidation_states := Some oxi\<rparr>
                  in case collect (anion_step env sch entry oxi) anions of
                       Inl exc \<Rightarrow> (Inl exc, d)
                     | Inr anion_adj \<Rightarrow>
                 (case u_block env sch entry of
                       Inl exc \<Rightarrow> (Inl exc, d)
                     | Inr u_adj \<Rightarrow> (Inr (sulfide_adj @ oxide_adj @ anion_adj @ u_adj), d))))))"

subsection \<open>AnionCorrection\<close>

record anion_correction =
  ac_name :: string
  ac_oxide_correction :: "(string \<times> real) list"
  ac_sulfide_correction :: table
  ac_correct_peroxide :: bool

text \<open>What the sulfide part and the oxide part add to the correction.\<close>

definition anion_sulfide_part :: "anion_correction \<Rightarrow> entry \<Rightarrow> error + real" where
  "anion_sulfide_part ac entry =
     (let cmp = composition entry
      in if comp_contains cmp ''S'' then
           (let sf_type =
                  (if truthy (sulfide_type (data entry)) then the (sulfide_type (data entry))
                   else case entry_structure entry of
                          Some st \<Rightarrow> struct_sulfide_type st
                        | None \<Rightarrow> ''sulfide'');
                sf_type = (if sf_type = ''polysulfide'' then ''sulfide'' else sf_type)
            in if dd_contains (ac_sulfide_correction ac) sf_type
               then (case dd_get (ac_sulfide_correction ac) sf_type of
                       Inl exc \<Rightarrow> Inl exc
                     | Inr c \<Rightarrow> Inr (c * comp_get cmp ''S''))
               else Inr 0)
         else Inr 0)"

definition oxide_times :: "anion_correction \<Rightarrow> string \<Rightarrow> real \<Rightarrow> error + real" where
  "oxide_times ac key n =
     (case table_get (ac_oxide_correction ac) key of Inl exc \<Rightarrow> Inl exc | Inr c \<Rightarrow> Inr (c * n))"

definition anion_oxide_part :: "anion_correction \<Rightarrow> entry \<Rightarrow> error + real" where
  "anion_oxide_part ac entry =
     (let cmp = composition entry;
          n_O = comp_get cmp ''O''
      in if comp_contains cmp ''O'' then
           (if ac_correct_peroxide ac then
              (if truthy (oxide_type (data entry)) then
                 (let ot = the (oxide_type (data entry))
                  in case (if ot \<in> set (map fst (ac_oxide_correction ac))
                           then oxide_times ac ot n_O else Inr 0) of
                       Inl exc \<Rightarrow> Inl exc
                     | Inr c1 \<Rightarrow>
                         (if ot = ''hydroxide''
                          then (case oxide_times ac ''oxide'' n_O of
                                  Inl exc \<Rightarrow> Inl exc
                                | Inr c2 \<Rightarrow> Inr (c1 + c2))
                          else Inr c1))
               else case entry_structure entry of
                      Some st \<Rightarrow>
                        (if struct_oxide_type st \<in> set (map fst (ac_oxide_correction ac))
                         then oxide_times ac (struct_oxide_type st) (struct_oxide_nbonds st)
                         else if struct_oxide_type st = ''hydroxide''
                         then oxide_times ac ''oxide'' n_O
                         else Inr 0)
                    | None \<Rightarrow>
                        (let rform = reduced_formula cmp
                         in if rform \<in> set common_peroxides then oxide_times ac ''peroxide'' n_O
                            else if rform \<in> set common_superoxides then oxide_times ac ''superoxide'' n_O
                            else if rform \<in> set ozonides then oxide_times ac ''ozonide'' n_O
                            else if comp_contains cmp ''O'' \<and> length (comp_elements cmp) > 1
                            then oxide_times ac ''oxide'' n_O
                            else Inr 0))
            else oxide_times ac ''oxide'' n_O)
         else Inr 0)"

definition AnionCorrection_get_correction :: "anion_correction \<Rightarrow> entry \<Rightarrow> error + ufloat" where
  "AnionCorrection_get_correction ac entry =
     (if comp_len (composition entry) = 1 then Inr ufloat_zero
      else case anion_sulfide_part ac entry of
             Inl exc \<Rightarrow> Inl exc
           | Inr s \<Rightarrow>
               (case anion_oxide_part ac entry of
                  Inl exc \<Rightarrow> Inl exc
                | Inr ox \<Rightarrow> Inr (uadd_float (uadd_float ufloat_zero s) ox)))"

subsection \<open>AqueousCorrection\<close>

definition MU_H2O :: real where
  "MU_H2O = - 2.4583"

text \<open>\<^verbatim>\<open>int\<close> of a float truncates towards zero.\<close>

definition py_int :: "real \<Rightarrow> int" where
  "py_int x = (if x \<ge> 0 then \<lfloor>x\<rfloor> else \<lceil>x\<rceil>)"

record aqueous_correction =
  aq_name :: string
  aq_cpd_energies :: "(string \<times> real) list"
  aq_comp_correction :: table
  aq_oxide_correction :: table
  aq_cpd_errors :: table

definition aqueous_compound_part :: "aqueous_correction \<Rightarrow> entry \<Rightarrow> error + ufloat" where
  "aqueous_compound_part aq entry =
     (let cmp = composition entry;
          rform = reduced_formula cmp
      in case map_of (aq_cpd_energies aq) rform of
           Some cpd_energy \<Rightarrow>
             (case dd_get (aq_cpd_errors aq) rform of
                Inl exc \<Rightarrow> Inl exc
              | Inr cpd_error \<Rightarrow>
                  (if rform \<in> set [''H2'', ''H2O'']
                   then Inr (uadd ufloat_zero
                          \<lparr>nominal_value = cpd_energy * num_atoms cmp - uncorrected_energy entry
                                             - entry_correction entry,
                           std_dev = cpd_error * num_atoms cmp\<rparr>)
                   else Inr (uadd ufloat_zero
                          \<lparr>nominal_value = cpd_energy * num_atoms cmp,
                           std_dev = cpd_error * num_atoms cmp\<rparr>)))
         | None \<Rightarrow> Inr ufloat_zero)"

definition aqueous_water_part :: "aqueous_correction \<Rightarrow> entry \<Rightarrow> error + real" where
  "aqueous_water_part aq entry =
     (let cmp = composition entry
      in if reduced_formula cmp \<noteq> ''H2O'' then
           (let nH2O = py_int (min (comp_get cmp ''H'' / 2) (comp_get cmp ''O''))
            in if nH2O > 0 then
                 (case dd_get (aq_comp_correction aq) ''H'' of
                    Inl exc \<Rightarrow> Inl exc
                  | Inr c_H \<Rightarrow>
                 (case dd_get (aq_comp_correction aq) ''oxide'' of
                    Inl exc \<Rightarrow> Inl exc
                  | Inr c_oxide \<Rightarrow>
                 (case dd_get (aq_oxide_correction aq) ''oxide'' of
                    Inl exc \<Rightarrow> Inl exc
                  | Inr o_oxide \<Rightarrow>
                      Inr (- ((comp_get cmp ''H'' - of_int nH2O / 2) * c_H)
                           - ((comp_get cmp ''O'' - of_int nH2O) * (c_oxide + o_oxide))
                           + (- 1 * MU_H2O * of_int nH2O)))))
               else Inr 0)
         else Inr 0)"

definition AqueousCorrection_get_correction :: "aqueous_correction \<Rightarrow> entry \<Rightarrow> error + ufloat" where
  "AqueousCorrection_get_correction aq entry =
     (case aqueous_compound_part aq entry of
        Inl exc \<Rightarrow> Inl exc
      | Inr correction \<Rightarrow>
          (case aqueous_water_part aq entry of
             Inl exc \<Rightarrow> Inl exc
           | Inr w \<Rightarrow> Inr (uadd_float correction w)))"

subsection \<open>CorrectionsList\<close>

datatype correction =
    PotcarCorrection potcar_correction
  | GasCorrection gas_correction
  | AnionCorrection anion_correction
  | UCorrection u_correction
  | AqueousCorrection aqueous_correction

fun get_correction :: "environment \<Rightarrow> correction \<Rightarrow> entry \<Rightarrow> error + ufloat" where
  "get_correction env (PotcarCorrection pc) entry = PotcarCorrection_get_correction env pc entry"
| "get_correction env (GasCorrection gc) entry = Inr (GasCorrection_get_correction gc entry)"
| "get_correction env (AnionCorrection ac) entry = AnionCorrection_get_correction ac entry"
| "get_correction env (UCorrection uc) entry = UCorrection_get_correction env uc entry"
| "get_correction env (AqueousCorrection aq) entry = AqueousCorrection_get_correction aq entry"

fun correction_str :: "correction \<Rightarrow> string" where
  "correction_str (PotcarCorrection pc) = pc_input_set pc @ '' Potcar Correction''"
| "correction_str (GasCorrection gc) = gc_name gc @ '' Gas Correction''"
| "correction_str (AnionCorrection ac) = ac_name ac @ '' Anion Correction''"
| "correction_str (UCorrection uc) = uc_name uc @ '' '' @ uc_compat_type uc @ '' Correction''"
| "correction_str (AqueousCorrection aq) = aq_name aq @ '' Aqueous Correction''"

record corrections_list =
  corrections :: "correction list"
  run_types :: "string list"
  cl_cls :: string

text \<open>
  The two dictionaries of \<^verbatim>\<open>get_corrections_dict\<close>, in insertion order: assigning to a
  key that is present keeps its place.
\<close>

fun get_corrections_dict_loop ::
  "environment \<Rightarrow> entry \<Rightarrow> correction list \<Rightarrow> (string \<times> real) list \<times> (string \<times> real) list \<Rightarrow>
   error + (string \<times> real) list \<times> (string \<times> real) list" where
  "get_corrections_dict_loop env entry [] (corrs, uncertainties) = Inr (corrs, uncertainties)"
| "get_corrections_dict_loop env entry (c # cs) (corrs, uncertainties) =
     (case get_correction env c entry of
        Inl exc \<Rightarrow> Inl exc
      | Inr val \<Rightarrow>
          get_corrections_dict_loop env entry cs
            (if u_nonzero val
             then (AList.update (correction_str c) (nominal_value val) corrs,
                   AList.update (correction_str c) (std_dev val) uncertainties)
             else (corrs, uncertainties)))"

definition get_corrections_dict ::
  "environment \<Rightarrow> corrections_list \<Rightarrow> entry \<Rightarrow>
   error + (string \<times> real) list \<times> (string \<times> real) list" where
  "get_corrections_dict env cl entry = get_corrections_dict_loop env entry (corrections cl) ([], [])"

definition CorrectionsList_get_adjustments :: "environment \<Rightarrow> corrections_list \<Rightarrow> get_adjustments" where
  "CorrectionsList_get_adjustments env cl entry =
     (if run_type (parameters entry) \<notin> set (map Some (run_types cl))
      then (Inl CompatibilityError, data entry)
      else case get_corrections_dict env cl entry of
             Inl exc \<Rightarrow> (Inl exc, data entry)
           | Inr (corrs, uncertainties) \<Rightarrow>
               (Inr (map (\<lambda>(k, v).
                        ConstantEnergyAdjustment v
                          (if v \<noteq> 0 \<and> get0 uncertainties k = 0 then None
                           else Some (get0 uncertainties k))
                          k (cl_cls cl))
                      corrs),
                data entry))"


subsection \<open>MaterialsProjectAqueousCompatibility\<close>

text \<open>
  The state of the scheme. \<^verbatim>\<open>fit_h2_energy\<close> is assigned by every call of
  \<^verbatim>\<open>get_adjustments\<close> before it is read, so it is a function of the other fields here.
\<close>

record aqueous_compat =
  solid_compat :: "get_adjustments option"
  o2_energy :: "real option"
  h2o_energy :: "real option"
  h2_energy :: "real option"
  h2o_adjustments :: "real option"
  aqc_cls :: string

definition cpd_entropies :: "(string \<times> real) list" where
  "cpd_entropies = [(''O2'', 0.316731), (''N2'', 0.295729), (''F2'', 0.313025), (''Cl2'', 0.344373),
                    (''Br'', 0.235039), (''Hg'', 0.234421), (''H2O'', 0.071963)]"

text \<open>
  \<^verbatim>\<open>round(x, ndigits)\<close>: to the nearest multiple of \<open>10\<^sup>-\<^sup>n\<close>, a tie to the even one.
\<close>

definition round_half_even :: "real \<Rightarrow> int" where
  "round_half_even x =
     (let f = \<lfloor>x\<rfloor>; d = x - of_int f
      in if d < 1 / 2 then f else if d > 1 / 2 then f + 1 else if even f then f else f + 1)"

definition py_round :: "real \<Rightarrow> nat \<Rightarrow> real" where
  "py_round x ndigits = of_int (round_half_even (x * 10 ^ ndigits)) / 10 ^ ndigits"

definition fit_h2_energy :: "real \<Rightarrow> real \<Rightarrow> real" where
  "fit_h2_energy o2 h2o =
     py_round (0.5 * (3 * (h2o - get0 cpd_entropies ''H2O'') - (o2 - get0 cpd_entropies ''O2'') - MU_H2O)) 6"

definition h2_adjustment :: "aqueous_compat \<Rightarrow> real \<Rightarrow> entry \<Rightarrow> error + energy_adjustment list" where
  "h2_adjustment sch fit entry =
     (if reduced_formula (composition entry) = ''H2'' then
        (case h2_energy sch of
           None \<Rightarrow> Inl AssertionError
         | Some h2 \<Rightarrow>
             Inr [ConstantEnergyAdjustment ((fit - h2) * num_atoms (composition entry)) None
                    ''MP Aqueous H2 / H2O referencing'' (aqc_cls sch)])
      else Inr [])"

definition entropy_adjustment :: "aqueous_compat \<Rightarrow> entry \<Rightarrow> energy_adjustment list" where
  "entropy_adjustment sch entry =
     (let rform = reduced_formula (composition entry)
      in if rform \<in> set (map fst cpd_entropies)
         then [TemperatureEnergyAdjustment (- get0 cpd_entropies rform / 298) 298
                 (num_atoms (composition entry)) None
                 ''Compound entropy at room temperature'' (aqc_cls sch)]
         else [])"

definition count_nH2O :: "composition \<Rightarrow> real" where
  "count_nH2O cmp =
     of_int (py_int (min (get0 (reduced_composition cmp) ''H'' / 2.0)
                         (get0 (reduced_composition cmp) ''O'')))
     * reduction_factor cmp"

definition hydrate_adjustment :: "aqueous_compat \<Rightarrow> real \<Rightarrow> entry \<Rightarrow> energy_adjustment list" where
  "hydrate_adjustment sch h2o_adj entry =
     (if reduced_formula (composition entry) \<noteq> ''H2O'' then
        (let nH2O = count_nH2O (composition entry)
         in if nH2O > 0
            then [CompositionEnergyAdjustment (- 1 * (h2o_adj * 3 + MU_H2O)) nH2O None
                    ''MP Aqueous hydrate'' (aqc_cls sch)]
            else [])
      else [])"

definition Aqueous_get_adjustments :: "aqueous_compat \<Rightarrow> get_adjustments" where
  "Aqueous_get_adjustments sch entry =
     (case (o2_energy sch, h2o_energy sch, h2o_adjustments sch) of
        (Some o2, Some h2o, Some h2o_adj) \<Rightarrow>
          (case h2_adjustment sch (fit_h2_energy o2 h2o) entry of
             Inl exc \<Rightarrow> (Inl exc, data entry)
           | Inr h2_adj \<Rightarrow>
               (Inr (h2_adj @ entropy_adjustment sch entry @ hydrate_adjustment sch h2o_adj entry),
                data entry))
      | _ \<Rightarrow> (Inl CompatibilityError, data entry))"

text \<open>\<^verbatim>\<open>not x\<close> for an optional float: \<^verbatim>\<open>None\<close> and 0.0 are false.\<close>

definition unset :: "real option \<Rightarrow> bool" where
  "unset v = (v = None \<or> v = Some 0)"

definition with_formula :: "string \<Rightarrow> entry list \<Rightarrow> entry list" where
  "with_formula rform entries = filter (\<lambda>e. reduced_formula (composition e) = rform) entries"

definition scan_o2 :: "aqueous_compat \<Rightarrow> entry list \<Rightarrow> aqueous_compat" where
  "scan_o2 sch entries =
     (if unset (o2_energy sch) then
        (case with_formula ''O2'' entries of
           [] \<Rightarrow> sch
         | e # es \<Rightarrow> sch\<lparr>o2_energy := Some (min_list (map energy_per_atom (e # es)))\<rparr>)
      else sch)"

definition scan_h2o :: "aqueous_compat \<Rightarrow> entry list \<Rightarrow> aqueous_compat" where
  "scan_h2o sch entries =
     (if unset (h2o_energy sch) \<and> unset (h2o_adjustments sch) then
        (case sort_key energy_per_atom (with_formula ''H2O'' entries) of
           [] \<Rightarrow> sch
         | e # es \<Rightarrow>
             sch\<lparr>h2o_energy := Some (energy_per_atom e),
                 h2o_adjustments := Some (entry_correction e / num_atoms (composition e))\<rparr>)
      else sch)"

definition scan_h2 :: "aqueous_compat \<Rightarrow> entry list \<Rightarrow> aqueous_compat" where
  "scan_h2 sch entries =
     (case sort_key energy_per_atom (with_formula ''H2'' entries) of
        [] \<Rightarrow> sch
      | e # es \<Rightarrow> sch\<lparr>h2_energy := Some (energy_per_atom e)\<rparr>)"

text \<open>
  The overriding \<^verbatim>\<open>process_entries\<close>: the result and the scheme as the call leaves it.
  The pass of the solid scheme always cleans and takes the default \<^verbatim>\<open>on_error\<close>.
\<close>

definition solid_pass :: "aqueous_compat \<Rightarrow> entry list \<Rightarrow> error + entry list" where
  "solid_pass sch entries =
     (case solid_compat sch of
        None \<Rightarrow> Inr entries
      | Some solid \<Rightarrow> process_entries solid entries True Ignore)"

definition scan :: "aqueous_compat \<Rightarrow> entry list \<Rightarrow> aqueous_compat" where
  "scan sch entries =
     (let sch = (if length entries > 1 then scan_h2o (scan_o2 sch entries) entries else sch)
      in scan_h2 sch entries)"

definition Aqueous_process_entries ::
  "aqueous_compat \<Rightarrow> entry list \<Rightarrow> bool \<Rightarrow> on_error \<Rightarrow> (error + entry list) \<times> aqueous_compat" where
  "Aqueous_process_entries sch entries clean oe =
     (case solid_pass sch entries of
        Inl exc \<Rightarrow> (Inl exc, sch)
      | Inr entries \<Rightarrow>
          (let sch = scan sch entries
           in (process_entries (Aqueous_get_adjustments sch) entries clean oe, sch)))"

subsection \<open>A configuration and entries to run the schemes on\<close>

definition ex_X :: "string \<Rightarrow> real" where
  "ex_X el = get0 [(''H'', 2.20), (''O'', 3.44), (''Fe'', 1.83), (''Mg'', 1.31), (''Si'', 1.90)] el"

definition ex_env :: environment where
  "ex_env = \<lparr>X = ex_X, pmg_potcar_checks = None,
             mp_relax_set_potcar = PotcarDicts
               [(''Fe'', [(''hash'', ''994537de5c4122b7f1b77fb604476db4''), (''symbol'', ''Fe_pv'')]),
                (''H'', [(''hash'', ''bb43c666e3d36577264afe07669e9582''), (''symbol'', ''H'')]),
                (''Mg'', [(''hash'', ''1771eb72adbbfa6310d66e7517e49930''), (''symbol'', ''Mg_pv'')]),
                (''O'', [(''hash'', ''7a25bc5b9a5393f46600a4939d357982''), (''symbol'', ''O'')]),
                (''Si'', [(''hash'', ''b2b0ea6feb62e7cde209616683b8f7f5''), (''symbol'', ''Si'')])],
             oxi_state_guesses = (\<lambda>cmp. Some [])\<rparr>"

definition ex_mp2020 :: mp2020 where
  "ex_mp2020 = \<lparr>correct_peroxide = True, check_potcar = True, check_potcar_hash = False,
                comp_correction = Some [(''oxide'', - 0.687), (''peroxide'', - 0.465),
                                        (''S'', - 0.503), (''Si'', 0.071), (''H'', - 0.179)],
                comp_errors = Some [(''oxide'', 0.002), (''peroxide'', 0.0182),
                                    (''S'', 0.0093), (''Si'', 0.0165), (''H'', 0.0013)],
                u_settings = [(''O'', [(''Fe'', 5.3)])],
                u_corrections = [(''O'', [(''Fe'', - 2.256)])],
                u_errors = [(''O'', [(''Fe'', 0.0101)])],
                mp_cls = ''MaterialsProject2020Compatibility''\<rparr>"

definition ex_data :: entry_data where
  "ex_data = \<lparr>sulfide_type = None, oxide_type = None, oxidation_states = None\<rparr>"

definition ex_parameters :: "string list \<Rightarrow> parameters" where
  "ex_parameters symbols = \<lparr>run_type = Some ''GGA'', hubbards = None, software = None,
                            potcar_spec = None, potcar_symbols = Some symbols\<rparr>"

definition ex_MgO :: entry where
  "ex_MgO = \<lparr>entry_id = ''MgO'',
             composition = \<lparr>amounts = [(''Mg'', 1), (''O'', 1)], reduced_formula = ''MgO'',
                            num_atoms = 2, reduced_composition = [(''Mg'', 1), (''O'', 1)],
                            reduction_factor = 1\<rparr>,
             uncorrected_energy = - 12, 
             parameters = ex_parameters [''PAW_PBE Mg_pv 06Sep2000'', ''PAW_PBE O 08Apr2002''],
             data = ex_data, entry_structure = None, energy_adjustments = []\<rparr>"

definition ex_Fe :: entry where
  "ex_Fe = \<lparr>entry_id = ''Fe'',
            composition = \<lparr>amounts = [(''Fe'', 2)], reduced_formula = ''Fe'',
                           num_atoms = 2, reduced_composition = [(''Fe'', 1)],
                           reduction_factor = 2\<rparr>,
            uncorrected_energy = - 16,
            parameters = (ex_parameters [''PAW_PBE Fe_pv 06Sep2000''])
                           \<lparr>run_type := Some ''GGA+U'', hubbards := Some [(''Fe'', 5.3)]\<rparr>,
            data = ex_data, entry_structure = None, energy_adjustments = []\<rparr>"

definition ex_Fe2O3 :: entry where
  "ex_Fe2O3 = \<lparr>entry_id = ''Fe2O3'',
               composition = \<lparr>amounts = [(''Fe'', 2), (''O'', 3)], reduced_formula = ''Fe2O3'',
                              num_atoms = 5, reduced_composition = [(''Fe'', 2), (''O'', 3)],
                              reduction_factor = 1\<rparr>,
               uncorrected_energy = - 34,
               parameters = (ex_parameters [''PAW_PBE Fe_pv 06Sep2000'', ''PAW_PBE O 08Apr2002''])
                              \<lparr>run_type := Some ''GGA+U'', hubbards := Some [(''Fe'', 5.3)]\<rparr>,
               data = ex_data, entry_structure = None, energy_adjustments = []\<rparr>"

definition ex_SiH4 :: entry where
  "ex_SiH4 = \<lparr>entry_id = ''SiH4'',
              composition = \<lparr>amounts = [(''Si'', 1), (''H'', 4)], reduced_formula = ''SiH4'',
                             num_atoms = 5, reduced_composition = [(''Si'', 1), (''H'', 4)],
                             reduction_factor = 1\<rparr>,
              uncorrected_energy = - 19,
              parameters = ex_parameters [''PAW_PBE Si 05Jan2001'', ''PAW_PBE H 15Jun2001''],
              data = ex_data\<lparr>oxidation_states := Some [(''Si'', - 4), (''H'', 1)]\<rparr>,
              entry_structure = None, energy_adjustments = []\<rparr>"

definition ex_oxide_adjustment :: energy_adjustment where
  "ex_oxide_adjustment =
     CompositionEnergyAdjustment (- 0.687) 1 (Some 0.002)
       ''MP2020 anion correction (oxide)'' ''MaterialsProject2020Compatibility''"

definition ex_manual_adjustment :: energy_adjustment where
  "ex_manual_adjustment =
     CompositionEnergyAdjustment (- 0.5) 1 (Some 0.002)
       ''MP2020 anion correction (oxide)'' ''MaterialsProject2020Compatibility''"

definition ex_MgO_manual :: entry where
  "ex_MgO_manual = ex_MgO\<lparr>energy_adjustments := [ex_manual_adjustment]\<rparr>"

definition ex_MgO_both :: entry where
  "ex_MgO_both = ex_MgO\<lparr>energy_adjustments := [ex_oxide_adjustment, ex_manual_adjustment]\<rparr>"

definition ex_MgO_hse :: entry where
  "ex_MgO_hse = ex_MgO\<lparr>parameters := (parameters ex_MgO)\<lparr>run_type := Some ''HSE''\<rparr>\<rparr>"

definition ex_cached :: entry_data where
  "ex_cached = ex_data\<lparr>oxidation_states := Some []\<rparr>"

definition ex_Fe2O3_GGA :: entry where
  "ex_Fe2O3_GGA = ex_Fe2O3\<lparr>parameters := ex_parameters [''PAW_PBE Fe_pv 06Sep2000'',
                                                           ''PAW_PBE O 08Apr2002'']\<rparr>"

text \<open>
  An entry whose composition has oxygen as its first key and iron under two keys, as a
  composition of \<^verbatim>\<open>Fe2+\<close>, \<^verbatim>\<open>Fe3+\<close> and \<^verbatim>\<open>O2-\<close> has.
\<close>

definition ex_Fe3O4 :: entry where
  "ex_Fe3O4 = \<lparr>entry_id = ''Fe3O4'',
               composition = \<lparr>amounts = [(''O'', 4), (''Fe'', 1), (''Fe'', 2)],
                              reduced_formula = ''Fe3O4'', num_atoms = 7,
                              reduced_composition = [(''O'', 4), (''Fe'', 1), (''Fe'', 2)],
                              reduction_factor = 1\<rparr>,
               uncorrected_energy = - 48,
               parameters = (ex_parameters [''PAW_PBE Fe_pv 06Sep2000'', ''PAW_PBE O 08Apr2002''])
                              \<lparr>run_type := Some ''GGA+U'', hubbards := Some [(''Fe'', 5.3)]\<rparr>,
               data = ex_data, entry_structure = None, energy_adjustments = []\<rparr>"

definition ex_u_correction :: u_correction where
  "ex_u_correction = \<lparr>uc_name = ''MIT'', uc_compat_type = ''Advanced'',
                      uc_u_settings = [(''O'', [(''Fe'', 5.3)])],
                      uc_u_corrections = [(''O'', [(''Fe'', - 1.723)])],
                      uc_u_errors = []\<rparr>"

definition ex_element :: "string \<Rightarrow> real \<Rightarrow> string \<Rightarrow> entry" where
  "ex_element el e_total ident =
     \<lparr>entry_id = ident,
      composition = \<lparr>amounts = [(el, 2)], reduced_formula = el @ ''2'', num_atoms = 2,
                     reduced_composition = [(el, 1)], reduction_factor = 2\<rparr>,
      uncorrected_energy = e_total,
      parameters = ex_parameters [''PAW_PBE '' @ el @ '' 15Jun2001''],
      data = ex_data, entry_structure = None, energy_adjustments = []\<rparr>"

definition ex_O2 :: entry where
  "ex_O2 = ex_element ''O'' (- 9.8) ''O2''"

definition ex_H2_low :: entry where
  "ex_H2_low = ex_element ''H'' (- 6.8) ''H2-low''"

definition ex_H2_high :: entry where
  "ex_H2_high = ex_element ''H'' (- 6.6) ''H2-high''"

definition ex_H2O :: entry where
  "ex_H2O = \<lparr>entry_id = ''H2O'',
             composition = \<lparr>amounts = [(''H'', 2), (''O'', 1)], reduced_formula = ''H2O'',
                            num_atoms = 3, reduced_composition = [(''H'', 2), (''O'', 1)],
                            reduction_factor = 1\<rparr>,
             uncorrected_energy = - 14.7,
             parameters = ex_parameters [''PAW_PBE H 15Jun2001'', ''PAW_PBE O 08Apr2002''],
             data = ex_data, entry_structure = None, energy_adjustments = []\<rparr>"

definition ex_hydrate :: entry where
  "ex_hydrate = \<lparr>entry_id = ''FeO.2H2O'',
                 composition = \<lparr>amounts = [(''Fe'', 1), (''H'', 4), (''O'', 3)],
                                reduced_formula = ''FeH4O3'', num_atoms = 8,
                                reduced_composition = [(''Fe'', 1), (''H'', 4), (''O'', 3)],
                                reduction_factor = 1\<rparr>,
                 uncorrected_energy = - 45,
                 parameters = (ex_parameters [''PAW_PBE Fe_pv 06Sep2000'', ''PAW_PBE H 15Jun2001'',
                                              ''PAW_PBE O 08Apr2002''])
                                \<lparr>run_type := Some ''GGA+U'', hubbards := Some [(''Fe'', 5.3)]\<rparr>,
                 data = ex_data, entry_structure = None, energy_adjustments = []\<rparr>"

definition ex_aqueous :: aqueous_compat where
  "ex_aqueous = \<lparr>solid_compat = Some (MP2020_get_adjustments ex_env ex_mp2020),
                 o2_energy = None, h2o_energy = None, h2_energy = None, h2o_adjustments = None,
                 aqc_cls = ''MaterialsProjectAqueousCompatibility''\<rparr>"

definition ex_aqueous_given :: aqueous_compat where
  "ex_aqueous_given = ex_aqueous\<lparr>o2_energy := Some (- 4.9), h2o_energy := Some (- 5.129),
                                 h2o_adjustments := Some (- 0.229)\<rparr>"

definition ex_gas_correction :: gas_correction where
  "ex_gas_correction = \<lparr>gc_name = ''MIT'', cpd_energies = [(''O2'', - 4.25919), (''H2'', - 3.3)]\<rparr>"



definition ex_H2O_solid :: entry where
  "ex_H2O_solid = ex_H2O\<lparr>data := ex_cached, energy_adjustments := [ex_oxide_adjustment]\<rparr>"

definition ex_hydrate_solid :: entry where
  "ex_hydrate_solid =
     ex_hydrate\<lparr>data := ex_cached,
                energy_adjustments :=
                  [CompositionEnergyAdjustment (- 0.687) 3 (Some 0.002)
                     ''MP2020 anion correction (oxide)'' ''MaterialsProject2020Compatibility'',
                   CompositionEnergyAdjustment (- 2.256) 1 (Some 0.0101)
                     ''MP2020 GGA/GGA+U mixing correction (Fe)''
                     ''MaterialsProject2020Compatibility'']\<rparr>"

definition ex_entropy_adjustment :: "real \<Rightarrow> real \<Rightarrow> energy_adjustment" where
  "ex_entropy_adjustment s n =
     TemperatureEnergyAdjustment (- s / 298) 298 n None
       ''Compound entropy at room temperature'' ''MaterialsProjectAqueousCompatibility''"

definition ex_hydrate_adjustment :: energy_adjustment where
  "ex_hydrate_adjustment =
     CompositionEnergyAdjustment 3.1453 2 None
       ''MP Aqueous hydrate'' ''MaterialsProjectAqueousCompatibility''"

definition ex_H2_adjustment :: energy_adjustment where
  "ex_H2_adjustment =
     ConstantEnergyAdjustment (- 1.127858) None
       ''MP Aqueous H2 / H2O referencing'' ''MaterialsProjectAqueousCompatibility''"

definition ex_aqueous_scanned :: aqueous_compat where
  "ex_aqueous_scanned = ex_aqueous_given\<lparr>h2_energy := Some (- 3.4)\<rparr>"

text \<open>
  The aqueous scheme without a solid scheme, and the two entries of H2 as a first pass of it
  leaves them.
\<close>

definition ex_aqueous_bare :: aqueous_compat where
  "ex_aqueous_bare = ex_aqueous_scanned\<lparr>solid_compat := None\<rparr>"

definition ex_aqueous_rescanned :: aqueous_compat where
  "ex_aqueous_rescanned = ex_aqueous_bare\<lparr>h2_energy := Some (- 3.963929)\<rparr>"

definition ex_H2_low_adjusted :: entry where
  "ex_H2_low_adjusted = ex_H2_low\<lparr>energy_adjustments := [ex_H2_adjustment]\<rparr>"

definition ex_H2_high_adjusted :: entry where
  "ex_H2_high_adjusted = ex_H2_high\<lparr>energy_adjustments := [ex_H2_adjustment]\<rparr>"

definition ex_H2_zero_adjustment :: energy_adjustment where
  "ex_H2_zero_adjustment =
     ConstantEnergyAdjustment 0 None
       ''MP Aqueous H2 / H2O referencing'' ''MaterialsProjectAqueousCompatibility''"





definition ex_O2_aqueous :: entry where
  "ex_O2_aqueous = ex_O2\<lparr>energy_adjustments := [ex_entropy_adjustment 0.316731 2]\<rparr>"

definition ex_H2O_aqueous :: entry where
  "ex_H2O_aqueous =
     ex_H2O_solid\<lparr>energy_adjustments := [ex_oxide_adjustment, ex_entropy_adjustment 0.071963 3]\<rparr>"

definition ex_hydrate_aqueous :: entry where
  "ex_hydrate_aqueous =
     ex_hydrate_solid\<lparr>energy_adjustments :=
                         energy_adjustments ex_hydrate_solid @ [ex_hydrate_adjustment]\<rparr>"

section \<open>Verified properties\<close>

subsection \<open>The loop over the entries\<close>

lemma process_loop_Inr:
  "process_loop ga clean oe es acc = Inr out \<Longrightarrow>
   out = acc @ map (\<lambda>e. fst (process_entry_body ga clean e))
                   (filter (\<lambda>e. snd (process_entry_body ga clean e) = Inr True) es)"
proof (induction es arbitrary: acc)
  case Nil
  then show ?case by simp
next
  case (Cons e es)
  obtain e' r where b: "process_entry_body ga clean e = (e', r)"
    by (cases "process_entry_body ga clean e")
  show ?case
  proof (cases r)
    case (Inl exc)
    with Cons.prems b have "process_loop ga clean oe es acc = Inr out"
      by (simp split: if_splits)
    from Cons.IH [OF this] b Inl show ?thesis by simp
  next
    case (Inr keep)
    with Cons.prems b
    have "process_loop ga clean oe es (if keep then acc @ [e'] else acc) = Inr out"
      by simp
    from Cons.IH [OF this] b Inr show ?thesis by simp
  qed
qed

lemma process_loop_no_compat:
  "oe \<noteq> Raise \<Longrightarrow> process_loop ga clean oe es acc \<noteq> Inl CompatibilityError"
proof (induction es arbitrary: acc)
  case Nil
  then show ?case by simp
next
  case (Cons e es)
  obtain e' r where b: "process_entry_body ga clean e = (e', r)"
    by (cases "process_entry_body ga clean e")
  show ?case using Cons b by (cases r) auto
qed

lemma process_entries_Inr:
  "process_entries ga entries clean oe = Inr out \<Longrightarrow>
   out = map (\<lambda>e. fst (process_entry_body ga clean e))
             (filter (\<lambda>e. snd (process_entry_body ga clean e) = Inr True) entries)"
  using process_loop_Inr [of ga clean oe entries "[]" out]
  by (simp add: process_entries_def)

lemma process_entry_body_Inl:
  "snd (process_entry_body ga clean e) = Inl exc \<Longrightarrow>
   fst (ga (if clean then e\<lparr>energy_adjustments := []\<rparr> else e)) = Inl exc"
  by (cases "ga (if clean then e\<lparr>energy_adjustments := []\<rparr> else e)")
     (auto simp: process_entry_body_def Let_def split: sum.splits prod.splits)

lemma process_loop_returns:
  "\<forall>e\<in>set es. \<forall>exc.
     fst (ga (if clean then e\<lparr>energy_adjustments := []\<rparr> else e)) = Inl exc \<longrightarrow> exc = CompatibilityError \<Longrightarrow>
   oe \<noteq> Raise \<Longrightarrow> \<exists>out. process_loop ga clean oe es acc = Inr out"
proof (induction es arbitrary: acc)
  case Nil
  then show ?case by simp
next
  case (Cons e es)
  obtain e' r where b: "process_entry_body ga clean e = (e', r)"
    by (cases "process_entry_body ga clean e")
  show ?case
  proof (cases r)
    case (Inl exc)
    with b have "snd (process_entry_body ga clean e) = Inl exc" by simp
    from process_entry_body_Inl [OF this] Cons.prems(1) have "exc = CompatibilityError" by simp
    with Inl b Cons show ?thesis by simp
  next
    case (Inr keep)
    with b Cons show ?thesis by simp
  qed
qed

lemma filter_subseq:
  "\<exists>kept. subseq kept xs \<and> map g (filter p (map f (filter q xs))) = map (\<lambda>x. g (f x)) kept"
proof -
  have "map g (filter p (map f (filter q xs))) = map (\<lambda>x. g (f x)) (filter (\<lambda>x. p (f x)) (filter q xs))"
    by (simp add: filter_map comp_def)
  moreover have "subseq (filter (\<lambda>x. p (f x)) (filter q xs)) xs"
    by (meson subseq_filter_left subseq_order.order_trans)
  ultimately show ?thesis by blast
qed

subsection \<open>The loop over the computed adjustments\<close>

lemma apply_adjustments_flag:
  "apply_adjustments adjs (eas, True) = (eas', ign') \<Longrightarrow> ign'"
  by (induction adjs arbitrary: eas) (auto split: if_splits)

lemma apply_adjustments_append:
  "apply_adjustments adjs (eas, ign) = (eas', ign') \<Longrightarrow>
   \<exists>new. eas' = eas @ new \<and> set new \<subseteq> set adjs \<and> (\<forall>x\<in>set new. ea_key x \<notin> set (map ea_key eas))"
proof (induction adjs arbitrary: eas ign)
  case Nil
  then show ?case by simp
next
  case (Cons ea rest)
  show ?case
  proof (cases "ea_triple ea \<in> set (map ea_triple eas) \<or> ea_key ea \<in> set (map ea_key eas)")
    case True
    then obtain ign1 where "apply_adjustments rest (eas, ign1) = (eas', ign')"
      using Cons.prems by (auto split: if_splits)
    from Cons.IH [OF this] show ?thesis by auto
  next
    case False
    then have "apply_adjustments rest (eas @ [ea], ign) = (eas', ign')"
      using Cons.prems by simp
    from Cons.IH [OF this] obtain new where n: "eas' = (eas @ [ea]) @ new" "set new \<subseteq> set rest"
      "\<forall>x\<in>set new. ea_key x \<notin> set (map ea_key (eas @ [ea]))" by blast
    have "eas' = eas @ (ea # new)" using n by simp
    moreover have "set (ea # new) \<subseteq> set (ea # rest)" using n by auto
    moreover have "\<forall>x\<in>set (ea # new). ea_key x \<notin> set (map ea_key eas)" using n False by auto
    ultimately show ?thesis by blast
  qed
qed

lemma triple_key: "ea_triple a = ea_triple b \<Longrightarrow> ea_key a = ea_key b"
  by (simp add: ea_triple_def ea_key_def)

lemma apply_adjustments_conflict:
  "apply_adjustments adjs (eas, ign) = (eas', ign') \<Longrightarrow> ea \<in> set adjs \<Longrightarrow>
   ea_key ea \<in> set (map ea_key eas) \<Longrightarrow> ea_triple ea \<notin> set (map ea_triple eas) \<Longrightarrow> ign'"
proof (induction adjs arbitrary: eas ign)
  case Nil
  then show ?case by simp
next
  case (Cons a rest)
  show ?case
  proof (cases "ea = a")
    case True
    with Cons.prems have "apply_adjustments rest (eas, True) = (eas', ign')" by simp
    then show ?thesis by (rule apply_adjustments_flag)
  next
    case False
    with Cons.prems have mem: "ea \<in> set rest" by simp
    show ?thesis
    proof (cases "ea_triple a \<in> set (map ea_triple eas) \<or> ea_key a \<in> set (map ea_key eas)")
      case True
      then obtain ign1 where "apply_adjustments rest (eas, ign1) = (eas', ign')"
        using Cons.prems(1) by (auto split: if_splits)
      from Cons.IH [OF this mem Cons.prems(3) Cons.prems(4)] show ?thesis .
    next
      case False
      then have step: "apply_adjustments rest (eas @ [a], ign) = (eas', ign')"
        using Cons.prems(1) by simp
      have k: "ea_key ea \<in> set (map ea_key (eas @ [a]))" using Cons.prems(3) by simp
      have "ea_key ea \<noteq> ea_key a" using False Cons.prems(3) by auto
      then have "ea_triple ea \<noteq> ea_triple a" using triple_key by blast
      then have t: "ea_triple ea \<notin> set (map ea_triple (eas @ [a]))" using Cons.prems(4) by simp
      from Cons.IH [OF step mem k t] show ?thesis .
    qed
  qed
qed

lemma apply_adjustments_kept:
  "apply_adjustments adjs (eas, ign) = (eas', False) \<Longrightarrow> ea \<in> set adjs \<Longrightarrow>
   ea_triple ea \<in> set (map ea_triple eas')"
proof (induction adjs arbitrary: eas ign)
  case Nil
  then show ?case by simp
next
  case (Cons a rest)
  from apply_adjustments_append [OF Cons.prems(1)] obtain new where
    n: "eas' = eas @ new" by blast
  show ?case
  proof (cases "ea_triple a \<in> set (map ea_triple eas)")
    case True
    with Cons.prems(1) have step: "apply_adjustments rest (eas, ign) = (eas', False)" by simp
    show ?thesis
    proof (cases "ea = a")
      case True
      with \<open>ea_triple a \<in> set (map ea_triple eas)\<close> n show ?thesis by auto
    next
      case False
      with Cons.prems(2) have "ea \<in> set rest" by simp
      from Cons.IH [OF step this] show ?thesis .
    qed
  next
    case nt: False
    show ?thesis
    proof (cases "ea_key a \<in> set (map ea_key eas)")
      case True
      with nt Cons.prems(1) have "apply_adjustments rest (eas, True) = (eas', False)" by simp
      from apply_adjustments_flag [OF this] show ?thesis by simp
    next
      case False
      with nt Cons.prems(1) have step: "apply_adjustments rest (eas @ [a], ign) = (eas', False)"
        by simp
      from apply_adjustments_append [OF step] obtain new2 where n2: "eas' = (eas @ [a]) @ new2"
        by blast
      show ?thesis
      proof (cases "ea = a")
        case True
        with n2 show ?thesis by simp
      next
        case False
        with Cons.prems(2) have "ea \<in> set rest" by simp
        from Cons.IH [OF step this] show ?thesis .
      qed
    qed
  qed
qed

text \<open>The state after the adjustments before a given one decides what happens to it.\<close>

lemma apply_adjustments_split:
  "apply_adjustments (pre @ ea # post) st =
   apply_adjustments post
     (let (eas, ign) = apply_adjustments pre st
      in if ea_triple ea \<in> set (map ea_triple eas) then (eas, ign)
         else if ea_key ea \<in> set (map ea_key eas) then (eas, True)
         else (eas @ [ea], ign))"
proof (induction pre arbitrary: st)
  case Nil
  show ?case by (cases st) simp
next
  case (Cons a pre)
  show ?case by (cases st) (simp add: Cons.IH)
qed

lemma process_entry_body_Inr:
  assumes "e0 = (if clean then e\<lparr>energy_adjustments := []\<rparr> else e)"
    and "ga e0 = (Inr adjs, d)"
  shows "process_entry_body ga clean e =
         (e0\<lparr>data := d, energy_adjustments := fst (apply_adjustments adjs (energy_adjustments e0, False))\<rparr>,
          Inr (\<not> snd (apply_adjustments adjs (energy_adjustments e0, False))))"
  using assms by (auto simp: process_entry_body_def Let_def split: prod.splits)

text \<open>
  C1, as amended. Each computed adjustment is judged, at its turn, against the adjustment list
  of the entry as the clean and the earlier adjustments of the pass have left it: with the same
  name, provenance and value in the list nothing happens; otherwise, with the same name and
  provenance in the list, nothing is appended and the entry is marked; otherwise the adjustment
  is appended. So the pass only appends, and only computed adjustments whose name and
  provenance the entry did not carry; an entry that carries the name and provenance of a
  computed adjustment without its value is not kept; an entry that is kept holds every computed
  adjustment. In particular, with \<^verbatim>\<open>clean = False\<close>, such an entry is not among the
  entries whose images make up the output; with \<^verbatim>\<open>clean = True\<close> the adjustments that
  the entry carried before the call have no effect on the pass.
\<close>

theorem adjustment_conflict_rule:
  assumes "e0 = (if clean then e\<lparr>energy_adjustments := []\<rparr> else e)"
    and "ga e0 = (Inr adjs, d)"
    and "process_entry_body ga clean e = (e', r)"
  shows "(\<forall>pre ea post. adjs = pre @ ea # post \<longrightarrow>
            apply_adjustments adjs (energy_adjustments e0, False) =
            apply_adjustments post
              (let (eas, ign) = apply_adjustments pre (energy_adjustments e0, False)
               in if ea_triple ea \<in> set (map ea_triple eas) then (eas, ign)
                  else if ea_key ea \<in> set (map ea_key eas) then (eas, True)
                  else (eas @ [ea], ign))) \<and>
         (\<exists>new. energy_adjustments e' = energy_adjustments e0 @ new \<and> set new \<subseteq> set adjs \<and>
                 (\<forall>x\<in>set new. ea_key x \<notin> set (map ea_key (energy_adjustments e0)))) \<and>
         ((\<exists>ea\<in>set adjs. ea_key ea \<in> set (map ea_key (energy_adjustments e0)) \<and>
                          ea_triple ea \<notin> set (map ea_triple (energy_adjustments e0)))
            \<longrightarrow> r = Inr False) \<and>
         (r = Inr True \<longrightarrow> (\<forall>ea\<in>set adjs. ea_triple ea \<in> set (map ea_triple (energy_adjustments e')))) \<and>
         (\<not> clean \<longrightarrow>
          (\<exists>ea\<in>set adjs. ea_key ea \<in> set (map ea_key (energy_adjustments e)) \<and>
                          ea_triple ea \<notin> set (map ea_triple (energy_adjustments e))) \<longrightarrow>
          (\<forall>entries oe out. process_entries ga entries clean oe = Inr out \<longrightarrow>
             out = map (\<lambda>x. fst (process_entry_body ga clean x))
                       (filter (\<lambda>x. snd (process_entry_body ga clean x) = Inr True) entries) \<and>
             e \<notin> set (filter (\<lambda>x. snd (process_entry_body ga clean x) = Inr True) entries))) \<and>
         (clean \<longrightarrow>
          (\<forall>carried. process_entry_body ga clean (e\<lparr>energy_adjustments := carried\<rparr>) = (e', r)))"
proof -
  obtain eas' ign' where ap: "apply_adjustments adjs (energy_adjustments e0, False) = (eas', ign')"
    by (cases "apply_adjustments adjs (energy_adjustments e0, False)")
  from process_entry_body_Inr [of e0 clean e ga adjs d] assms ap
  have e': "e' = e0\<lparr>data := d, energy_adjustments := eas'\<rparr>" and r: "r = Inr (\<not> ign')"
    by simp_all
  have c0: "\<forall>pre ea post. adjs = pre @ ea # post \<longrightarrow>
            apply_adjustments adjs (energy_adjustments e0, False) =
            apply_adjustments post
              (let (eas, ign) = apply_adjustments pre (energy_adjustments e0, False)
               in if ea_triple ea \<in> set (map ea_triple eas) then (eas, ign)
                  else if ea_key ea \<in> set (map ea_key eas) then (eas, True)
                  else (eas @ [ea], ign))"
    using apply_adjustments_split by blast
  have c1: "\<exists>new. energy_adjustments e' = energy_adjustments e0 @ new \<and> set new \<subseteq> set adjs \<and>
                 (\<forall>x\<in>set new. ea_key x \<notin> set (map ea_key (energy_adjustments e0)))"
    using apply_adjustments_append [OF ap] e' by simp
  have c2: "(\<exists>ea\<in>set adjs. ea_key ea \<in> set (map ea_key (energy_adjustments e0)) \<and>
                          ea_triple ea \<notin> set (map ea_triple (energy_adjustments e0)))
            \<longrightarrow> r = Inr False"
    using apply_adjustments_conflict [OF ap] r by blast
  have c3: "r = Inr True \<longrightarrow> (\<forall>ea\<in>set adjs. ea_triple ea \<in> set (map ea_triple (energy_adjustments e')))"
  proof (intro impI ballI)
    fix ea assume "r = Inr True" and m: "ea \<in> set adjs"
    with r have "ign' = False" by simp
    with ap have "apply_adjustments adjs (energy_adjustments e0, False) = (eas', False)" by simp
    from apply_adjustments_kept [OF this m] e'
    show "ea_triple ea \<in> set (map ea_triple (energy_adjustments e'))" by simp
  qed
  have c4: "\<not> clean \<longrightarrow>
          (\<exists>ea\<in>set adjs. ea_key ea \<in> set (map ea_key (energy_adjustments e)) \<and>
                          ea_triple ea \<notin> set (map ea_triple (energy_adjustments e))) \<longrightarrow>
          (\<forall>entries oe out. process_entries ga entries clean oe = Inr out \<longrightarrow>
             out = map (\<lambda>x. fst (process_entry_body ga clean x))
                       (filter (\<lambda>x. snd (process_entry_body ga clean x) = Inr True) entries) \<and>
             e \<notin> set (filter (\<lambda>x. snd (process_entry_body ga clean x) = Inr True) entries))"
  proof (intro impI allI)
    fix entries oe out
    assume nc: "\<not> clean"
      and cf: "\<exists>ea\<in>set adjs. ea_key ea \<in> set (map ea_key (energy_adjustments e)) \<and>
                          ea_triple ea \<notin> set (map ea_triple (energy_adjustments e))"
      and pe: "process_entries ga entries clean oe = Inr out"
    from nc assms(1) have "e0 = e" by simp
    with cf c2 have "r = Inr False" by simp
    with assms(3) have "snd (process_entry_body ga clean e) \<noteq> Inr True" by simp
    then have "e \<notin> set (filter (\<lambda>x. snd (process_entry_body ga clean x) = Inr True) entries)"
      by simp
    with process_entries_Inr [OF pe]
    show "out = map (\<lambda>x. fst (process_entry_body ga clean x))
                       (filter (\<lambda>x. snd (process_entry_body ga clean x) = Inr True) entries) \<and>
             e \<notin> set (filter (\<lambda>x. snd (process_entry_body ga clean x) = Inr True) entries)"
      by simp
  qed
  have c5: "clean \<longrightarrow>
          (\<forall>carried. process_entry_body ga clean (e\<lparr>energy_adjustments := carried\<rparr>) = (e', r))"
  proof (intro impI allI)
    fix carried assume "clean"
    then have "process_entry_body ga clean (e\<lparr>energy_adjustments := carried\<rparr>)
               = process_entry_body ga clean e"
      by (simp add: process_entry_body_def)
    with assms(3) show "process_entry_body ga clean (e\<lparr>energy_adjustments := carried\<rparr>) = (e', r)"
      by simp
  qed
  from c0 c1 c2 c3 c4 c5 show ?thesis by blast
qed

subsection \<open>Running the schemes\<close>

lemmas run_defs = MP2020_get_adjustments_def run_type_check_def potcar_check_def
  PotcarCorrection_init_def PotcarCorrection_get_correction_def psp_settings_of_def
  second_word_def py_split_def is_space_def
  comp_elements_def comp_len_def comp_contains_def comp_get_def sulfide_block_def oxide_block_def
  composition_adjustment_def dd_get_def dd_contains_def table_get_def get0_def truthy_def
  cached_oxidation_states_def anions_def anion_step_def most_electroneg_def sorted_elements_def
  u_block_def u_step_def sub_table_def sub_table_dd_def calc_u_of_def
  common_peroxides_def common_superoxides_def ozonides_def ufloat_zero_def

lemmas ex_defs = ex_env_def ex_mp2020_def ex_data_def ex_parameters_def ex_X_def ex_cached_def
  ex_oxide_adjustment_def ex_manual_adjustment_def

lemma blocks_ignore_adjustments:
  "run_type_check (e\<lparr>energy_adjustments := xs\<rparr>) = run_type_check e"
  "potcar_check env sch (e\<lparr>energy_adjustments := xs\<rparr>) = potcar_check env sch e"
  "sulfide_block sch (e\<lparr>energy_adjustments := xs\<rparr>) = sulfide_block sch e"
  "oxide_block sch (e\<lparr>energy_adjustments := xs\<rparr>) = oxide_block sch e"
  "cached_oxidation_states env (e\<lparr>energy_adjustments := xs\<rparr>) = cached_oxidation_states env e"
  "anion_step env sch (e\<lparr>energy_adjustments := xs\<rparr>) = anion_step env sch e"
  "u_block env sch (e\<lparr>energy_adjustments := xs\<rparr>) = u_block env sch e"
proof -
  show "run_type_check (e\<lparr>energy_adjustments := xs\<rparr>) = run_type_check e"
    by (simp add: run_type_check_def)
  show "potcar_check env sch (e\<lparr>energy_adjustments := xs\<rparr>) = potcar_check env sch e"
  proof -
    have a: "\<And>pc. psp_settings_of pc (e\<lparr>energy_adjustments := xs\<rparr>) = psp_settings_of pc e"
      by (simp add: psp_settings_of_def Let_def cong: if_cong sum.case_cong option.case_cong)
    have b: "\<And>pc. PotcarCorrection_get_correction env pc (e\<lparr>energy_adjustments := xs\<rparr>)
                     = PotcarCorrection_get_correction env pc e"
      by (simp add: PotcarCorrection_get_correction_def a Let_def cong: if_cong sum.case_cong option.case_cong)
    show ?thesis by (simp add: potcar_check_def b Let_def cong: if_cong sum.case_cong option.case_cong)
  qed
  show "sulfide_block sch (e\<lparr>energy_adjustments := xs\<rparr>) = sulfide_block sch e"
    by (simp add: sulfide_block_def Let_def cong: if_cong sum.case_cong option.case_cong)
  show "oxide_block sch (e\<lparr>energy_adjustments := xs\<rparr>) = oxide_block sch e"
    by (simp add: oxide_block_def Let_def cong: if_cong sum.case_cong option.case_cong)
  show "cached_oxidation_states env (e\<lparr>energy_adjustments := xs\<rparr>) = cached_oxidation_states env e"
    by (simp add: cached_oxidation_states_def cong: option.case_cong)
  show "anion_step env sch (e\<lparr>energy_adjustments := xs\<rparr>) = anion_step env sch e"
    by (intro ext) (simp add: anion_step_def Let_def cong: if_cong sum.case_cong option.case_cong)
  have "u_step sch (e\<lparr>energy_adjustments := xs\<rparr>) = u_step sch e"
    by (intro ext) (simp add: u_step_def calc_u_of_def Let_def cong: if_cong sum.case_cong option.case_cong)
  then show "u_block env sch (e\<lparr>energy_adjustments := xs\<rparr>) = u_block env sch e"
    by (simp add: u_block_def cong: sum.case_cong)
qed

lemma MP2020_ignores_adjustments:
  "MP2020_get_adjustments env sch (e\<lparr>energy_adjustments := xs\<rparr>) = MP2020_get_adjustments env sch e"
  by (simp add: MP2020_get_adjustments_def blocks_ignore_adjustments
      Let_def cong: if_cong sum.case_cong option.case_cong)

lemma run_MgO: "MP2020_get_adjustments ex_env ex_mp2020 ex_MgO = (Inr [ex_oxide_adjustment], ex_cached)"
  by (simp add: run_defs ex_defs ex_MgO_def)

lemma run_MgO_hse: "MP2020_get_adjustments ex_env ex_mp2020 ex_MgO_hse = (Inl CompatibilityError, ex_data)"
  by (simp add: MP2020_get_adjustments_def run_type_check_def ex_MgO_hse_def ex_MgO_def ex_parameters_def)

lemma run_MgO_manual:
  "MP2020_get_adjustments ex_env ex_mp2020 ex_MgO_manual = (Inr [ex_oxide_adjustment], ex_cached)"
  by (simp add: ex_MgO_manual_def MP2020_ignores_adjustments run_MgO)

lemma run_MgO_both:
  "MP2020_get_adjustments ex_env ex_mp2020 ex_MgO_both = (Inr [ex_oxide_adjustment], ex_cached)"
  by (simp add: ex_MgO_both_def MP2020_ignores_adjustments run_MgO)

lemma run_MgO_cleaned:
  "MP2020_get_adjustments ex_env ex_mp2020 (ex_MgO_manual\<lparr>energy_adjustments := []\<rparr>)
   = (Inr [ex_oxide_adjustment], ex_cached)"
  by (simp add: MP2020_ignores_adjustments run_MgO_manual)

lemma ex_adjustment_keys:
  "ea_key ex_manual_adjustment = ea_key ex_oxide_adjustment"
  "ea_triple ex_manual_adjustment \<noteq> ea_triple ex_oxide_adjustment"
  "ea_value ex_manual_adjustment \<noteq> ea_value ex_oxide_adjustment"
  by (simp_all add: ea_key_def ea_triple_def ex_defs)

lemma body_MgO_manual_clean:
  "process_entry_body (MP2020_get_adjustments ex_env ex_mp2020) True ex_MgO_manual =
   (ex_MgO\<lparr>data := ex_cached, energy_adjustments := [ex_oxide_adjustment]\<rparr>, Inr True)"
  by (simp add: process_entry_body_def run_MgO_cleaned) (simp add: ex_MgO_manual_def)

lemma body_MgO_manual:
  "process_entry_body (MP2020_get_adjustments ex_env ex_mp2020) False ex_MgO_manual =
   (ex_MgO_manual\<lparr>data := ex_cached\<rparr>, Inr False)"
  by (simp add: process_entry_body_def run_MgO_manual)
     (simp add: ex_MgO_manual_def ex_adjustment_keys ex_adjustment_keys(2) [symmetric])

lemma body_MgO_both:
  "process_entry_body (MP2020_get_adjustments ex_env ex_mp2020) False ex_MgO_both =
   (ex_MgO_both\<lparr>data := ex_cached\<rparr>, Inr True)"
  by (simp add: process_entry_body_def run_MgO_both) (simp add: ex_MgO_both_def)

lemma body_MgO:
  "process_entry_body (MP2020_get_adjustments ex_env ex_mp2020) c ex_MgO =
   (ex_MgO\<lparr>data := ex_cached, energy_adjustments := [ex_oxide_adjustment]\<rparr>, Inr True)"
  by (simp add: process_entry_body_def MP2020_ignores_adjustments run_MgO) (simp add: ex_MgO_def)

lemma body_MgO_hse:
  "process_entry_body (MP2020_get_adjustments ex_env ex_mp2020) c ex_MgO_hse =
   (ex_MgO_hse, Inl CompatibilityError)"
  by (simp add: process_entry_body_def MP2020_ignores_adjustments run_MgO_hse)
     (simp add: ex_MgO_hse_def ex_MgO_def)

text \<open>
  C1, as stated, fails: with the default \<^verbatim>\<open>clean = True\<close> an entry that carries an
  adjustment with the name and provenance of the computed one and another value is returned;
  and with \<^verbatim>\<open>clean = False\<close> an entry that carries both the computed adjustment and one
  with its name and provenance and another value is returned as well.
\<close>

theorem conflicting_entry_returned:
  "energy_adjustments ex_MgO_manual = [ex_manual_adjustment] \<and>
   fst (MP2020_get_adjustments ex_env ex_mp2020 (ex_MgO_manual\<lparr>energy_adjustments := []\<rparr>))
     = Inr [ex_oxide_adjustment] \<and>
   ea_key ex_manual_adjustment = ea_key ex_oxide_adjustment \<and>
   ea_value ex_manual_adjustment \<noteq> ea_value ex_oxide_adjustment \<and>
   process_entries (MP2020_get_adjustments ex_env ex_mp2020) [ex_MgO_manual] True Ignore
     = Inr [ex_MgO\<lparr>data := ex_cached, energy_adjustments := [ex_oxide_adjustment]\<rparr>] \<and>
   energy_adjustments ex_MgO_both = [ex_oxide_adjustment, ex_manual_adjustment] \<and>
   fst (MP2020_get_adjustments ex_env ex_mp2020 ex_MgO_both) = Inr [ex_oxide_adjustment] \<and>
   process_entries (MP2020_get_adjustments ex_env ex_mp2020) [ex_MgO_both] False Ignore
     = Inr [ex_MgO_both\<lparr>data := ex_cached\<rparr>]"
  by (simp add: process_entries_def body_MgO_manual_clean body_MgO_both run_MgO_cleaned
      run_MgO_both ex_adjustment_keys)
     (simp add: ex_MgO_manual_def ex_MgO_both_def)

theorem adjustment_conflict_rule_witness:
  "MP2020_get_adjustments ex_env ex_mp2020 ex_MgO_manual = (Inr [ex_oxide_adjustment], ex_cached) \<and>
   process_entry_body (MP2020_get_adjustments ex_env ex_mp2020) False ex_MgO_manual
     = (ex_MgO_manual\<lparr>data := ex_cached\<rparr>, Inr False) \<and>
   ea_key ex_oxide_adjustment \<in> set (map ea_key (energy_adjustments ex_MgO_manual)) \<and>
   ea_triple ex_oxide_adjustment \<notin> set (map ea_triple (energy_adjustments ex_MgO_manual)) \<and>
   process_entries (MP2020_get_adjustments ex_env ex_mp2020) [ex_MgO, ex_MgO_manual] False Ignore
     = Inr [ex_MgO\<lparr>data := ex_cached, energy_adjustments := [ex_oxide_adjustment]\<rparr>] \<and>
   ex_MgO_manual \<notin> set (filter (\<lambda>x. snd (process_entry_body (MP2020_get_adjustments ex_env ex_mp2020)
                                              False x) = Inr True) [ex_MgO, ex_MgO_manual]) \<and>
   process_entry_body (MP2020_get_adjustments ex_env ex_mp2020) True ex_MgO_manual
     = (ex_MgO\<lparr>data := ex_cached, energy_adjustments := [ex_oxide_adjustment]\<rparr>, Inr True) \<and>
   process_entry_body (MP2020_get_adjustments ex_env ex_mp2020) True
       (ex_MgO_manual\<lparr>energy_adjustments := [ex_oxide_adjustment, ex_manual_adjustment]\<rparr>)
     = (ex_MgO\<lparr>data := ex_cached, energy_adjustments := [ex_oxide_adjustment]\<rparr>, Inr True)"
proof -
  have k: "ea_key ex_oxide_adjustment \<in> set (map ea_key (energy_adjustments ex_MgO_manual))"
    by (simp add: ex_MgO_manual_def ex_adjustment_keys)
  have t: "ea_triple ex_oxide_adjustment \<notin> set (map ea_triple (energy_adjustments ex_MgO_manual))"
    using ex_adjustment_keys(2) by (simp add: ex_MgO_manual_def)
  have p: "process_entries (MP2020_get_adjustments ex_env ex_mp2020) [ex_MgO, ex_MgO_manual] False Ignore
     = Inr [ex_MgO\<lparr>data := ex_cached, energy_adjustments := [ex_oxide_adjustment]\<rparr>]"
    by (simp add: process_entries_def body_MgO body_MgO_manual)
  from adjustment_conflict_rule [of ex_MgO_manual False ex_MgO_manual
      "MP2020_get_adjustments ex_env ex_mp2020" "[ex_oxide_adjustment]" ex_cached
      "ex_MgO_manual\<lparr>data := ex_cached\<rparr>" "Inr False", OF _ run_MgO_manual body_MgO_manual]
  have "\<forall>entries oe out. process_entries (MP2020_get_adjustments ex_env ex_mp2020) entries False oe = Inr out \<longrightarrow>
          ex_MgO_manual \<notin> set (filter (\<lambda>x. snd (process_entry_body (MP2020_get_adjustments ex_env ex_mp2020)
                                              False x) = Inr True) entries)"
    using k t by simp
  with p have f: "ex_MgO_manual \<notin> set (filter (\<lambda>x. snd (process_entry_body (MP2020_get_adjustments ex_env ex_mp2020)
                                              False x) = Inr True) [ex_MgO, ex_MgO_manual])"
    by blast
  from adjustment_conflict_rule [of "ex_MgO_manual\<lparr>energy_adjustments := []\<rparr>" True ex_MgO_manual
      "MP2020_get_adjustments ex_env ex_mp2020" "[ex_oxide_adjustment]" ex_cached
      "ex_MgO\<lparr>data := ex_cached, energy_adjustments := [ex_oxide_adjustment]\<rparr>" "Inr True",
      OF _ run_MgO_cleaned body_MgO_manual_clean]
  have c: "process_entry_body (MP2020_get_adjustments ex_env ex_mp2020) True
       (ex_MgO_manual\<lparr>energy_adjustments := [ex_oxide_adjustment, ex_manual_adjustment]\<rparr>)
     = (ex_MgO\<lparr>data := ex_cached, energy_adjustments := [ex_oxide_adjustment]\<rparr>, Inr True)"
    by simp
  from k t p f c run_MgO_manual body_MgO_manual body_MgO_manual_clean show ?thesis by simp
qed

subsection \<open>The fused scheme\<close>

text \<open>
  C10. An entry of a single element that passes the checks of the run type and of the POTCARs
  gets the empty list of adjustments, and the entry is left as it is: the blocks after the
  early return, the validation of the Hubbard U values among them, are not reached.
\<close>

theorem single_element_no_adjustments:
  "run_type_check e \<Longrightarrow> potcar_check env sch e = None \<Longrightarrow> comp_len (composition e) = 1 \<Longrightarrow>
   MP2020_get_adjustments env sch e = (Inr [], data e)"
  by (simp add: MP2020_get_adjustments_def)

lemma checks_Fe:
  "run_type_check ex_Fe" "potcar_check ex_env ex_mp2020 ex_Fe = None"
  "comp_len (composition ex_Fe) = 1"
  by (simp_all add: run_defs ex_defs ex_Fe_def)

lemma u_block_Fe: "u_block ex_env ex_mp2020 ex_Fe = Inl CompatibilityError"
  by (simp add: run_defs ex_defs ex_Fe_def)

theorem single_element_no_adjustments_witness:
  "run_type_check ex_Fe \<and> potcar_check ex_env ex_mp2020 ex_Fe = None \<and>
   comp_len (composition ex_Fe) = 1 \<and>
   hubbards (parameters ex_Fe) = Some [(''Fe'', 5.3)] \<and>
   u_block ex_env ex_mp2020 ex_Fe = Inl CompatibilityError \<and>
   MP2020_get_adjustments ex_env ex_mp2020 ex_Fe = (Inr [], data ex_Fe)"
  using single_element_no_adjustments [OF checks_Fe] checks_Fe u_block_Fe
  by (simp add: ex_Fe_def ex_parameters_def)

text \<open>
  What the loop over the anions does for one anion that is in the composition and in the table
  of corrections: the correction is applied when the oxidation state is negative, and also,
  whatever the oxidation states say, when the anion is the most electronegative element.
\<close>

lemma anion_step_rule:
  assumes "comp_contains (composition e) anion" and "dd_contains (comp_correction sch) anion"
    and "most_electroneg (X env) (composition e) = Inr most_en"
  shows "anion_step env sch e oxi anion =
         (if get0 oxi anion < 0 \<or> anion = most_en
          then composition_adjustment sch (composition e) anion anion
                 (''MP2020 anion correction ('' @ anion @ '')'')
          else Inr [])"
  using assms by (auto simp: anion_step_def Let_def)

text \<open>
  C3 does not hold of the code. The entry has the oxidation states Si -4 and H +1 in its data:
  oxidation-state data is available and gives H a positive state, and H, the most
  electronegative element of the entry, gets its correction all the same.
\<close>

theorem anion_correction_despite_positive_state:
  "oxidation_states (data ex_SiH4) = Some [(''Si'', - 4), (''H'', 1)] \<and>
   most_electroneg (X ex_env) (composition ex_SiH4) = Inr ''H'' \<and>
   fst (MP2020_get_adjustments ex_env ex_mp2020 ex_SiH4) =
     Inr [CompositionEnergyAdjustment 0.071 1 (Some 0.0165)
            ''MP2020 anion correction (Si)'' ''MaterialsProject2020Compatibility'',
          CompositionEnergyAdjustment (- 0.179) 4 (Some 0.0013)
            ''MP2020 anion correction (H)'' ''MaterialsProject2020Compatibility'']"
  by (simp add: run_defs ex_defs ex_SiH4_def)

subsection \<open>The validation of the Hubbard U values\<close>

lemma dd_get_cases: "dd_get t k = Inl KeyError \<or> (\<exists>v. dd_get t k = Inr v)"
  by (auto simp: dd_get_def table_get_def split: option.splits)

lemma u_correction_loop_raises:
  assumes "\<forall>symbol\<in>set (map fst els). symbol \<in> fst ` set u_corr \<longrightarrow> dd_get errs symbol \<noteq> Inl KeyError"
  shows "u_correction_loop calc_u settings u_corr errs els correction = Inl CompatibilityError
         \<longleftrightarrow> (\<exists>symbol\<in>set (map fst els). get0 calc_u symbol \<noteq> get0 settings symbol)"
  using assms
proof (induction els arbitrary: correction)
  case Nil
  then show ?case by simp
next
  case (Cons el els)
  obtain symbol amt where el: "el = (symbol, amt)" by (cases el)
  show ?case
  proof (cases "map_of u_corr symbol")
    case None
    with Cons el show ?thesis by simp
  next
    case (Some c)
    then have "symbol \<in> fst ` set u_corr" by (force dest: map_of_SomeD)
    with Cons.prems el dd_get_cases [of errs symbol]
    obtain err where "dd_get errs symbol = Inr err" by auto
    with Some Cons el show ?thesis by simp
  qed
qed

lemma u_correction_loop_value:
  assumes "\<forall>symbol\<in>set (map fst els). symbol \<in> fst ` set u_corr \<longrightarrow> dd_get errs symbol \<noteq> Inl KeyError"
    and "\<not> (\<exists>symbol\<in>set (map fst els). get0 calc_u symbol \<noteq> get0 settings symbol)"
  shows "\<exists>u. u_correction_loop calc_u settings u_corr errs els correction = Inr u \<and>
             nominal_value u = nominal_value correction +
               (\<Sum>(symbol, amt)\<leftarrow>els. case map_of u_corr symbol of
                                         Some c \<Rightarrow> c * amt | None \<Rightarrow> 0)"
  using assms
proof (induction els arbitrary: correction)
  case Nil
  then show ?case by simp
next
  case (Cons el els)
  obtain symbol amt where el: "el = (symbol, amt)" by (cases el)
  show ?case
  proof (cases "map_of u_corr symbol")
    case None
    with Cons.IH [of correction] Cons.prems el show ?thesis by simp
  next
    case (Some c)
    then have "symbol \<in> fst ` set u_corr" by (force dest: map_of_SomeD)
    with Cons.prems el dd_get_cases [of errs symbol]
    obtain err where err: "dd_get errs symbol = Inr err" by auto
    from Cons.IH [of "uadd correction (umul_float \<lparr>nominal_value = c, std_dev = err\<rparr> amt)"]
      Cons.prems Some err el
    show ?thesis by (simp add: uadd_def umul_float_def algebra_simps)
  qed
qed

lemma collect_u_step_raises:
  assumes "\<forall>symbol\<in>set (map fst els). symbol \<in> fst ` set (sub_table (u_corrections sch) most_en) \<longrightarrow>
             dd_get (sub_table_dd (u_errors sch) most_en) symbol \<noteq> Inl KeyError"
  shows "collect (u_step sch e most_en) els = Inl CompatibilityError
         \<longleftrightarrow> (\<exists>symbol\<in>set (map fst els). get0 (calc_u_of e) symbol
                                  \<noteq> get0 (sub_table (u_settings sch) most_en) symbol)"
  using assms
proof (induction els)
  case Nil
  then show ?case by simp
next
  case (Cons el els)
  obtain symbol amt where el: "el = (symbol, amt)" by (cases el)
  show ?case
  proof (cases "map_of (sub_table (u_corrections sch) most_en) symbol")
    case None
    with Cons el show ?thesis by (auto simp: u_step_def split: sum.splits)
  next
    case (Some c)
    then have "symbol \<in> fst ` set (sub_table (u_corrections sch) most_en)"
      by (force dest: map_of_SomeD)
    with Cons.prems el dd_get_cases [of "sub_table_dd (u_errors sch) most_en" symbol]
    obtain err where "dd_get (sub_table_dd (u_errors sch) most_en) symbol = Inr err" by auto
    with Some Cons el show ?thesis by (auto simp: u_step_def split: sum.splits)
  qed
qed

lemma collect_u_step_value:
  assumes "\<forall>symbol\<in>set (map fst els). symbol \<in> fst ` set (sub_table (u_corrections sch) most_en) \<longrightarrow>
             dd_get (sub_table_dd (u_errors sch) most_en) symbol \<noteq> Inl KeyError"
    and "\<not> (\<exists>symbol\<in>set (map fst els). get0 (calc_u_of e) symbol
                                  \<noteq> get0 (sub_table (u_settings sch) most_en) symbol)"
  shows "collect (u_step sch e most_en) els =
         Inr (concat (map (\<lambda>(symbol, amt).
                case map_of (sub_table (u_corrections sch) most_en) symbol of
                  Some c \<Rightarrow>
                    [CompositionEnergyAdjustment c amt
                       (case dd_get (sub_table_dd (u_errors sch) most_en) symbol of
                          Inr err \<Rightarrow> Some err | Inl exc \<Rightarrow> None)
                       (''MP2020 GGA/GGA+U mixing correction ('' @ symbol @ '')'') (mp_cls sch)]
                | None \<Rightarrow> []) els))"
  using assms
proof (induction els)
  case Nil
  then show ?case by simp
next
  case (Cons el els)
  obtain symbol amt where el: "el = (symbol, amt)" by (cases el)
  show ?case
  proof (cases "map_of (sub_table (u_corrections sch) most_en) symbol")
    case None
    with Cons el show ?thesis by (simp add: u_step_def)
  next
    case (Some c)
    then have "symbol \<in> fst ` set (sub_table (u_corrections sch) most_en)"
      by (force dest: map_of_SomeD)
    with Cons.prems el dd_get_cases [of "sub_table_dd (u_errors sch) most_en" symbol]
    obtain err where "dd_get (sub_table_dd (u_errors sch) most_en) symbol = Inr err" by auto
    with Some Cons el show ?thesis by (simp add: u_step_def)
  qed
qed

text \<open>
  The last element of a stable sort: its key is the greatest, and among the elements with
  that key it is the last one of the list as it was.
\<close>

lemma last_filter_last:
  "xs \<noteq> [] \<Longrightarrow> P (last xs) \<Longrightarrow> last (filter P xs) = last xs"
proof (induction xs)
  case Nil
  then show ?case by simp
next
  case (Cons x xs)
  show ?case
  proof (cases "xs = []")
    case True
    with Cons.prems show ?thesis by simp
  next
    case False
    with Cons.prems have p: "P (last xs)" by simp
    from False have "last xs \<in> set xs" by (rule last_in_set)
    with p have "filter P xs \<noteq> []" by (auto simp: filter_empty_conv)
    with Cons.IH [OF False p] False show ?thesis by simp
  qed
qed

lemma last_sort_key:
  assumes "xs \<noteq> []"
  shows "last (sort_key f xs) \<in> set xs"
    and "\<forall>x\<in>set xs. f x \<le> f (last (sort_key f xs))"
    and "last (sort_key f xs) = last (filter (\<lambda>x. f x = f (last (sort_key f xs))) xs)"
proof -
  let ?ys = "sort_key f xs"
  have ne: "?ys \<noteq> []" using assms set_sort [of f xs] by (cases ?ys) auto
  from ne have "last ?ys \<in> set ?ys" by (rule last_in_set)
  then show m: "last ?ys \<in> set xs" by simp
  have srt: "sorted (map f ?ys)" by simp
  show "\<forall>x\<in>set xs. f x \<le> f (last ?ys)"
  proof
    fix x assume "x \<in> set xs"
    then have "x \<in> set ?ys" by simp
    then obtain i where i: "i < length ?ys" "?ys ! i = x" by (meson in_set_conv_nth)
    have "map f ?ys ! i \<le> map f ?ys ! (length ?ys - 1)"
      using srt i(1) by (intro sorted_nth_mono) simp_all
    with i ne show "f x \<le> f (last ?ys)" by (simp add: last_conv_nth)
  qed
  have "last ?ys = last (filter (\<lambda>x. f x = f (last ?ys)) ?ys)"
    using ne by (simp add: last_filter_last)
  also have "filter (\<lambda>x. f x = f (last ?ys)) ?ys = filter (\<lambda>x. f x = f (last ?ys)) xs"
    by (rule sort_key_stable)
  finally show "last ?ys = last (filter (\<lambda>x. f x = f (last ?ys)) xs)" .
qed

text \<open>
  The most electronegative element: a key of the composition with a positive amount, whose
  electronegativity that of no key with a positive amount exceeds, and the last such key in
  the order of the composition.
\<close>

lemma most_electroneg_rule:
  assumes "most_electroneg x cmp = Inr most_en"
  shows "\<exists>amt. (most_en, amt) \<in> set (amounts cmp) \<and> amt > 0"
    and "\<forall>(el, amt)\<in>set (amounts cmp). amt > 0 \<longrightarrow> x el \<le> x most_en"
    and "most_en = fst (last (filter (\<lambda>(el, amt). amt > 0 \<and> x el = x most_en) (amounts cmp)))"
proof -
  let ?pos = "filter (\<lambda>(el, amt). amt > 0) (amounts cmp)"
  let ?f = "\<lambda>(el, amt). x el"
  from assms have ne: "?pos \<noteq> []"
    by (auto simp: most_electroneg_def sorted_elements_def split: list.splits)
  from assms have me: "most_en = fst (last (sort_key ?f ?pos))"
    by (auto simp: most_electroneg_def sorted_elements_def split: list.splits)
  obtain amt where l: "last (sort_key ?f ?pos) = (most_en, amt)"
    using me by (cases "last (sort_key ?f ?pos)") simp
  from last_sort_key(1) [OF ne, of ?f] l have "(most_en, amt) \<in> set ?pos" by simp
  then show "\<exists>amt. (most_en, amt) \<in> set (amounts cmp) \<and> amt > 0" by auto
  from last_sort_key(2) [OF ne, of ?f] l
  show "\<forall>(el, amt)\<in>set (amounts cmp). amt > 0 \<longrightarrow> x el \<le> x most_en" by auto
  have "filter (\<lambda>p. ?f p = x most_en) ?pos
        = filter (\<lambda>(el, amt). amt > 0 \<and> x el = x most_en) (amounts cmp)"
    by (simp add: case_prod_unfold conj_commute)
  with last_sort_key(3) [OF ne, of ?f] l
  have "last (filter (\<lambda>(el, amt). amt > 0 \<and> x el = x most_en) (amounts cmp)) = (most_en, amt)"
    by simp
  then show "most_en = fst (last (filter (\<lambda>(el, amt). amt > 0 \<and> x el = x most_en) (amounts cmp)))"
    by simp
qed

text \<open>
  C7. Let some key of the composition have a positive amount, so that
  \<^verbatim>\<open>elements[-1].symbol\<close> exists. It is the most electronegative element present: a key
  of the composition with a positive amount, whose electronegativity that of no key with a
  positive amount exceeds, and where several keys have that electronegativity, the last of
  them in the order of the composition. Let the table of uncertainties have every element
  that the table of corrections has. Then \<^verbatim>\<open>UCorrection.get_correction\<close> raises
  \<^verbatim>\<open>CompatibilityError\<close> exactly when for some element of the composition the U value
  of the entry (0 when absent) differs from the one that the settings keyed by the most
  electronegative element give (0 when absent); when it does not, the correction is the sum,
  over the keys of the composition that the table keyed the same way has, of the value of
  the table times the amount of the key. The fused scheme does the same for an entry of
  several elements that passes the checks and blocks before the mixing block, and then returns
  one composition-scaled adjustment for each such element after the adjustments of those blocks.
\<close>

theorem u_mixing_check:
  assumes "most_electroneg (X env) (composition e) = Inr most_en"
  shows
    "(\<exists>amt. (most_en, amt) \<in> set (amounts (composition e)) \<and> amt > 0) \<and>
     (\<forall>(el, amt)\<in>set (amounts (composition e)). amt > 0 \<longrightarrow> X env el \<le> X env most_en) \<and>
     most_en = fst (last (filter (\<lambda>(el, amt). amt > 0 \<and> X env el = X env most_en)
                            (amounts (composition e)))) \<and>
     ((\<forall>symbol\<in>set (comp_elements (composition e)).
         symbol \<in> fst ` set (sub_table (uc_u_corrections uc) most_en) \<longrightarrow>
         dd_get (sub_table_dd (uc_u_errors uc) most_en) symbol \<noteq> Inl KeyError) \<longrightarrow>
      ((UCorrection_get_correction env uc e = Inl CompatibilityError) \<longleftrightarrow>
       (\<exists>symbol\<in>set (comp_elements (composition e)).
          get0 (calc_u_of e) symbol \<noteq> get0 (sub_table (uc_u_settings uc) most_en) symbol)) \<and>
      (\<not> (\<exists>symbol\<in>set (comp_elements (composition e)).
          get0 (calc_u_of e) symbol \<noteq> get0 (sub_table (uc_u_settings uc) most_en) symbol) \<longrightarrow>
       (\<exists>u. UCorrection_get_correction env uc e = Inr u \<and>
            nominal_value u =
              (\<Sum>(symbol, amt)\<leftarrow>amounts (composition e).
                 case map_of (sub_table (uc_u_corrections uc) most_en) symbol of
                   Some c \<Rightarrow> c * amt | None \<Rightarrow> 0)))) \<and>
     (run_type_check e \<and> potcar_check env sch e = None \<and> comp_len (composition e) \<noteq> 1 \<and>
      sulfide_block sch e = Inr sulfide_adj \<and> oxide_block sch e = Inr oxide_adj \<and>
      collect (anion_step env sch e (cached_oxidation_states env e)) anions = Inr anion_adj \<and>
      (\<forall>symbol\<in>set (comp_elements (composition e)).
         symbol \<in> fst ` set (sub_table (u_corrections sch) most_en) \<longrightarrow>
         dd_get (sub_table_dd (u_errors sch) most_en) symbol \<noteq> Inl KeyError) \<longrightarrow>
      ((fst (MP2020_get_adjustments env sch e) = Inl CompatibilityError) \<longleftrightarrow>
       (\<exists>symbol\<in>set (comp_elements (composition e)).
          get0 (calc_u_of e) symbol \<noteq> get0 (sub_table (u_settings sch) most_en) symbol)) \<and>
      (\<not> (\<exists>symbol\<in>set (comp_elements (composition e)).
          get0 (calc_u_of e) symbol \<noteq> get0 (sub_table (u_settings sch) most_en) symbol) \<longrightarrow>
       fst (MP2020_get_adjustments env sch e) =
         Inr (sulfide_adj @ oxide_adj @ anion_adj @
              concat (map (\<lambda>(symbol, amt).
                case map_of (sub_table (u_corrections sch) most_en) symbol of
                  Some c \<Rightarrow>
                    [CompositionEnergyAdjustment c amt
                       (case dd_get (sub_table_dd (u_errors sch) most_en) symbol of
                          Inr err \<Rightarrow> Some err | Inl exc \<Rightarrow> None)
                       (''MP2020 GGA/GGA+U mixing correction ('' @ symbol @ '')'') (mp_cls sch)]
                | None \<Rightarrow> []) (amounts (composition e))))))"
proof (intro conjI impI)
  show "\<exists>amt. (most_en, amt) \<in> set (amounts (composition e)) \<and> amt > 0"
    using assms by (rule most_electroneg_rule(1))
  show "\<forall>(el, amt)\<in>set (amounts (composition e)). amt > 0 \<longrightarrow> X env el \<le> X env most_en"
    using assms by (rule most_electroneg_rule(2))
  show "most_en = fst (last (filter (\<lambda>(el, amt). amt > 0 \<and> X env el = X env most_en)
                            (amounts (composition e))))"
    using assms by (rule most_electroneg_rule(3))
next
  assume cover: "\<forall>symbol\<in>set (comp_elements (composition e)).
         symbol \<in> fst ` set (sub_table (uc_u_corrections uc) most_en) \<longrightarrow>
         dd_get (sub_table_dd (uc_u_errors uc) most_en) symbol \<noteq> Inl KeyError"
  have uc: "UCorrection_get_correction env uc e =
        u_correction_loop (calc_u_of e) (sub_table (uc_u_settings uc) most_en)
          (sub_table (uc_u_corrections uc) most_en) (sub_table_dd (uc_u_errors uc) most_en)
          (amounts (composition e)) ufloat_zero"
    using assms by (simp add: UCorrection_get_correction_def Let_def)
  show "(UCorrection_get_correction env uc e = Inl CompatibilityError) \<longleftrightarrow>
       (\<exists>symbol\<in>set (comp_elements (composition e)).
          get0 (calc_u_of e) symbol \<noteq> get0 (sub_table (uc_u_settings uc) most_en) symbol)"
    unfolding uc using u_correction_loop_raises [of "amounts (composition e)"] cover
    by (simp add: comp_elements_def)
  assume ok: "\<not> (\<exists>symbol\<in>set (comp_elements (composition e)).
          get0 (calc_u_of e) symbol \<noteq> get0 (sub_table (uc_u_settings uc) most_en) symbol)"
  from u_correction_loop_value [of "amounts (composition e)" _ _ _ _ ufloat_zero] cover ok
  show "\<exists>u. UCorrection_get_correction env uc e = Inr u \<and>
            nominal_value u =
              (\<Sum>(symbol, amt)\<leftarrow>amounts (composition e).
                 case map_of (sub_table (uc_u_corrections uc) most_en) symbol of
                   Some c \<Rightarrow> c * amt | None \<Rightarrow> 0)"
    unfolding uc by (simp add: ufloat_zero_def comp_elements_def)
next
  assume h: "run_type_check e \<and> potcar_check env sch e = None \<and> comp_len (composition e) \<noteq> 1 \<and>
      sulfide_block sch e = Inr sulfide_adj \<and> oxide_block sch e = Inr oxide_adj \<and>
      collect (anion_step env sch e (cached_oxidation_states env e)) anions = Inr anion_adj \<and>
      (\<forall>symbol\<in>set (comp_elements (composition e)).
         symbol \<in> fst ` set (sub_table (u_corrections sch) most_en) \<longrightarrow>
         dd_get (sub_table_dd (u_errors sch) most_en) symbol \<noteq> Inl KeyError)"
  then have cover: "\<forall>symbol\<in>set (comp_elements (composition e)).
         symbol \<in> fst ` set (sub_table (u_corrections sch) most_en) \<longrightarrow>
         dd_get (sub_table_dd (u_errors sch) most_en) symbol \<noteq> Inl KeyError" by blast
  have ub: "u_block env sch e = collect (u_step sch e most_en) (amounts (composition e))"
    using assms by (simp add: u_block_def)
  have mp: "fst (MP2020_get_adjustments env sch e) =
        (case u_block env sch e of Inl exc \<Rightarrow> Inl exc
         | Inr u_adj \<Rightarrow> Inr (sulfide_adj @ oxide_adj @ anion_adj @ u_adj))"
    using h by (simp add: MP2020_get_adjustments_def Let_def split: sum.splits)
  show "(fst (MP2020_get_adjustments env sch e) = Inl CompatibilityError) \<longleftrightarrow>
       (\<exists>symbol\<in>set (comp_elements (composition e)).
          get0 (calc_u_of e) symbol \<noteq> get0 (sub_table (u_settings sch) most_en) symbol)"
    using collect_u_step_raises [of "amounts (composition e)" sch most_en e] cover unfolding mp ub
    by (cases "collect (u_step sch e most_en) (amounts (composition e))")
       (auto simp: comp_elements_def)
  assume ok: "\<not> (\<exists>symbol\<in>set (comp_elements (composition e)).
          get0 (calc_u_of e) symbol \<noteq> get0 (sub_table (u_settings sch) most_en) symbol)"
  show "fst (MP2020_get_adjustments env sch e) =
         Inr (sulfide_adj @ oxide_adj @ anion_adj @
              concat (map (\<lambda>(symbol, amt).
                case map_of (sub_table (u_corrections sch) most_en) symbol of
                  Some c \<Rightarrow>
                    [CompositionEnergyAdjustment c amt
                       (case dd_get (sub_table_dd (u_errors sch) most_en) symbol of
                          Inr err \<Rightarrow> Some err | Inl exc \<Rightarrow> None)
                       (''MP2020 GGA/GGA+U mixing correction ('' @ symbol @ '')'') (mp_cls sch)]
                | None \<Rightarrow> []) (amounts (composition e))))"
    unfolding mp ub
    using collect_u_step_value [of "amounts (composition e)" sch most_en e] cover ok
    by (simp add: comp_elements_def)
qed

lemma run_Fe2O3_blocks:
  "most_electroneg (X ex_env) (composition ex_Fe2O3) = Inr ''O''"
  "run_type_check ex_Fe2O3" "potcar_check ex_env ex_mp2020 ex_Fe2O3 = None"
  "comp_len (composition ex_Fe2O3) \<noteq> 1"
  "sulfide_block ex_mp2020 ex_Fe2O3 = Inr []"
  "oxide_block ex_mp2020 ex_Fe2O3 =
     Inr [CompositionEnergyAdjustment (- 0.687) 3 (Some 0.002)
            ''MP2020 anion correction (oxide)'' ''MaterialsProject2020Compatibility'']"
  "collect (anion_step ex_env ex_mp2020 ex_Fe2O3 (cached_oxidation_states ex_env ex_Fe2O3)) anions
     = Inr []"
  by (simp_all add: run_defs ex_defs ex_Fe2O3_def)

lemma run_Fe2O3_GGA_blocks:
  "most_electroneg (X ex_env) (composition ex_Fe2O3_GGA) = Inr ''O''"
  "run_type_check ex_Fe2O3_GGA" "potcar_check ex_env ex_mp2020 ex_Fe2O3_GGA = None"
  "comp_len (composition ex_Fe2O3_GGA) \<noteq> 1"
  "sulfide_block ex_mp2020 ex_Fe2O3_GGA = Inr []"
  "oxide_block ex_mp2020 ex_Fe2O3_GGA =
     Inr [CompositionEnergyAdjustment (- 0.687) 3 (Some 0.002)
            ''MP2020 anion correction (oxide)'' ''MaterialsProject2020Compatibility'']"
  "collect (anion_step ex_env ex_mp2020 ex_Fe2O3_GGA (cached_oxidation_states ex_env ex_Fe2O3_GGA)) anions
     = Inr []"
  by (simp_all add: run_defs ex_defs ex_Fe2O3_GGA_def ex_Fe2O3_def)

lemma run_Fe3O4_blocks:
  "most_electroneg (X ex_env) (composition ex_Fe3O4) = Inr ''O''"
  "run_type_check ex_Fe3O4" "potcar_check ex_env ex_mp2020 ex_Fe3O4 = None"
  "comp_len (composition ex_Fe3O4) \<noteq> 1"
  "sulfide_block ex_mp2020 ex_Fe3O4 = Inr []"
  "oxide_block ex_mp2020 ex_Fe3O4 =
     Inr [CompositionEnergyAdjustment (- 0.687) 4 (Some 0.002)
            ''MP2020 anion correction (oxide)'' ''MaterialsProject2020Compatibility'']"
  "collect (anion_step ex_env ex_mp2020 ex_Fe3O4 (cached_oxidation_states ex_env ex_Fe3O4)) anions
     = Inr []"
  by (simp_all add: run_defs ex_defs ex_Fe3O4_def insert_commute)

lemma cover_Fe3O4:
  "\<forall>symbol\<in>set (comp_elements (composition ex_Fe3O4)).
      symbol \<in> fst ` set (sub_table (uc_u_corrections ex_u_correction) ''O'') \<longrightarrow>
      dd_get (sub_table_dd (uc_u_errors ex_u_correction) ''O'') symbol \<noteq> Inl KeyError"
  "\<forall>symbol\<in>set (comp_elements (composition ex_Fe3O4)).
      symbol \<in> fst ` set (sub_table (u_corrections ex_mp2020) ''O'') \<longrightarrow>
      dd_get (sub_table_dd (u_errors ex_mp2020) ''O'') symbol \<noteq> Inl KeyError"
  "\<not> (\<exists>symbol\<in>set (comp_elements (composition ex_Fe3O4)).
        get0 (calc_u_of ex_Fe3O4) symbol \<noteq> get0 (sub_table (uc_u_settings ex_u_correction) ''O'') symbol)"
  "\<not> (\<exists>symbol\<in>set (comp_elements (composition ex_Fe3O4)).
        get0 (calc_u_of ex_Fe3O4) symbol \<noteq> get0 (sub_table (u_settings ex_mp2020) ''O'') symbol)"
  by (simp_all add: run_defs ex_defs ex_Fe3O4_def ex_u_correction_def)

lemma cover_Fe2O3:
  "\<forall>symbol\<in>set (comp_elements (composition ex_Fe2O3)).
      symbol \<in> fst ` set (sub_table (uc_u_corrections ex_u_correction) ''O'') \<longrightarrow>
      dd_get (sub_table_dd (uc_u_errors ex_u_correction) ''O'') symbol \<noteq> Inl KeyError"
  "\<forall>symbol\<in>set (comp_elements (composition ex_Fe2O3)).
      symbol \<in> fst ` set (sub_table (u_corrections ex_mp2020) ''O'') \<longrightarrow>
      dd_get (sub_table_dd (u_errors ex_mp2020) ''O'') symbol \<noteq> Inl KeyError"
  "\<forall>symbol\<in>set (comp_elements (composition ex_Fe2O3_GGA)).
      symbol \<in> fst ` set (sub_table (uc_u_corrections ex_u_correction) ''O'') \<longrightarrow>
      dd_get (sub_table_dd (uc_u_errors ex_u_correction) ''O'') symbol \<noteq> Inl KeyError"
  "\<forall>symbol\<in>set (comp_elements (composition ex_Fe2O3_GGA)).
      symbol \<in> fst ` set (sub_table (u_corrections ex_mp2020) ''O'') \<longrightarrow>
      dd_get (sub_table_dd (u_errors ex_mp2020) ''O'') symbol \<noteq> Inl KeyError"
  by (simp_all add: run_defs ex_defs ex_Fe2O3_def ex_Fe2O3_GGA_def ex_u_correction_def)

lemma match_Fe2O3:
  "\<not> (\<exists>symbol\<in>set (comp_elements (composition ex_Fe2O3)).
        get0 (calc_u_of ex_Fe2O3) symbol \<noteq> get0 (sub_table (uc_u_settings ex_u_correction) ''O'') symbol)"
  "\<not> (\<exists>symbol\<in>set (comp_elements (composition ex_Fe2O3)).
        get0 (calc_u_of ex_Fe2O3) symbol \<noteq> get0 (sub_table (u_settings ex_mp2020) ''O'') symbol)"
  by (simp_all add: run_defs ex_defs ex_Fe2O3_def ex_u_correction_def)

lemma mismatch_Fe2O3_GGA:
  "\<exists>symbol\<in>set (comp_elements (composition ex_Fe2O3_GGA)).
        get0 (calc_u_of ex_Fe2O3_GGA) symbol \<noteq> get0 (sub_table (uc_u_settings ex_u_correction) ''O'') symbol"
  "\<exists>symbol\<in>set (comp_elements (composition ex_Fe2O3_GGA)).
        get0 (calc_u_of ex_Fe2O3_GGA) symbol \<noteq> get0 (sub_table (u_settings ex_mp2020) ''O'') symbol"
  by (simp_all add: run_defs ex_defs ex_Fe2O3_def ex_Fe2O3_GGA_def ex_u_correction_def)

theorem u_mixing_check_witness:
  "most_electroneg (X ex_env) (composition ex_Fe2O3) = Inr ''O'' \<and>
   hubbards (parameters ex_Fe2O3) = Some [(''Fe'', 5.3)] \<and>
   UCorrection_get_correction ex_env ex_u_correction ex_Fe2O3
     = Inr \<lparr>nominal_value = - 3.446, std_dev = 0\<rparr> \<and>
   fst (MP2020_get_adjustments ex_env ex_mp2020 ex_Fe2O3) =
     Inr [CompositionEnergyAdjustment (- 0.687) 3 (Some 0.002)
            ''MP2020 anion correction (oxide)'' ''MaterialsProject2020Compatibility'',
          CompositionEnergyAdjustment (- 2.256) 2 (Some 0.0101)
            ''MP2020 GGA/GGA+U mixing correction (Fe)'' ''MaterialsProject2020Compatibility''] \<and>
   most_electroneg (X ex_env) (composition ex_Fe2O3_GGA) = Inr ''O'' \<and>
   hubbards (parameters ex_Fe2O3_GGA) = None \<and>
   UCorrection_get_correction ex_env ex_u_correction ex_Fe2O3_GGA = Inl CompatibilityError \<and>
   fst (MP2020_get_adjustments ex_env ex_mp2020 ex_Fe2O3_GGA) = Inl CompatibilityError \<and>
   amounts (composition ex_Fe3O4) = [(''O'', 4), (''Fe'', 1), (''Fe'', 2)] \<and>
   most_electroneg (X ex_env) (composition ex_Fe3O4) = Inr ''O'' \<and>
   X ex_env ''Fe'' \<le> X ex_env ''O'' \<and>
   ''O'' = fst (last (filter (\<lambda>(el, amt). amt > 0 \<and> X ex_env el = X ex_env ''O'')
                        (amounts (composition ex_Fe3O4)))) \<and>
   UCorrection_get_correction ex_env ex_u_correction ex_Fe3O4
     = Inr \<lparr>nominal_value = - 5.169, std_dev = 0\<rparr> \<and>
   fst (MP2020_get_adjustments ex_env ex_mp2020 ex_Fe3O4) =
     Inr [CompositionEnergyAdjustment (- 0.687) 4 (Some 0.002)
            ''MP2020 anion correction (oxide)'' ''MaterialsProject2020Compatibility'',
          CompositionEnergyAdjustment (- 2.256) 1 (Some 0.0101)
            ''MP2020 GGA/GGA+U mixing correction (Fe)'' ''MaterialsProject2020Compatibility'',
          CompositionEnergyAdjustment (- 2.256) 2 (Some 0.0101)
            ''MP2020 GGA/GGA+U mixing correction (Fe)'' ''MaterialsProject2020Compatibility'']"
proof -
  note ok = u_mixing_check [OF run_Fe2O3_blocks(1), of ex_u_correction ex_mp2020 "[]"
      "[CompositionEnergyAdjustment (- 0.687) 3 (Some 0.002)
            ''MP2020 anion correction (oxide)'' ''MaterialsProject2020Compatibility'']" "[]"]
  note bad = u_mixing_check [OF run_Fe2O3_GGA_blocks(1), of ex_u_correction ex_mp2020 "[]"
      "[CompositionEnergyAdjustment (- 0.687) 3 (Some 0.002)
            ''MP2020 anion correction (oxide)'' ''MaterialsProject2020Compatibility'']" "[]"]
  note sp = u_mixing_check [OF run_Fe3O4_blocks(1), of ex_u_correction ex_mp2020 "[]"
      "[CompositionEnergyAdjustment (- 0.687) 4 (Some 0.002)
            ''MP2020 anion correction (oxide)'' ''MaterialsProject2020Compatibility'']" "[]"]
  from ok cover_Fe2O3(1) match_Fe2O3(1)
  have "\<exists>u. UCorrection_get_correction ex_env ex_u_correction ex_Fe2O3 = Inr u \<and>
            nominal_value u =
              (\<Sum>(symbol, amt)\<leftarrow>amounts (composition ex_Fe2O3).
                 case map_of (sub_table (uc_u_corrections ex_u_correction) ''O'') symbol of
                   Some c \<Rightarrow> c * amt | None \<Rightarrow> 0)"
    by blast
  then have l1: "UCorrection_get_correction ex_env ex_u_correction ex_Fe2O3
     = Inr \<lparr>nominal_value = - 3.446, std_dev = 0\<rparr>"
    by (simp add: UCorrection_get_correction_def run_defs uadd_def umul_float_def
        ex_defs ex_Fe2O3_def ex_u_correction_def)
  from ok run_Fe2O3_blocks cover_Fe2O3(2) match_Fe2O3(2)
  have "fst (MP2020_get_adjustments ex_env ex_mp2020 ex_Fe2O3) =
         Inr ([] @ [CompositionEnergyAdjustment (- 0.687) 3 (Some 0.002)
            ''MP2020 anion correction (oxide)'' ''MaterialsProject2020Compatibility''] @ [] @
              concat (map (\<lambda>(symbol, amt).
                case map_of (sub_table (u_corrections ex_mp2020) ''O'') symbol of
                  Some c \<Rightarrow>
                    [CompositionEnergyAdjustment c amt
                       (case dd_get (sub_table_dd (u_errors ex_mp2020) ''O'') symbol of
                          Inr err \<Rightarrow> Some err | Inl exc \<Rightarrow> None)
                       (''MP2020 GGA/GGA+U mixing correction ('' @ symbol @ '')'') (mp_cls ex_mp2020)]
                | None \<Rightarrow> []) (amounts (composition ex_Fe2O3))))"
    by blast
  then have f1: "fst (MP2020_get_adjustments ex_env ex_mp2020 ex_Fe2O3) =
     Inr [CompositionEnergyAdjustment (- 0.687) 3 (Some 0.002)
            ''MP2020 anion correction (oxide)'' ''MaterialsProject2020Compatibility'',
          CompositionEnergyAdjustment (- 2.256) 2 (Some 0.0101)
            ''MP2020 GGA/GGA+U mixing correction (Fe)'' ''MaterialsProject2020Compatibility'']"
    by (simp add: run_defs ex_defs ex_Fe2O3_def)
  from bad cover_Fe2O3(3) mismatch_Fe2O3_GGA(1)
  have l2: "UCorrection_get_correction ex_env ex_u_correction ex_Fe2O3_GGA = Inl CompatibilityError"
    by blast
  from bad run_Fe2O3_GGA_blocks cover_Fe2O3(4) mismatch_Fe2O3_GGA(2)
  have f2: "fst (MP2020_get_adjustments ex_env ex_mp2020 ex_Fe2O3_GGA) = Inl CompatibilityError"
    by blast
  have a3: "amounts (composition ex_Fe3O4) = [(''O'', 4), (''Fe'', 1), (''Fe'', 2)]"
    by (simp add: ex_Fe3O4_def)
  from sp have "\<forall>(el, amt)\<in>set (amounts (composition ex_Fe3O4)).
                  amt > 0 \<longrightarrow> X ex_env el \<le> X ex_env ''O''"
    by blast
  then have m3: "X ex_env ''Fe'' \<le> X ex_env ''O''" unfolding a3 by simp
  from sp have t3: "''O'' = fst (last (filter (\<lambda>(el, amt). amt > 0 \<and> X ex_env el = X ex_env ''O'')
                        (amounts (composition ex_Fe3O4))))"
    by blast
  from sp cover_Fe3O4(1) cover_Fe3O4(3)
  have "\<exists>u. UCorrection_get_correction ex_env ex_u_correction ex_Fe3O4 = Inr u \<and>
            nominal_value u =
              (\<Sum>(symbol, amt)\<leftarrow>amounts (composition ex_Fe3O4).
                 case map_of (sub_table (uc_u_corrections ex_u_correction) ''O'') symbol of
                   Some c \<Rightarrow> c * amt | None \<Rightarrow> 0)"
    by blast
  then have l3: "UCorrection_get_correction ex_env ex_u_correction ex_Fe3O4
     = Inr \<lparr>nominal_value = - 5.169, std_dev = 0\<rparr>"
    by (simp add: UCorrection_get_correction_def run_defs uadd_def umul_float_def
        ex_defs ex_Fe3O4_def ex_u_correction_def)
  from sp run_Fe3O4_blocks cover_Fe3O4(2) cover_Fe3O4(4)
  have "fst (MP2020_get_adjustments ex_env ex_mp2020 ex_Fe3O4) =
         Inr ([] @ [CompositionEnergyAdjustment (- 0.687) 4 (Some 0.002)
            ''MP2020 anion correction (oxide)'' ''MaterialsProject2020Compatibility''] @ [] @
              concat (map (\<lambda>(symbol, amt).
                case map_of (sub_table (u_corrections ex_mp2020) ''O'') symbol of
                  Some c \<Rightarrow>
                    [CompositionEnergyAdjustment c amt
                       (case dd_get (sub_table_dd (u_errors ex_mp2020) ''O'') symbol of
                          Inr err \<Rightarrow> Some err | Inl exc \<Rightarrow> None)
                       (''MP2020 GGA/GGA+U mixing correction ('' @ symbol @ '')'') (mp_cls ex_mp2020)]
                | None \<Rightarrow> []) (amounts (composition ex_Fe3O4))))"
    by blast
  then have f3: "fst (MP2020_get_adjustments ex_env ex_mp2020 ex_Fe3O4) =
     Inr [CompositionEnergyAdjustment (- 0.687) 4 (Some 0.002)
            ''MP2020 anion correction (oxide)'' ''MaterialsProject2020Compatibility'',
          CompositionEnergyAdjustment (- 2.256) 1 (Some 0.0101)
            ''MP2020 GGA/GGA+U mixing correction (Fe)'' ''MaterialsProject2020Compatibility'',
          CompositionEnergyAdjustment (- 2.256) 2 (Some 0.0101)
            ''MP2020 GGA/GGA+U mixing correction (Fe)'' ''MaterialsProject2020Compatibility'']"
    by (simp add: run_defs ex_defs ex_Fe3O4_def)
  have h: "hubbards (parameters ex_Fe2O3) = Some [(''Fe'', 5.3)]"
    "hubbards (parameters ex_Fe2O3_GGA) = None"
    by (simp_all add: ex_Fe2O3_def ex_Fe2O3_GGA_def ex_parameters_def)
  from l1 f1 l2 f2 run_Fe2O3_blocks(1) run_Fe2O3_GGA_blocks(1) h a3 run_Fe3O4_blocks(1) m3 t3 l3 f3
  show ?thesis by blast
qed

subsection \<open>The correction of the gases\<close>

text \<open>
  C8. For an entry whose reduced formula is in the table of compound energies the correction
  is the energy of the table times the number of atoms minus the uncorrected energy, with the
  uncertainty zero, so that the uncorrected energy plus the correction, and the energy of the
  entry after a pass of a list of corrections holding this correction alone, is the energy of
  the table times the number of atoms; for any other entry the correction is zero with the
  uncertainty zero.
\<close>

theorem gas_correction_value:
  "(\<forall>c. map_of (cpd_energies gc) (reduced_formula (composition e)) = Some c \<longrightarrow>
      GasCorrection_get_correction gc e =
        \<lparr>nominal_value = c * num_atoms (composition e) - uncorrected_energy e, std_dev = 0\<rparr> \<and>
      uncorrected_energy e + nominal_value (GasCorrection_get_correction gc e)
        = c * num_atoms (composition e) \<and>
      (run_type (parameters e) \<in> set (map Some rts) \<longrightarrow>
       energy (fst (process_entry_body
                 (CorrectionsList_get_adjustments env
                    \<lparr>corrections = [GasCorrection gc], run_types = rts, cl_cls = cls\<rparr>) True e))
         = c * num_atoms (composition e))) \<and>
   (map_of (cpd_energies gc) (reduced_formula (composition e)) = None \<longrightarrow>
      GasCorrection_get_correction gc e = \<lparr>nominal_value = 0, std_dev = 0\<rparr>)"
proof (intro conjI allI impI)
  fix c assume c: "map_of (cpd_energies gc) (reduced_formula (composition e)) = Some c"
  then show g: "GasCorrection_get_correction gc e =
        \<lparr>nominal_value = c * num_atoms (composition e) - uncorrected_energy e, std_dev = 0\<rparr>"
    by (simp add: GasCorrection_get_correction_def uadd_float_def ufloat_zero_def)
  then show "uncorrected_energy e + nominal_value (GasCorrection_get_correction gc e)
        = c * num_atoms (composition e)" by simp
  assume rt: "run_type (parameters e) \<in> set (map Some rts)"
  let ?e0 = "e\<lparr>energy_adjustments := []\<rparr>"
  have g0: "GasCorrection_get_correction gc ?e0 =
        \<lparr>nominal_value = c * num_atoms (composition e) - uncorrected_energy e, std_dev = 0\<rparr>"
    using c by (simp add: GasCorrection_get_correction_def uadd_float_def ufloat_zero_def)
  show "energy (fst (process_entry_body
                 (CorrectionsList_get_adjustments env
                    \<lparr>corrections = [GasCorrection gc], run_types = rts, cl_cls = cls\<rparr>) True e))
         = c * num_atoms (composition e)"
  proof (cases "c * num_atoms (composition e) - uncorrected_energy e = 0")
    case True
    with rt g0 show ?thesis
      by (simp add: process_entry_body_def CorrectionsList_get_adjustments_def
          get_corrections_dict_def u_nonzero_def energy_def entry_correction_def)
  next
    case False
    with rt g0 show ?thesis
      by (simp add: process_entry_body_def CorrectionsList_get_adjustments_def
          get_corrections_dict_def u_nonzero_def get0_def ea_triple_def ea_key_def
          energy_def entry_correction_def)
  qed
next
  assume "map_of (cpd_energies gc) (reduced_formula (composition e)) = None"
  then show "GasCorrection_get_correction gc e = \<lparr>nominal_value = 0, std_dev = 0\<rparr>"
    by (simp add: GasCorrection_get_correction_def ufloat_zero_def)
qed

theorem gas_correction_value_witness:
  "map_of (cpd_energies ex_gas_correction) (reduced_formula (composition ex_O2)) = Some (- 4.25919) \<and>
   uncorrected_energy ex_O2 = - 9.8 \<and> num_atoms (composition ex_O2) = 2 \<and>
   GasCorrection_get_correction ex_gas_correction ex_O2 = \<lparr>nominal_value = 1.28162, std_dev = 0\<rparr> \<and>
   run_type (parameters ex_O2) \<in> set (map Some [''GGA'', ''GGA+U'', ''PBE'', ''PBE+U'']) \<and>
   energy (fst (process_entry_body
                 (CorrectionsList_get_adjustments ex_env
                    \<lparr>corrections = [GasCorrection ex_gas_correction],
                     run_types = [''GGA'', ''GGA+U'', ''PBE'', ''PBE+U''], cl_cls = ''MIT''\<rparr>) True ex_O2))
     = - 4.25919 * 2 \<and>
   map_of (cpd_energies ex_gas_correction) (reduced_formula (composition ex_MgO)) = None \<and>
   GasCorrection_get_correction ex_gas_correction ex_MgO = \<lparr>nominal_value = 0, std_dev = 0\<rparr>"
proof -
  have a: "map_of (cpd_energies ex_gas_correction) (reduced_formula (composition ex_O2)) = Some (- 4.25919)"
    and b: "run_type (parameters ex_O2) \<in> set (map Some [''GGA'', ''GGA+U'', ''PBE'', ''PBE+U''])"
    and c: "map_of (cpd_energies ex_gas_correction) (reduced_formula (composition ex_MgO)) = None"
    and d: "uncorrected_energy ex_O2 = - 9.8" "num_atoms (composition ex_O2) = 2"
    by (simp_all add: ex_gas_correction_def ex_O2_def ex_element_def ex_MgO_def ex_parameters_def)
  from gas_correction_value [of ex_gas_correction ex_O2 "[''GGA'', ''GGA+U'', ''PBE'', ''PBE+U'']"
      ex_env "''MIT''"] a b
  have "GasCorrection_get_correction ex_gas_correction ex_O2 =
          \<lparr>nominal_value = - 4.25919 * num_atoms (composition ex_O2) - uncorrected_energy ex_O2,
           std_dev = 0\<rparr>"
    "energy (fst (process_entry_body
                 (CorrectionsList_get_adjustments ex_env
                    \<lparr>corrections = [GasCorrection ex_gas_correction],
                     run_types = [''GGA'', ''GGA+U'', ''PBE'', ''PBE+U''], cl_cls = ''MIT''\<rparr>) True ex_O2))
     = - 4.25919 * num_atoms (composition ex_O2)"
    by blast+
  then have "GasCorrection_get_correction ex_gas_correction ex_O2 = \<lparr>nominal_value = 1.28162, std_dev = 0\<rparr>"
    "energy (fst (process_entry_body
                 (CorrectionsList_get_adjustments ex_env
                    \<lparr>corrections = [GasCorrection ex_gas_correction],
                     run_types = [''GGA'', ''GGA+U'', ''PBE'', ''PBE+U''], cl_cls = ''MIT''\<rparr>) True ex_O2))
     = - 4.25919 * 2"
    using d by simp_all
  moreover from gas_correction_value [of ex_gas_correction ex_MgO "[]" ex_env "''MIT''"] c
  have "GasCorrection_get_correction ex_gas_correction ex_MgO = \<lparr>nominal_value = 0, std_dev = 0\<rparr>"
    by blast
  ultimately show ?thesis using a b c d by simp
qed

subsection \<open>The aqueous scheme\<close>

lemma py_int_floor:
  assumes "0 < (k::real)"
  shows "(0 < of_int (py_int m) * k) = (0 < of_int \<lfloor>m\<rfloor> * k)"
    and "0 < of_int \<lfloor>m\<rfloor> * k \<Longrightarrow> py_int m = \<lfloor>m\<rfloor>"
proof -
  have pos: "\<And>i::int. (0 < of_int i * k) = (0 < i)"
    using assms by (simp add: zero_less_mult_iff)
  show "(0 < of_int (py_int m) * k) = (0 < of_int \<lfloor>m\<rfloor> * k)"
  proof (cases "0 \<le> m")
    case True
    then show ?thesis by (simp add: py_int_def)
  next
    case False
    then have "\<lfloor>m\<rfloor> \<le> 0" and "\<lceil>m\<rceil> \<le> 0" by simp_all
    with False show ?thesis by (simp add: py_int_def pos)
  qed
  assume "0 < of_int \<lfloor>m\<rfloor> * k"
  then have "0 < \<lfloor>m\<rfloor>" by (simp add: pos)
  then have "0 \<le> m" by linarith
  then show "py_int m = \<lfloor>m\<rfloor>" by (simp add: py_int_def)
qed

lemma hydrate_names:
  "filter (\<lambda>a. ea_name a = ''MP Aqueous hydrate'') (entropy_adjustment sch e) = []"
  "h2_adjustment sch fit e = Inr h2_adj \<Longrightarrow> filter (\<lambda>a. ea_name a = ''MP Aqueous hydrate'') h2_adj = []"
  by (auto simp: entropy_adjustment_def h2_adjustment_def Let_def split: if_splits option.splits)

text \<open>
  C5. Let the reference energies be set (and the energy of H2, for an entry of H2), and the
  factor of the reduced composition be positive. Then \<^verbatim>\<open>get_adjustments\<close> returns a list
  in which the adjustments named MP Aqueous hydrate are: exactly one, composition-scaled, with
  the value \<open>-(3 * h2o_adjustments + (-2.4583))\<close> per water and the count
  \<open>floor(min(H/2, O)) * factor\<close> taken on the reduced composition, when the reduced formula
  is not H2O and that count is positive; none otherwise.
\<close>

theorem hydrate_adjustment_rule:
  assumes "o2_energy sch = Some o2" and "h2o_energy sch = Some h2o"
    and "h2o_adjustments sch = Some h2o_adj"
    and "reduced_formula (composition e) = ''H2'' \<longrightarrow> h2_energy sch \<noteq> None"
    and "0 < reduction_factor (composition e)"
  shows "\<exists>adjs. fst (Aqueous_get_adjustments sch e) = Inr adjs \<and>
           filter (\<lambda>a. ea_name a = ''MP Aqueous hydrate'') adjs =
           (if reduced_formula (composition e) \<noteq> ''H2O'' \<and>
               0 < of_int \<lfloor>min (get0 (reduced_composition (composition e)) ''H'' / 2)
                                (get0 (reduced_composition (composition e)) ''O'')\<rfloor>
                   * reduction_factor (composition e)
            then [CompositionEnergyAdjustment (- (3 * h2o_adj + (- 2.4583)))
                    (of_int \<lfloor>min (get0 (reduced_composition (composition e)) ''H'' / 2)
                                  (get0 (reduced_composition (composition e)) ''O'')\<rfloor>
                     * reduction_factor (composition e))
                    None ''MP Aqueous hydrate'' (aqc_cls sch)]
            else [])"
proof -
  let ?m = "min (get0 (reduced_composition (composition e)) ''H'' / 2)
                (get0 (reduced_composition (composition e)) ''O'')"
  let ?k = "reduction_factor (composition e)"
  have "\<exists>h2_adj. h2_adjustment sch (fit_h2_energy o2 h2o) e = Inr h2_adj"
    using assms(4) by (cases "h2_energy sch") (simp_all add: h2_adjustment_def)
  then obtain h2_adj where h2: "h2_adjustment sch (fit_h2_energy o2 h2o) e = Inr h2_adj" ..
  have r: "fst (Aqueous_get_adjustments sch e) =
           Inr (h2_adj @ entropy_adjustment sch e @ hydrate_adjustment sch h2o_adj e)"
    using assms(1-3) h2 by (simp add: Aqueous_get_adjustments_def)
  have c: "count_nH2O (composition e) = of_int (py_int ?m) * ?k"
    by (simp add: count_nH2O_def)
  have hy: "hydrate_adjustment sch h2o_adj e =
           (if reduced_formula (composition e) \<noteq> ''H2O'' \<and> 0 < of_int \<lfloor>?m\<rfloor> * ?k
            then [CompositionEnergyAdjustment (- (3 * h2o_adj + (- 2.4583)))
                    (of_int \<lfloor>?m\<rfloor> * ?k) None ''MP Aqueous hydrate'' (aqc_cls sch)]
            else [])"
    using py_int_floor [OF assms(5), of ?m]
    by (auto simp: hydrate_adjustment_def Let_def c MU_H2O_def algebra_simps)
  have "filter (\<lambda>a. ea_name a = ''MP Aqueous hydrate'') (hydrate_adjustment sch h2o_adj e)
        = hydrate_adjustment sch h2o_adj e"
    by (simp add: hydrate_adjustment_def Let_def)
  with r hy hydrate_names(1) [of sch e] hydrate_names(2) [OF h2] show ?thesis by simp
qed

lemmas aq_defs = Aqueous_get_adjustments_def h2_adjustment_def entropy_adjustment_def
  hydrate_adjustment_def count_nH2O_def py_int_def fit_h2_energy_def py_round_def
  round_half_even_def cpd_entropies_def MU_H2O_def get0_def

lemmas aq_ex_defs = ex_aqueous_given_def ex_aqueous_def ex_hydrate_def ex_H2O_def ex_O2_def
  ex_element_def ex_parameters_def ex_data_def ex_hydrate_adjustment_def ex_entropy_adjustment_def

lemma run_aq_hydrate:
  "fst (Aqueous_get_adjustments ex_aqueous_given ex_hydrate) = Inr [ex_hydrate_adjustment]"
  by (simp add: aq_defs aq_ex_defs)

lemma run_aq_H2O:
  "fst (Aqueous_get_adjustments ex_aqueous_given ex_H2O) = Inr [ex_entropy_adjustment 0.071963 3]"
  by (simp add: aq_defs aq_ex_defs)

theorem hydrate_adjustment_rule_witness:
  "o2_energy ex_aqueous_given = Some (- 4.9) \<and> h2o_energy ex_aqueous_given = Some (- 5.129) \<and>
   h2o_adjustments ex_aqueous_given = Some (- 0.229) \<and>
   reduced_formula (composition ex_hydrate) = ''FeH4O3'' \<and>
   0 < reduction_factor (composition ex_hydrate) \<and>
   fst (Aqueous_get_adjustments ex_aqueous_given ex_hydrate) = Inr [ex_hydrate_adjustment] \<and>
   filter (\<lambda>a. ea_name a = ''MP Aqueous hydrate'') [ex_hydrate_adjustment] =
     [CompositionEnergyAdjustment (- (3 * (- 0.229) + (- 2.4583))) (2 * 1) None
        ''MP Aqueous hydrate'' ''MaterialsProjectAqueousCompatibility''] \<and>
   reduced_formula (composition ex_H2O) = ''H2O'' \<and>
   fst (Aqueous_get_adjustments ex_aqueous_given ex_H2O) = Inr [ex_entropy_adjustment 0.071963 3] \<and>
   filter (\<lambda>a. ea_name a = ''MP Aqueous hydrate'') [ex_entropy_adjustment 0.071963 3] = []"
proof -
  have h: "o2_energy ex_aqueous_given = Some (- 4.9)" "h2o_energy ex_aqueous_given = Some (- 5.129)"
    "h2o_adjustments ex_aqueous_given = Some (- 0.229)"
    "reduced_formula (composition ex_hydrate) = ''H2'' \<longrightarrow> h2_energy ex_aqueous_given \<noteq> None"
    "0 < reduction_factor (composition ex_hydrate)"
    "reduced_formula (composition ex_H2O) = ''H2'' \<longrightarrow> h2_energy ex_aqueous_given \<noteq> None"
    "0 < reduction_factor (composition ex_H2O)"
    "reduced_formula (composition ex_hydrate) = ''FeH4O3''"
    "reduced_formula (composition ex_H2O) = ''H2O''"
    by (simp_all add: aq_ex_defs)
  from hydrate_adjustment_rule [OF h(1) h(2) h(3) h(4) h(5)] run_aq_hydrate
  have a: "filter (\<lambda>a. ea_name a = ''MP Aqueous hydrate'') [ex_hydrate_adjustment] =
     [CompositionEnergyAdjustment (- (3 * (- 0.229) + (- 2.4583))) (2 * 1) None
        ''MP Aqueous hydrate'' ''MaterialsProjectAqueousCompatibility'']"
    by (simp add: aq_ex_defs get0_def)
  from hydrate_adjustment_rule [OF h(1) h(2) h(3) h(6) h(7)] run_aq_H2O
  have b: "filter (\<lambda>a. ea_name a = ''MP Aqueous hydrate'') [ex_entropy_adjustment 0.071963 3] = []"
    by (simp add: h(9))
  from h a b run_aq_hydrate run_aq_H2O show ?thesis by simp
qed

lemma sort_key_head:
  assumes "sort_key f xs = w # ws"
  shows "w \<in> set xs" and "\<forall>x\<in>set xs. f w \<le> f x"
proof -
  have s: "set (w # ws) = set xs" using assms set_sort [of f xs] by simp
  then show "w \<in> set xs" by auto
  have "sorted (map f (w # ws))" using assms sorted_sort_key [of f xs] by simp
  then have "\<forall>x\<in>set (w # ws). f w \<le> f x" by auto
  with s show "\<forall>x\<in>set xs. f w \<le> f x" by simp
qed

lemma scan_fields:
  "o2_energy (scan_h2 sch es) = o2_energy sch"
  "h2o_energy (scan_h2 sch es) = h2o_energy sch"
  "h2o_adjustments (scan_h2 sch es) = h2o_adjustments sch"
  "o2_energy (scan_h2o sch es) = o2_energy sch"
  "h2o_energy (scan_o2 sch es) = h2o_energy sch"
  "h2o_adjustments (scan_o2 sch es) = h2o_adjustments sch"
  by (simp_all add: scan_h2_def scan_h2o_def scan_o2_def split: list.splits)

lemma scan_o2_step:
  "o2_energy (scan_o2 sch es) = o2_energy sch \<or>
   with_formula ''O2'' es \<noteq> [] \<and>
   o2_energy (scan_o2 sch es) = Some (min_list (map energy_per_atom (with_formula ''O2'' es)))"
  by (cases "with_formula ''O2'' es") (simp_all add: scan_o2_def)

lemma scan_h2o_step:
  "h2o_energy (scan_h2o sch es) = h2o_energy sch \<and>
   h2o_adjustments (scan_h2o sch es) = h2o_adjustments sch \<or>
   (\<exists>w\<in>set (with_formula ''H2O'' es).
      (\<forall>x\<in>set (with_formula ''H2O'' es). energy_per_atom w \<le> energy_per_atom x) \<and>
      h2o_energy (scan_h2o sch es) = Some (energy_per_atom w) \<and>
      h2o_adjustments (scan_h2o sch es) = Some (entry_correction w / num_atoms (composition w)))"
proof (cases "sort_key energy_per_atom (with_formula ''H2O'' es)")
  case Nil
  then show ?thesis by (simp add: scan_h2o_def)
next
  case (Cons w ws)
  from sort_key_head [OF Cons]
  have "w \<in> set (with_formula ''H2O'' es)"
    and "\<forall>x\<in>set (with_formula ''H2O'' es). energy_per_atom w \<le> energy_per_atom x" by auto
  moreover have "(h2o_energy (scan_h2o sch es) = h2o_energy sch \<and>
                  h2o_adjustments (scan_h2o sch es) = h2o_adjustments sch) \<or>
                 (h2o_energy (scan_h2o sch es) = Some (energy_per_atom w) \<and>
                  h2o_adjustments (scan_h2o sch es)
                    = Some (entry_correction w / num_atoms (composition w)))"
    using Cons by (simp add: scan_h2o_def)
  ultimately show ?thesis by blast
qed

lemma scan_step_nothing:
  "o2_energy sch = None \<Longrightarrow> with_formula ''O2'' es = [] \<Longrightarrow> o2_energy (scan_o2 sch es) = None"
  "h2o_energy sch = None \<Longrightarrow> with_formula ''H2O'' es = [] \<Longrightarrow> h2o_energy (scan_h2o sch es) = None"
  "h2o_adjustments sch = None \<Longrightarrow> with_formula ''H2O'' es = [] \<Longrightarrow>
   h2o_adjustments (scan_h2o sch es) = None"
  by (simp_all add: scan_o2_def scan_h2o_def)

lemma scan_o2_energy:
  "o2_energy (scan sch es) = o2_energy sch \<or>
   with_formula ''O2'' es \<noteq> [] \<and>
   o2_energy (scan sch es) = Some (min_list (map energy_per_atom (with_formula ''O2'' es)))"
  using scan_o2_step [of sch es] by (simp add: scan_def scan_fields Let_def)

lemma scan_h2o_energy:
  "h2o_energy (scan sch es) = h2o_energy sch \<and> h2o_adjustments (scan sch es) = h2o_adjustments sch \<or>
   (\<exists>w\<in>set (with_formula ''H2O'' es).
      (\<forall>x\<in>set (with_formula ''H2O'' es). energy_per_atom w \<le> energy_per_atom x) \<and>
      h2o_energy (scan sch es) = Some (energy_per_atom w) \<and>
      h2o_adjustments (scan sch es) = Some (entry_correction w / num_atoms (composition w)))"
proof (cases "length es > 1")
  case True
  with scan_h2o_step [of "scan_o2 sch es" es] show ?thesis
    by (simp add: scan_def scan_fields Let_def)
next
  case False
  then show ?thesis by (simp add: scan_def scan_fields Let_def)
qed

lemma scan_nothing_found:
  "o2_energy sch = None \<Longrightarrow> with_formula ''O2'' es = [] \<Longrightarrow> o2_energy (scan sch es) = None"
  "h2o_energy sch = None \<Longrightarrow> with_formula ''H2O'' es = [] \<Longrightarrow> h2o_energy (scan sch es) = None"
  "h2o_adjustments sch = None \<Longrightarrow> with_formula ''H2O'' es = [] \<Longrightarrow> h2o_adjustments (scan sch es) = None"
  using scan_step_nothing(1) [of sch es] scan_step_nothing(2) [of "scan_o2 sch es" es]
    scan_step_nothing(3) [of "scan_o2 sch es" es]
  by (simp_all add: scan_def scan_fields Let_def)

lemma aqueous_raises:
  "(fst (Aqueous_get_adjustments sch e) = Inl CompatibilityError) \<longleftrightarrow>
   (o2_energy sch = None \<or> h2o_energy sch = None \<or> h2o_adjustments sch = None)"
  by (auto simp: Aqueous_get_adjustments_def h2_adjustment_def split: option.splits)

lemma process_loop_all_rejected:
  "\<forall>e. fst (ga e) = Inl CompatibilityError \<Longrightarrow> oe \<noteq> Raise \<Longrightarrow>
   process_loop ga clean oe es acc = Inr acc"
proof (induction es)
  case Nil
  then show ?case by simp
next
  case (Cons e es)
  let ?e0 = "if clean then e\<lparr>energy_adjustments := []\<rparr> else e"
  from Cons.prems(1) have "fst (ga ?e0) = Inl CompatibilityError" by blast
  then have "snd (process_entry_body ga clean e) = Inl CompatibilityError"
    by (cases "ga ?e0") (simp add: process_entry_body_def)
  with Cons show ?case by (cases "process_entry_body ga clean e") simp
qed

text \<open>
  C6. \<^verbatim>\<open>get_adjustments\<close> raises \<^verbatim>\<open>CompatibilityError\<close> exactly when one of the three
  reference values is unset. After the pass of the solid scheme, \<^verbatim>\<open>process_entries\<close>
  leaves each of them as it was, or takes the energy of O2 as the lowest energy per atom of the
  O2 entries of the batch, and the energy and the adjustments of H2O from an H2O entry of the
  batch with the lowest energy per atom. So when a value is unset and the batch has no entry
  to take it from, every entry is rejected: the call returns the empty list, unless it was asked
  to raise.
\<close>

theorem aqueous_reference_energies_required:
  "((fst (Aqueous_get_adjustments sch e) = Inl CompatibilityError) \<longleftrightarrow>
    (o2_energy sch = None \<or> h2o_energy sch = None \<or> h2o_adjustments sch = None)) \<and>
   (\<forall>es. solid_pass sch entries = Inr es \<longrightarrow>
      snd (Aqueous_process_entries sch entries clean oe) = scan sch es \<and>
      (o2_energy (scan sch es) = o2_energy sch \<or>
       with_formula ''O2'' es \<noteq> [] \<and>
       o2_energy (scan sch es) = Some (min_list (map energy_per_atom (with_formula ''O2'' es)))) \<and>
      (h2o_energy (scan sch es) = h2o_energy sch \<and>
       h2o_adjustments (scan sch es) = h2o_adjustments sch \<or>
       (\<exists>w\<in>set (with_formula ''H2O'' es).
          (\<forall>x\<in>set (with_formula ''H2O'' es). energy_per_atom w \<le> energy_per_atom x) \<and>
          h2o_energy (scan sch es) = Some (energy_per_atom w) \<and>
          h2o_adjustments (scan sch es) = Some (entry_correction w / num_atoms (composition w)))) \<and>
      (oe \<noteq> Raise \<and>
       (o2_energy sch = None \<and> with_formula ''O2'' es = [] \<or>
        (h2o_energy sch = None \<or> h2o_adjustments sch = None) \<and> with_formula ''H2O'' es = []) \<longrightarrow>
       fst (Aqueous_process_entries sch entries clean oe) = Inr []))"
proof (intro conjI allI impI)
  show "(fst (Aqueous_get_adjustments sch e) = Inl CompatibilityError) \<longleftrightarrow>
    (o2_energy sch = None \<or> h2o_energy sch = None \<or> h2o_adjustments sch = None)"
    by (rule aqueous_raises)
next
  fix es assume sp: "solid_pass sch entries = Inr es"
  then show "snd (Aqueous_process_entries sch entries clean oe) = scan sch es"
    by (simp add: Aqueous_process_entries_def Let_def)
  show "o2_energy (scan sch es) = o2_energy sch \<or>
       with_formula ''O2'' es \<noteq> [] \<and>
       o2_energy (scan sch es) = Some (min_list (map energy_per_atom (with_formula ''O2'' es)))"
    by (rule scan_o2_energy)
  show "h2o_energy (scan sch es) = h2o_energy sch \<and>
       h2o_adjustments (scan sch es) = h2o_adjustments sch \<or>
       (\<exists>w\<in>set (with_formula ''H2O'' es).
          (\<forall>x\<in>set (with_formula ''H2O'' es). energy_per_atom w \<le> energy_per_atom x) \<and>
          h2o_energy (scan sch es) = Some (energy_per_atom w) \<and>
          h2o_adjustments (scan sch es) = Some (entry_correction w / num_atoms (composition w)))"
    by (rule scan_h2o_energy)
  assume a: "oe \<noteq> Raise \<and>
       (o2_energy sch = None \<and> with_formula ''O2'' es = [] \<or>
        (h2o_energy sch = None \<or> h2o_adjustments sch = None) \<and> with_formula ''H2O'' es = [])"
  then have "o2_energy (scan sch es) = None \<or> h2o_energy (scan sch es) = None \<or>
             h2o_adjustments (scan sch es) = None"
    using scan_nothing_found [of sch es] by auto
  then have "\<forall>x. fst (Aqueous_get_adjustments (scan sch es) x) = Inl CompatibilityError"
    using aqueous_raises by blast
  from process_loop_all_rejected [OF this, of oe clean es "[]"] a sp
  show "fst (Aqueous_process_entries sch entries clean oe) = Inr []"
    by (simp add: Aqueous_process_entries_def Let_def process_entries_def)
qed

lemma run_solid:
  "MP2020_get_adjustments ex_env ex_mp2020 ex_O2 = (Inr [], ex_data)"
  "MP2020_get_adjustments ex_env ex_mp2020 ex_H2O = (Inr [ex_oxide_adjustment], ex_cached)"
  "MP2020_get_adjustments ex_env ex_mp2020 ex_hydrate
     = (Inr (energy_adjustments ex_hydrate_solid), ex_cached)"
  "MP2020_get_adjustments ex_env ex_mp2020 ex_H2_low = (Inr [], ex_data)"
  "MP2020_get_adjustments ex_env ex_mp2020 ex_H2_high = (Inr [], ex_data)"
  by (simp_all add: run_defs ex_defs ex_O2_def ex_H2O_def ex_hydrate_def ex_hydrate_solid_def
      ex_H2_low_def ex_H2_high_def ex_element_def)

lemma body_solid:
  "process_entry_body (MP2020_get_adjustments ex_env ex_mp2020) True ex_O2 = (ex_O2, Inr True)"
  "process_entry_body (MP2020_get_adjustments ex_env ex_mp2020) True ex_H2O = (ex_H2O_solid, Inr True)"
  "process_entry_body (MP2020_get_adjustments ex_env ex_mp2020) True ex_hydrate
     = (ex_hydrate_solid, Inr True)"
  "process_entry_body (MP2020_get_adjustments ex_env ex_mp2020) True ex_H2_low = (ex_H2_low, Inr True)"
  "process_entry_body (MP2020_get_adjustments ex_env ex_mp2020) True ex_H2_high = (ex_H2_high, Inr True)"
proof -
  show "process_entry_body (MP2020_get_adjustments ex_env ex_mp2020) True ex_O2 = (ex_O2, Inr True)"
    by (simp add: process_entry_body_def MP2020_ignores_adjustments run_solid)
       (simp add: ex_O2_def ex_element_def)
  show "process_entry_body (MP2020_get_adjustments ex_env ex_mp2020) True ex_H2O = (ex_H2O_solid, Inr True)"
    by (simp add: process_entry_body_def MP2020_ignores_adjustments run_solid)
       (simp add: ex_H2O_solid_def ex_H2O_def)
  show "process_entry_body (MP2020_get_adjustments ex_env ex_mp2020) True ex_hydrate
     = (ex_hydrate_solid, Inr True)"
    by (simp add: process_entry_body_def MP2020_ignores_adjustments run_solid)
       (simp add: ex_hydrate_solid_def ex_hydrate_def ea_triple_def ea_key_def)
  show "process_entry_body (MP2020_get_adjustments ex_env ex_mp2020) True ex_H2_low = (ex_H2_low, Inr True)"
    by (simp add: process_entry_body_def MP2020_ignores_adjustments run_solid)
       (simp add: ex_H2_low_def ex_element_def)
  show "process_entry_body (MP2020_get_adjustments ex_env ex_mp2020) True ex_H2_high = (ex_H2_high, Inr True)"
    by (simp add: process_entry_body_def MP2020_ignores_adjustments run_solid)
       (simp add: ex_H2_high_def ex_element_def)
qed

lemma solid_pass_batch:
  "solid_pass ex_aqueous [ex_O2, ex_H2O, ex_hydrate] = Inr [ex_O2, ex_H2O_solid, ex_hydrate_solid]"
  "solid_pass ex_aqueous [ex_MgO, ex_hydrate]
     = Inr [ex_MgO\<lparr>data := ex_cached, energy_adjustments := [ex_oxide_adjustment]\<rparr>, ex_hydrate_solid]"
  "solid_pass ex_aqueous_given [ex_H2_low, ex_H2_high] = Inr [ex_H2_low, ex_H2_high]"
  by (simp_all add: solid_pass_def ex_aqueous_def ex_aqueous_given_def process_entries_def
      body_solid body_MgO)

lemma formulas:
  "reduced_formula (composition ex_O2) = ''O2''"
  "reduced_formula (composition ex_H2O_solid) = ''H2O''"
  "reduced_formula (composition ex_hydrate_solid) = ''FeH4O3''"
  "reduced_formula (composition ex_MgO) = ''MgO''"
  "reduced_formula (composition ex_H2_low) = ''H2''"
  "reduced_formula (composition ex_H2_high) = ''H2''"
  by (simp_all add: ex_O2_def ex_H2O_solid_def ex_H2O_def ex_hydrate_solid_def ex_hydrate_def
      ex_MgO_def ex_H2_low_def ex_H2_high_def ex_element_def)

lemma energies:
  "energy_per_atom ex_O2 = - 4.9"
  "energy_per_atom ex_H2O_solid = - 5.129"
  "entry_correction ex_H2O_solid / num_atoms (composition ex_H2O_solid) = - 0.229"
  "energy_per_atom ex_H2_low = - 3.4"
  "energy_per_atom ex_H2_high = - 3.3"
  by (simp_all add: energy_per_atom_def energy_def entry_correction_def ex_O2_def ex_H2O_solid_def
      ex_H2O_def ex_oxide_adjustment_def ex_H2_low_def ex_H2_high_def ex_element_def)

lemma scan_batch:
  "scan ex_aqueous [ex_O2, ex_H2O_solid, ex_hydrate_solid] = ex_aqueous_given"
  by (simp add: scan_def scan_o2_def scan_h2o_def scan_h2_def with_formula_def formulas energies
      unset_def Let_def ex_aqueous_def ex_aqueous_given_def)

theorem aqueous_reference_energies_required_witness:
  "solid_pass ex_aqueous [ex_O2, ex_H2O, ex_hydrate] = Inr [ex_O2, ex_H2O_solid, ex_hydrate_solid] \<and>
   o2_energy ex_aqueous = None \<and>
   fst (Aqueous_get_adjustments ex_aqueous ex_hydrate_solid) = Inl CompatibilityError \<and>
   snd (Aqueous_process_entries ex_aqueous [ex_O2, ex_H2O, ex_hydrate] False Ignore) = ex_aqueous_given \<and>
   o2_energy ex_aqueous_given = Some (energy_per_atom ex_O2) \<and>
   h2o_energy ex_aqueous_given = Some (energy_per_atom ex_H2O_solid) \<and>
   h2o_adjustments ex_aqueous_given
     = Some (entry_correction ex_H2O_solid / num_atoms (composition ex_H2O_solid)) \<and>
   fst (Aqueous_get_adjustments ex_aqueous_given ex_hydrate_solid) \<noteq> Inl CompatibilityError \<and>
   solid_pass ex_aqueous [ex_MgO, ex_hydrate]
     = Inr [ex_MgO\<lparr>data := ex_cached, energy_adjustments := [ex_oxide_adjustment]\<rparr>, ex_hydrate_solid] \<and>
   fst (Aqueous_process_entries ex_aqueous [ex_MgO, ex_hydrate] False Ignore) = Inr []"
proof -
  note a = aqueous_reference_energies_required
    [of ex_aqueous ex_hydrate_solid "[ex_O2, ex_H2O, ex_hydrate]" False Ignore]
  note g = aqueous_reference_energies_required
    [of ex_aqueous_given ex_hydrate_solid "[]" False Ignore]
  note b = aqueous_reference_energies_required
    [of ex_aqueous ex_hydrate_solid "[ex_MgO, ex_hydrate]" False Ignore]
  have n: "o2_energy ex_aqueous = None" by (simp add: ex_aqueous_def)
  have v: "o2_energy ex_aqueous_given = Some (energy_per_atom ex_O2)"
    "h2o_energy ex_aqueous_given = Some (energy_per_atom ex_H2O_solid)"
    "h2o_adjustments ex_aqueous_given
       = Some (entry_correction ex_H2O_solid / num_atoms (composition ex_H2O_solid))"
    by (simp_all add: energies ex_aqueous_given_def)
  from a n have r1: "fst (Aqueous_get_adjustments ex_aqueous ex_hydrate_solid) = Inl CompatibilityError"
    by blast
  from g v have r2: "fst (Aqueous_get_adjustments ex_aqueous_given ex_hydrate_solid) \<noteq> Inl CompatibilityError"
    by simp
  from a solid_pass_batch(1)
  have "snd (Aqueous_process_entries ex_aqueous [ex_O2, ex_H2O, ex_hydrate] False Ignore)
        = scan ex_aqueous [ex_O2, ex_H2O_solid, ex_hydrate_solid]" by blast
  then have r3: "snd (Aqueous_process_entries ex_aqueous [ex_O2, ex_H2O, ex_hydrate] False Ignore)
        = ex_aqueous_given" by (simp add: scan_batch)
  have "with_formula ''O2'' [ex_MgO\<lparr>data := ex_cached, energy_adjustments := [ex_oxide_adjustment]\<rparr>,
                            ex_hydrate_solid] = []"
    by (simp add: with_formula_def formulas ex_MgO_def)
  with b solid_pass_batch(2) n
  have r4: "fst (Aqueous_process_entries ex_aqueous [ex_MgO, ex_hydrate] False Ignore) = Inr []"
    by auto
  from n v r1 r2 r3 r4 solid_pass_batch show ?thesis by simp
qed

lemma sort_key_nonempty:
  assumes "xs \<noteq> []"
  shows "\<exists>w ws. sort_key f xs = w # ws"
proof (cases "sort_key f xs")
  case Nil
  then have "set xs = {}" using set_sort [of f xs] by simp
  with assms show ?thesis by simp
next
  case (Cons w ws)
  then show ?thesis by blast
qed

lemma scan_h2_energy:
  assumes "with_formula ''H2'' es \<noteq> []"
  shows "\<exists>l\<in>set (with_formula ''H2'' es).
           h2_energy (scan sch es) = Some (energy_per_atom l) \<and>
           (\<forall>x\<in>set (with_formula ''H2'' es). energy_per_atom l \<le> energy_per_atom x)"
proof -
  from sort_key_nonempty [OF assms] obtain w ws
    where s: "sort_key energy_per_atom (with_formula ''H2'' es) = w # ws" by blast
  then have "h2_energy (scan sch es) = Some (energy_per_atom w)"
    by (simp add: scan_def scan_h2_def Let_def)
  with sort_key_head [OF s] show ?thesis by blast
qed

lemma h2_batch:
  "Aqueous_process_entries ex_aqueous_given [ex_H2_low, ex_H2_high] False Ignore
     = (Inr [ex_H2_low\<lparr>energy_adjustments := [ex_H2_adjustment]\<rparr>,
             ex_H2_high\<lparr>energy_adjustments := [ex_H2_adjustment]\<rparr>], ex_aqueous_scanned)"
proof -
  have s: "scan ex_aqueous_given [ex_H2_low, ex_H2_high] = ex_aqueous_scanned"
    by (simp add: scan_def scan_o2_def scan_h2o_def scan_h2_def with_formula_def formulas energies
        unset_def Let_def ex_aqueous_def ex_aqueous_given_def ex_aqueous_scanned_def)
  have g: "Aqueous_get_adjustments ex_aqueous_scanned ex_H2_low
             = (Inr [ex_H2_adjustment], data ex_H2_low)"
    "Aqueous_get_adjustments ex_aqueous_scanned ex_H2_high
             = (Inr [ex_H2_adjustment], data ex_H2_high)"
    by (simp_all add: aq_defs aq_ex_defs ex_aqueous_scanned_def ex_H2_low_def ex_H2_high_def
        ex_H2_adjustment_def)
  have b: "process_entry_body (Aqueous_get_adjustments ex_aqueous_scanned)
             False ex_H2_low = (ex_H2_low\<lparr>energy_adjustments := [ex_H2_adjustment]\<rparr>, Inr True)"
    "process_entry_body (Aqueous_get_adjustments ex_aqueous_scanned)
             False ex_H2_high = (ex_H2_high\<lparr>energy_adjustments := [ex_H2_adjustment]\<rparr>, Inr True)"
    by (simp_all add: process_entry_body_def g)
       (simp_all add: ex_H2_low_def ex_H2_high_def ex_element_def)
  show ?thesis
    by (simp add: Aqueous_process_entries_def solid_pass_batch s process_entries_def b)
qed

text \<open>
  C4 as stated fails: two entries of H2 of one batch, processed with the reference energies
  given, both get the adjustment that takes the lower one to the fitted energy, and end at
  different energies.
\<close>

theorem h2_polymorphs_keep_their_distance:
  "reduced_formula (composition ex_H2_low) = ''H2'' \<and>
   reduced_formula (composition ex_H2_high) = ''H2'' \<and>
   num_atoms (composition ex_H2_low) = 2 \<and> num_atoms (composition ex_H2_high) = 2 \<and>
   fst (Aqueous_process_entries ex_aqueous_given [ex_H2_low, ex_H2_high] False Ignore)
     = Inr [ex_H2_low\<lparr>energy_adjustments := [ex_H2_adjustment]\<rparr>,
            ex_H2_high\<lparr>energy_adjustments := [ex_H2_adjustment]\<rparr>] \<and>
   energy (ex_H2_low\<lparr>energy_adjustments := [ex_H2_adjustment]\<rparr>) = - 7.927858 \<and>
   energy (ex_H2_high\<lparr>energy_adjustments := [ex_H2_adjustment]\<rparr>) = - 7.727858"
proof -
  have p: "fst (Aqueous_process_entries ex_aqueous_given [ex_H2_low, ex_H2_high] False Ignore)
     = Inr [ex_H2_low\<lparr>energy_adjustments := [ex_H2_adjustment]\<rparr>,
            ex_H2_high\<lparr>energy_adjustments := [ex_H2_adjustment]\<rparr>]"
    by (simp add: h2_batch)
  have e: "energy (ex_H2_low\<lparr>energy_adjustments := [ex_H2_adjustment]\<rparr>) = - 7.927858"
    "energy (ex_H2_high\<lparr>energy_adjustments := [ex_H2_adjustment]\<rparr>) = - 7.727858"
    "num_atoms (composition ex_H2_low) = 2" "num_atoms (composition ex_H2_high) = 2"
    by (simp_all add: energy_def entry_correction_def ex_H2_adjustment_def ex_H2_low_def
        ex_H2_high_def ex_element_def)
  from p e formulas(5,6) show ?thesis by simp
qed

text \<open>
  What \<^verbatim>\<open>get_adjustments\<close> returns for an entry of H2, and what a pass makes of an entry
  of H2 that has no adjustments when the adjustments are applied.
\<close>

lemma h2_get_adjustments:
  assumes "o2_energy sch = Some o2" and "h2o_energy sch = Some h2o"
    and "h2o_adjustments sch = Some h2o_adj" and "h2_energy sch = Some h2"
    and "reduced_formula (composition e) = ''H2''"
  shows "Aqueous_get_adjustments sch (e\<lparr>energy_adjustments := carried\<rparr>) =
           (Inr (ConstantEnergyAdjustment
                   ((fit_h2_energy o2 h2o - h2) * num_atoms (composition e)) None
                   ''MP Aqueous H2 / H2O referencing'' (aqc_cls sch)
                 # hydrate_adjustment sch h2o_adj e), data e)"
  using assms
  by (simp add: Aqueous_get_adjustments_def h2_adjustment_def entropy_adjustment_def
      cpd_entropies_def hydrate_adjustment_def)

lemma h2_body:
  assumes "o2_energy sch = Some o2" and "h2o_energy sch = Some h2o"
    and "h2o_adjustments sch = Some h2o_adj" and "h2_energy sch = Some h2"
    and "reduced_formula (composition e) = ''H2''"
    and "clean \<or> energy_adjustments e = []"
  shows "process_entry_body (Aqueous_get_adjustments sch) clean e =
           (e\<lparr>energy_adjustments :=
                ConstantEnergyAdjustment
                   ((fit_h2_energy o2 h2o - h2) * num_atoms (composition e)) None
                   ''MP Aqueous H2 / H2O referencing'' (aqc_cls sch)
                 # hydrate_adjustment sch h2o_adj e\<rparr>, Inr True)"
proof -
  let ?adj = "ConstantEnergyAdjustment
                   ((fit_h2_energy o2 h2o - h2) * num_atoms (composition e)) None
                   ''MP Aqueous H2 / H2O referencing'' (aqc_cls sch)"
  let ?e0 = "if clean then e\<lparr>energy_adjustments := []\<rparr> else e"
  from assms(6) have e0: "?e0 = e\<lparr>energy_adjustments := []\<rparr>" by auto
  have g: "Aqueous_get_adjustments sch ?e0 = (Inr (?adj # hydrate_adjustment sch h2o_adj e), data e)"
    unfolding e0 using assms(1-5) by (rule h2_get_adjustments)
  have a: "apply_adjustments (?adj # hydrate_adjustment sch h2o_adj e) ([], False)
           = (?adj # hydrate_adjustment sch h2o_adj e, False)"
    by (simp add: hydrate_adjustment_def Let_def ea_triple_def ea_key_def)
  from process_entry_body_Inr [of ?e0 clean e "Aqueous_get_adjustments sch"
      "?adj # hydrate_adjustment sch h2o_adj e" "data e", OF refl g]
  show ?thesis unfolding e0 using a by (simp del: apply_adjustments.simps)
qed

text \<open>
  C4, as amended. With the three reference values set, the fitted energy of H2 per atom is
  \<open>round(0.5 * (3 * (h2o_energy - 0.071963) - (o2_energy - 0.316731) - (-2.4583)), 6)\<close>, and
  for an entry of H2 \<^verbatim>\<open>get_adjustments\<close> returns first the constant adjustment (fitted
  energy minus the energy of H2 of the scheme) times the number of atoms, and fails its
  assertion when the scheme has no energy of H2. Let the overriding \<^verbatim>\<open>process_entries\<close>
  return. The energy of H2 that it leaves in the scheme is the lowest energy per atom among
  the entries of H2 of the batch as the pass of the solid scheme returns them, with the
  adjustments that they carry at that moment, before the optional clean; so for such an
  entry, whatever adjustments it carries, the constant adjustment is (fitted energy minus
  that lowest energy) times the number of atoms. When the
  entry is cleaned or carries no adjustment, it is kept with the computed adjustments, and, as
  an entry of H2 holds no water, its energy per atom ends at the fitted energy plus the
  distance of its uncorrected energy per atom from that lowest energy: the polymorphs of a
  batch are all shifted by the same amount per atom and keep their differences, and the lowest
  one ends at the fitted energy when it carried no adjustment at the scan.
\<close>

theorem h2_reference_adjustment:
  assumes "Aqueous_process_entries sch entries clean oe = (Inr out, sch')"
  shows "(\<forall>s x o2 h2o h2o_adj.
            o2_energy s = Some o2 \<and> h2o_energy s = Some h2o \<and> h2o_adjustments s = Some h2o_adj \<and>
            reduced_formula (composition x) = ''H2'' \<longrightarrow>
            fit_h2_energy o2 h2o
              = py_round (0.5 * (3 * (h2o - 0.071963) - (o2 - 0.316731) - (- 2.4583))) 6 \<and>
            (\<forall>h2. h2_energy s = Some h2 \<longrightarrow>
               fst (Aqueous_get_adjustments s x) =
                 Inr (ConstantEnergyAdjustment
                        ((fit_h2_energy o2 h2o - h2) * num_atoms (composition x))
                        None ''MP Aqueous H2 / H2O referencing'' (aqc_cls s)
                      # hydrate_adjustment s h2o_adj x)) \<and>
            (h2_energy s = None \<longrightarrow> fst (Aqueous_get_adjustments s x) = Inl AssertionError)) \<and>
         (\<exists>es. solid_pass sch entries = Inr es \<and> sch' = scan sch es \<and>
           out = map (\<lambda>e. fst (process_entry_body (Aqueous_get_adjustments sch') clean e))
                     (filter (\<lambda>e. snd (process_entry_body (Aqueous_get_adjustments sch') clean e)
                                    = Inr True) es) \<and>
           (\<forall>e\<in>set es. reduced_formula (composition e) = ''H2'' \<longrightarrow>
              (\<exists>l\<in>set es. reduced_formula (composition l) = ''H2'' \<and>
                 h2_energy sch' = Some (energy_per_atom l) \<and>
                 (\<forall>x\<in>set es. reduced_formula (composition x) = ''H2''
                                 \<longrightarrow> energy_per_atom l \<le> energy_per_atom x) \<and>
                 (\<forall>o2 h2o h2o_adj.
                    o2_energy sch' = Some o2 \<and> h2o_energy sch' = Some h2o \<and>
                    h2o_adjustments sch' = Some h2o_adj \<longrightarrow>
                    fit_h2_energy o2 h2o
                      = py_round (0.5 * (3 * (h2o - 0.071963) - (o2 - 0.316731) - (- 2.4583))) 6 \<and>
                    (\<forall>carried.
                       fst (Aqueous_get_adjustments sch' (e\<lparr>energy_adjustments := carried\<rparr>)) =
                         Inr (ConstantEnergyAdjustment
                                ((fit_h2_energy o2 h2o - energy_per_atom l) * num_atoms (composition e))
                                None ''MP Aqueous H2 / H2O referencing'' (aqc_cls sch')
                              # hydrate_adjustment sch' h2o_adj e)) \<and>
                    (clean \<or> energy_adjustments e = [] \<longrightarrow>
                       process_entry_body (Aqueous_get_adjustments sch') clean e =
                         (e\<lparr>energy_adjustments :=
                              ConstantEnergyAdjustment
                                ((fit_h2_energy o2 h2o - energy_per_atom l) * num_atoms (composition e))
                                None ''MP Aqueous H2 / H2O referencing'' (aqc_cls sch')
                              # hydrate_adjustment sch' h2o_adj e\<rparr>, Inr True) \<and>
                       (count_nH2O (composition e) \<le> 0 \<and> num_atoms (composition e) \<noteq> 0 \<longrightarrow>
                          energy_per_atom (fst (process_entry_body (Aqueous_get_adjustments sch') clean e))
                            = fit_h2_energy o2 h2o
                              + (uncorrected_energy e / num_atoms (composition e) - energy_per_atom l) \<and>
                          (energy_adjustments e = [] \<longrightarrow>
                             energy_per_atom (fst (process_entry_body (Aqueous_get_adjustments sch') clean e))
                               = fit_h2_energy o2 h2o + (energy_per_atom e - energy_per_atom l))))))))"
proof -
  obtain es where sp: "solid_pass sch entries = Inr es"
    using assms by (cases "solid_pass sch entries") (simp_all add: Aqueous_process_entries_def)
  with assms have s: "sch' = scan sch es"
    and pe: "process_entries (Aqueous_get_adjustments sch') es clean oe = Inr out"
    by (auto simp: Aqueous_process_entries_def Let_def)
  have o: "out = map (\<lambda>e. fst (process_entry_body (Aqueous_get_adjustments sch') clean e))
                     (filter (\<lambda>e. snd (process_entry_body (Aqueous_get_adjustments sch') clean e)
                                    = Inr True) es)"
    using pe by (rule process_entries_Inr)
  have h2: "\<forall>e\<in>set es. reduced_formula (composition e) = ''H2'' \<longrightarrow>
              (\<exists>l\<in>set es. reduced_formula (composition l) = ''H2'' \<and>
                 h2_energy sch' = Some (energy_per_atom l) \<and>
                 (\<forall>x\<in>set es. reduced_formula (composition x) = ''H2''
                                 \<longrightarrow> energy_per_atom l \<le> energy_per_atom x) \<and>
                 (\<forall>o2 h2o h2o_adj.
                    o2_energy sch' = Some o2 \<and> h2o_energy sch' = Some h2o \<and>
                    h2o_adjustments sch' = Some h2o_adj \<longrightarrow>
                    fit_h2_energy o2 h2o
                      = py_round (0.5 * (3 * (h2o - 0.071963) - (o2 - 0.316731) - (- 2.4583))) 6 \<and>
                    (\<forall>carried.
                       fst (Aqueous_get_adjustments sch' (e\<lparr>energy_adjustments := carried\<rparr>)) =
                         Inr (ConstantEnergyAdjustment
                                ((fit_h2_energy o2 h2o - energy_per_atom l) * num_atoms (composition e))
                                None ''MP Aqueous H2 / H2O referencing'' (aqc_cls sch')
                              # hydrate_adjustment sch' h2o_adj e)) \<and>
                    (clean \<or> energy_adjustments e = [] \<longrightarrow>
                       process_entry_body (Aqueous_get_adjustments sch') clean e =
                         (e\<lparr>energy_adjustments :=
                              ConstantEnergyAdjustment
                                ((fit_h2_energy o2 h2o - energy_per_atom l) * num_atoms (composition e))
                                None ''MP Aqueous H2 / H2O referencing'' (aqc_cls sch')
                              # hydrate_adjustment sch' h2o_adj e\<rparr>, Inr True) \<and>
                       (count_nH2O (composition e) \<le> 0 \<and> num_atoms (composition e) \<noteq> 0 \<longrightarrow>
                          energy_per_atom (fst (process_entry_body (Aqueous_get_adjustments sch') clean e))
                            = fit_h2_energy o2 h2o
                              + (uncorrected_energy e / num_atoms (composition e) - energy_per_atom l) \<and>
                          (energy_adjustments e = [] \<longrightarrow>
                             energy_per_atom (fst (process_entry_body (Aqueous_get_adjustments sch') clean e))
                               = fit_h2_energy o2 h2o + (energy_per_atom e - energy_per_atom l))))))"
  proof (intro ballI impI)
    fix e assume e: "e \<in> set es" and f: "reduced_formula (composition e) = ''H2''"
    then have "with_formula ''H2'' es \<noteq> []" by (auto simp: with_formula_def filter_empty_conv)
    from scan_h2_energy [OF this, of sch] s obtain l where
      l: "l \<in> set (with_formula ''H2'' es)" "h2_energy sch' = Some (energy_per_atom l)"
         "\<forall>x\<in>set (with_formula ''H2'' es). energy_per_atom l \<le> energy_per_atom x"
      by blast
    from l(1) have l1: "l \<in> set es" "reduced_formula (composition l) = ''H2''"
      by (simp_all add: with_formula_def)
    from l(3) have l3: "\<forall>x\<in>set es. reduced_formula (composition x) = ''H2''
                                 \<longrightarrow> energy_per_atom l \<le> energy_per_atom x"
      by (simp add: with_formula_def)
    have rest: "\<forall>o2 h2o h2o_adj.
                    o2_energy sch' = Some o2 \<and> h2o_energy sch' = Some h2o \<and>
                    h2o_adjustments sch' = Some h2o_adj \<longrightarrow>
                    fit_h2_energy o2 h2o
                      = py_round (0.5 * (3 * (h2o - 0.071963) - (o2 - 0.316731) - (- 2.4583))) 6 \<and>
                    (\<forall>carried.
                       fst (Aqueous_get_adjustments sch' (e\<lparr>energy_adjustments := carried\<rparr>)) =
                         Inr (ConstantEnergyAdjustment
                                ((fit_h2_energy o2 h2o - energy_per_atom l) * num_atoms (composition e))
                                None ''MP Aqueous H2 / H2O referencing'' (aqc_cls sch')
                              # hydrate_adjustment sch' h2o_adj e)) \<and>
                    (clean \<or> energy_adjustments e = [] \<longrightarrow>
                       process_entry_body (Aqueous_get_adjustments sch') clean e =
                         (e\<lparr>energy_adjustments :=
                              ConstantEnergyAdjustment
                                ((fit_h2_energy o2 h2o - energy_per_atom l) * num_atoms (composition e))
                                None ''MP Aqueous H2 / H2O referencing'' (aqc_cls sch')
                              # hydrate_adjustment sch' h2o_adj e\<rparr>, Inr True) \<and>
                       (count_nH2O (composition e) \<le> 0 \<and> num_atoms (composition e) \<noteq> 0 \<longrightarrow>
                          energy_per_atom (fst (process_entry_body (Aqueous_get_adjustments sch') clean e))
                            = fit_h2_energy o2 h2o
                              + (uncorrected_energy e / num_atoms (composition e) - energy_per_atom l) \<and>
                          (energy_adjustments e = [] \<longrightarrow>
                             energy_per_atom (fst (process_entry_body (Aqueous_get_adjustments sch') clean e))
                               = fit_h2_energy o2 h2o + (energy_per_atom e - energy_per_atom l))))"
    proof (intro allI impI conjI)
      fix o2 h2o h2o_adj
      show "fit_h2_energy o2 h2o
              = py_round (0.5 * (3 * (h2o - 0.071963) - (o2 - 0.316731) - (- 2.4583))) 6"
        by (simp add: fit_h2_energy_def cpd_entropies_def get0_def MU_H2O_def)
      assume r: "o2_energy sch' = Some o2 \<and> h2o_energy sch' = Some h2o \<and>
                 h2o_adjustments sch' = Some h2o_adj"
      then have r1: "o2_energy sch' = Some o2" and r2: "h2o_energy sch' = Some h2o"
        and r3: "h2o_adjustments sch' = Some h2o_adj" by blast+
      fix carried
      show "fst (Aqueous_get_adjustments sch' (e\<lparr>energy_adjustments := carried\<rparr>)) =
                         Inr (ConstantEnergyAdjustment
                                ((fit_h2_energy o2 h2o - energy_per_atom l) * num_atoms (composition e))
                                None ''MP Aqueous H2 / H2O referencing'' (aqc_cls sch')
                              # hydrate_adjustment sch' h2o_adj e)"
        by (simp add: h2_get_adjustments [OF r1 r2 r3 l(2) f])
    next
      fix o2 h2o h2o_adj
      assume r: "o2_energy sch' = Some o2 \<and> h2o_energy sch' = Some h2o \<and>
                 h2o_adjustments sch' = Some h2o_adj"
      then have r1: "o2_energy sch' = Some o2" and r2: "h2o_energy sch' = Some h2o"
        and r3: "h2o_adjustments sch' = Some h2o_adj" by blast+
      assume c: "clean \<or> energy_adjustments e = []"
      show b: "process_entry_body (Aqueous_get_adjustments sch') clean e =
                         (e\<lparr>energy_adjustments :=
                              ConstantEnergyAdjustment
                                ((fit_h2_energy o2 h2o - energy_per_atom l) * num_atoms (composition e))
                                None ''MP Aqueous H2 / H2O referencing'' (aqc_cls sch')
                              # hydrate_adjustment sch' h2o_adj e\<rparr>, Inr True)"
        by (rule h2_body [OF r1 r2 r3 l(2) f c])
      assume n: "count_nH2O (composition e) \<le> 0 \<and> num_atoms (composition e) \<noteq> 0"
      then have hy: "hydrate_adjustment sch' h2o_adj e = []"
        by (simp add: hydrate_adjustment_def Let_def)
      from n have nz: "num_atoms (composition e) \<noteq> 0" by blast
      show v: "energy_per_atom (fst (process_entry_body (Aqueous_get_adjustments sch') clean e))
                 = fit_h2_energy o2 h2o
                   + (uncorrected_energy e / num_atoms (composition e) - energy_per_atom l)"
        using nz by (simp add: b hy energy_per_atom_def [of "e\<lparr>energy_adjustments := _\<rparr>"]
            energy_def entry_correction_def field_simps)
      assume "energy_adjustments e = []"
      then have "energy_per_atom e = uncorrected_energy e / num_atoms (composition e)"
        by (simp add: energy_per_atom_def energy_def entry_correction_def)
      with v show "energy_per_atom (fst (process_entry_body (Aqueous_get_adjustments sch') clean e))
                     = fit_h2_energy o2 h2o + (energy_per_atom e - energy_per_atom l)"
        by simp
    qed
    from l1 l(2) l3 rest
    show "\<exists>l\<in>set es. reduced_formula (composition l) = ''H2'' \<and>
                 h2_energy sch' = Some (energy_per_atom l) \<and>
                 (\<forall>x\<in>set es. reduced_formula (composition x) = ''H2''
                                 \<longrightarrow> energy_per_atom l \<le> energy_per_atom x) \<and>
                 (\<forall>o2 h2o h2o_adj.
                    o2_energy sch' = Some o2 \<and> h2o_energy sch' = Some h2o \<and>
                    h2o_adjustments sch' = Some h2o_adj \<longrightarrow>
                    fit_h2_energy o2 h2o
                      = py_round (0.5 * (3 * (h2o - 0.071963) - (o2 - 0.316731) - (- 2.4583))) 6 \<and>
                    (\<forall>carried.
                       fst (Aqueous_get_adjustments sch' (e\<lparr>energy_adjustments := carried\<rparr>)) =
                         Inr (ConstantEnergyAdjustment
                                ((fit_h2_energy o2 h2o - energy_per_atom l) * num_atoms (composition e))
                                None ''MP Aqueous H2 / H2O referencing'' (aqc_cls sch')
                              # hydrate_adjustment sch' h2o_adj e)) \<and>
                    (clean \<or> energy_adjustments e = [] \<longrightarrow>
                       process_entry_body (Aqueous_get_adjustments sch') clean e =
                         (e\<lparr>energy_adjustments :=
                              ConstantEnergyAdjustment
                                ((fit_h2_energy o2 h2o - energy_per_atom l) * num_atoms (composition e))
                                None ''MP Aqueous H2 / H2O referencing'' (aqc_cls sch')
                              # hydrate_adjustment sch' h2o_adj e\<rparr>, Inr True) \<and>
                       (count_nH2O (composition e) \<le> 0 \<and> num_atoms (composition e) \<noteq> 0 \<longrightarrow>
                          energy_per_atom (fst (process_entry_body (Aqueous_get_adjustments sch') clean e))
                            = fit_h2_energy o2 h2o
                              + (uncorrected_energy e / num_atoms (composition e) - energy_per_atom l) \<and>
                          (energy_adjustments e = [] \<longrightarrow>
                             energy_per_atom (fst (process_entry_body (Aqueous_get_adjustments sch') clean e))
                               = fit_h2_energy o2 h2o + (energy_per_atom e - energy_per_atom l)))))"
      by blast
  qed
  have direct: "\<forall>s x o2 h2o h2o_adj.
            o2_energy s = Some o2 \<and> h2o_energy s = Some h2o \<and> h2o_adjustments s = Some h2o_adj \<and>
            reduced_formula (composition x) = ''H2'' \<longrightarrow>
            fit_h2_energy o2 h2o
              = py_round (0.5 * (3 * (h2o - 0.071963) - (o2 - 0.316731) - (- 2.4583))) 6 \<and>
            (\<forall>h2. h2_energy s = Some h2 \<longrightarrow>
               fst (Aqueous_get_adjustments s x) =
                 Inr (ConstantEnergyAdjustment
                        ((fit_h2_energy o2 h2o - h2) * num_atoms (composition x))
                        None ''MP Aqueous H2 / H2O referencing'' (aqc_cls s)
                      # hydrate_adjustment s h2o_adj x)) \<and>
            (h2_energy s = None \<longrightarrow> fst (Aqueous_get_adjustments s x) = Inl AssertionError)"
  proof (intro allI impI conjI)
    fix s :: aqueous_compat and x :: entry and o2 h2o h2o_adj :: real
    show "fit_h2_energy o2 h2o
            = py_round (0.5 * (3 * (h2o - 0.071963) - (o2 - 0.316731) - (- 2.4583))) 6"
      by (simp add: fit_h2_energy_def cpd_entropies_def get0_def MU_H2O_def)
    assume a: "o2_energy s = Some o2 \<and> h2o_energy s = Some h2o \<and> h2o_adjustments s = Some h2o_adj \<and>
               reduced_formula (composition x) = ''H2''"
    {
      fix h2 assume "h2_energy s = Some h2"
      with a h2_get_adjustments [of s o2 h2o h2o_adj h2 x "energy_adjustments x"]
      show "fst (Aqueous_get_adjustments s x) =
                 Inr (ConstantEnergyAdjustment
                        ((fit_h2_energy o2 h2o - h2) * num_atoms (composition x))
                        None ''MP Aqueous H2 / H2O referencing'' (aqc_cls s)
                      # hydrate_adjustment s h2o_adj x)"
        by simp
    next
      assume "h2_energy s = None"
      with a show "fst (Aqueous_get_adjustments s x) = Inl AssertionError"
        by (simp add: Aqueous_get_adjustments_def h2_adjustment_def)
    }
  qed
  show ?thesis
    by (rule conjI, rule direct, rule exI [of _ es], intro conjI, rule sp, rule s, rule o, rule h2)
qed

lemma energies_adjusted:
  "energy_per_atom ex_H2_low_adjusted = - 3.963929"
  "energy_per_atom ex_H2_high_adjusted = - 3.863929"
  "uncorrected_energy ex_H2_low_adjusted / num_atoms (composition ex_H2_low_adjusted) = - 3.4"
  "uncorrected_energy ex_H2_high_adjusted / num_atoms (composition ex_H2_high_adjusted) = - 3.3"
  "reduced_formula (composition ex_H2_low_adjusted) = ''H2''"
  "reduced_formula (composition ex_H2_high_adjusted) = ''H2''"
  by (simp_all add: energy_per_atom_def energy_def entry_correction_def ex_H2_low_adjusted_def
      ex_H2_high_adjusted_def ex_H2_adjustment_def ex_H2_low_def ex_H2_high_def ex_element_def)

lemma h2_first_batch_bare:
  "Aqueous_process_entries (ex_aqueous_given\<lparr>solid_compat := None\<rparr>) [ex_H2_low, ex_H2_high] False Ignore
     = (Inr [ex_H2_low_adjusted, ex_H2_high_adjusted], ex_aqueous_bare)"
proof -
  have sp: "solid_pass (ex_aqueous_given\<lparr>solid_compat := None\<rparr>) [ex_H2_low, ex_H2_high]
              = Inr [ex_H2_low, ex_H2_high]"
    by (simp add: solid_pass_def)
  have s: "scan (ex_aqueous_given\<lparr>solid_compat := None\<rparr>) [ex_H2_low, ex_H2_high] = ex_aqueous_bare"
    by (simp add: scan_def scan_o2_def scan_h2o_def scan_h2_def with_formula_def formulas energies
        unset_def Let_def ex_aqueous_bare_def ex_aqueous_scanned_def ex_aqueous_given_def
        ex_aqueous_def)
  have g: "Aqueous_get_adjustments ex_aqueous_bare ex_H2_low
             = (Inr [ex_H2_adjustment], data ex_H2_low)"
    "Aqueous_get_adjustments ex_aqueous_bare ex_H2_high
             = (Inr [ex_H2_adjustment], data ex_H2_high)"
    by (simp_all add: aq_defs aq_ex_defs ex_aqueous_bare_def ex_aqueous_scanned_def ex_H2_low_def
        ex_H2_high_def ex_H2_adjustment_def)
  have b: "process_entry_body (Aqueous_get_adjustments ex_aqueous_bare) False ex_H2_low
             = (ex_H2_low_adjusted, Inr True)"
    "process_entry_body (Aqueous_get_adjustments ex_aqueous_bare) False ex_H2_high
             = (ex_H2_high_adjusted, Inr True)"
    by (simp_all add: process_entry_body_def g)
       (simp_all add: ex_H2_low_adjusted_def ex_H2_high_adjusted_def ex_H2_low_def ex_H2_high_def
        ex_element_def)
  show ?thesis
    by (simp add: Aqueous_process_entries_def sp s process_entries_def b)
qed

text \<open>
  A second pass, with a clean, of the scheme without a solid scheme over the two entries of H2
  as a first pass left them: the energy of H2 is read from the adjusted entries, the new
  adjustment is zero, and the entries are back at their uncorrected energies.
\<close>

lemma h2_second_batch:
  "Aqueous_process_entries ex_aqueous_bare [ex_H2_low_adjusted, ex_H2_high_adjusted] True Ignore
     = (Inr [ex_H2_low\<lparr>energy_adjustments := [ex_H2_zero_adjustment]\<rparr>,
             ex_H2_high\<lparr>energy_adjustments := [ex_H2_zero_adjustment]\<rparr>], ex_aqueous_rescanned)"
proof -
  have sp: "solid_pass ex_aqueous_bare [ex_H2_low_adjusted, ex_H2_high_adjusted]
              = Inr [ex_H2_low_adjusted, ex_H2_high_adjusted]"
    by (simp add: solid_pass_def ex_aqueous_bare_def)
  have s: "scan ex_aqueous_bare [ex_H2_low_adjusted, ex_H2_high_adjusted] = ex_aqueous_rescanned"
    by (simp add: scan_def scan_o2_def scan_h2o_def scan_h2_def with_formula_def energies_adjusted
        unset_def Let_def ex_aqueous_rescanned_def ex_aqueous_bare_def ex_aqueous_scanned_def
        ex_aqueous_given_def ex_aqueous_def)
  have g: "Aqueous_get_adjustments ex_aqueous_rescanned (ex_H2_low_adjusted\<lparr>energy_adjustments := []\<rparr>)
             = (Inr [ex_H2_zero_adjustment], data ex_H2_low)"
    "Aqueous_get_adjustments ex_aqueous_rescanned (ex_H2_high_adjusted\<lparr>energy_adjustments := []\<rparr>)
             = (Inr [ex_H2_zero_adjustment], data ex_H2_high)"
    by (simp_all add: aq_defs aq_ex_defs ex_aqueous_rescanned_def ex_aqueous_bare_def
        ex_aqueous_scanned_def ex_H2_low_adjusted_def ex_H2_high_adjusted_def ex_H2_low_def
        ex_H2_high_def ex_H2_zero_adjustment_def)
  have b: "process_entry_body (Aqueous_get_adjustments ex_aqueous_rescanned) True ex_H2_low_adjusted
             = (ex_H2_low\<lparr>energy_adjustments := [ex_H2_zero_adjustment]\<rparr>, Inr True)"
    "process_entry_body (Aqueous_get_adjustments ex_aqueous_rescanned) True ex_H2_high_adjusted
             = (ex_H2_high\<lparr>energy_adjustments := [ex_H2_zero_adjustment]\<rparr>, Inr True)"
    by (simp_all add: process_entry_body_def g)
       (simp_all add: ex_H2_low_adjusted_def ex_H2_high_adjusted_def ex_H2_low_def ex_H2_high_def
        ex_element_def)
  show ?thesis
    by (simp add: Aqueous_process_entries_def sp s process_entries_def b)
qed

theorem h2_reference_adjustment_witness:
  "Aqueous_process_entries ex_aqueous_given [ex_H2_low, ex_H2_high] False Ignore
     = (Inr [ex_H2_low\<lparr>energy_adjustments := [ex_H2_adjustment]\<rparr>,
             ex_H2_high\<lparr>energy_adjustments := [ex_H2_adjustment]\<rparr>], ex_aqueous_scanned) \<and>
   o2_energy ex_aqueous_scanned = Some (- 4.9) \<and> h2o_energy ex_aqueous_scanned = Some (- 5.129) \<and>
   h2o_adjustments ex_aqueous_scanned = Some (- 0.229) \<and>
   h2_energy ex_aqueous_scanned = Some (- 3.4) \<and>
   energy_per_atom ex_H2_low = - 3.4 \<and> energy_per_atom ex_H2_high = - 3.3 \<and>
   fit_h2_energy (- 4.9) (- 5.129) = - 3.963929 \<and>
   fst (Aqueous_get_adjustments ex_aqueous_scanned ex_H2_high) = Inr [ex_H2_adjustment] \<and>
   ea_value ex_H2_adjustment = (- 3.963929 - (- 3.4)) * 2 \<and>
   energy_per_atom (fst (process_entry_body (Aqueous_get_adjustments ex_aqueous_scanned) False ex_H2_low))
     = - 3.963929 \<and>
   energy_per_atom (fst (process_entry_body (Aqueous_get_adjustments ex_aqueous_scanned) False ex_H2_high))
     = - 3.863929 \<and>
   Aqueous_process_entries ex_aqueous_bare [ex_H2_low_adjusted, ex_H2_high_adjusted] True Ignore
     = (Inr [ex_H2_low\<lparr>energy_adjustments := [ex_H2_zero_adjustment]\<rparr>,
             ex_H2_high\<lparr>energy_adjustments := [ex_H2_zero_adjustment]\<rparr>], ex_aqueous_rescanned) \<and>
   energy_per_atom ex_H2_low_adjusted = - 3.963929 \<and>
   h2_energy ex_aqueous_rescanned = Some (- 3.963929) \<and>
   energy_per_atom (fst (process_entry_body (Aqueous_get_adjustments ex_aqueous_rescanned) True
                           ex_H2_low_adjusted)) = - 3.4"
proof -
  have h: "o2_energy ex_aqueous_scanned = Some (- 4.9) \<and> h2o_energy ex_aqueous_scanned = Some (- 5.129) \<and>
           h2o_adjustments ex_aqueous_scanned = Some (- 0.229)"
    and h2: "h2_energy ex_aqueous_scanned = Some (- 3.4)"
    and cls: "aqc_cls ex_aqueous_scanned = ''MaterialsProjectAqueousCompatibility''"
    by (simp_all add: ex_aqueous_scanned_def ex_aqueous_given_def ex_aqueous_def)
  have hr: "o2_energy ex_aqueous_rescanned = Some (- 4.9) \<and>
            h2o_energy ex_aqueous_rescanned = Some (- 5.129) \<and>
            h2o_adjustments ex_aqueous_rescanned = Some (- 0.229)"
    and h2r: "h2_energy ex_aqueous_rescanned = Some (- 3.963929)"
    by (simp_all add: ex_aqueous_rescanned_def ex_aqueous_bare_def ex_aqueous_scanned_def
        ex_aqueous_given_def ex_aqueous_def)
  have c: "count_nH2O (composition ex_H2_low) \<le> 0 \<and> num_atoms (composition ex_H2_low) \<noteq> 0"
    "energy_adjustments ex_H2_low = []"
    "count_nH2O (composition ex_H2_high) \<le> 0 \<and> num_atoms (composition ex_H2_high) \<noteq> 0"
    "energy_adjustments ex_H2_high = []"
    "num_atoms (composition ex_H2_high) = 2"
    "hydrate_adjustment ex_aqueous_scanned (- 0.229) ex_H2_high = []"
    "count_nH2O (composition ex_H2_low_adjusted) \<le> 0 \<and> num_atoms (composition ex_H2_low_adjusted) \<noteq> 0"
    by (simp_all add: count_nH2O_def py_int_def get0_def hydrate_adjustment_def
        ex_H2_low_adjusted_def ex_H2_low_def ex_H2_high_def ex_element_def)
  from h2_reference_adjustment [OF h2_batch, THEN conjunct2] obtain es where
    es: "solid_pass ex_aqueous_given [ex_H2_low, ex_H2_high] = Inr es"
    and every: "\<forall>e\<in>set es. reduced_formula (composition e) = ''H2'' \<longrightarrow>
      (\<exists>l\<in>set es. reduced_formula (composition l) = ''H2'' \<and>
         h2_energy ex_aqueous_scanned = Some (energy_per_atom l) \<and>
         (\<forall>x\<in>set es. reduced_formula (composition x) = ''H2''
                         \<longrightarrow> energy_per_atom l \<le> energy_per_atom x) \<and>
         (\<forall>o2 h2o h2o_adj.
            o2_energy ex_aqueous_scanned = Some o2 \<and> h2o_energy ex_aqueous_scanned = Some h2o \<and>
            h2o_adjustments ex_aqueous_scanned = Some h2o_adj \<longrightarrow>
            fit_h2_energy o2 h2o
              = py_round (0.5 * (3 * (h2o - 0.071963) - (o2 - 0.316731) - (- 2.4583))) 6 \<and>
            (\<forall>carried.
               fst (Aqueous_get_adjustments ex_aqueous_scanned (e\<lparr>energy_adjustments := carried\<rparr>)) =
                 Inr (ConstantEnergyAdjustment
                        ((fit_h2_energy o2 h2o - energy_per_atom l) * num_atoms (composition e))
                        None ''MP Aqueous H2 / H2O referencing'' (aqc_cls ex_aqueous_scanned)
                      # hydrate_adjustment ex_aqueous_scanned h2o_adj e)) \<and>
            (False \<or> energy_adjustments e = [] \<longrightarrow>
               process_entry_body (Aqueous_get_adjustments ex_aqueous_scanned) False e =
                 (e\<lparr>energy_adjustments :=
                      ConstantEnergyAdjustment
                        ((fit_h2_energy o2 h2o - energy_per_atom l) * num_atoms (composition e))
                        None ''MP Aqueous H2 / H2O referencing'' (aqc_cls ex_aqueous_scanned)
                      # hydrate_adjustment ex_aqueous_scanned h2o_adj e\<rparr>, Inr True) \<and>
               (count_nH2O (composition e) \<le> 0 \<and> num_atoms (composition e) \<noteq> 0 \<longrightarrow>
                  energy_per_atom (fst (process_entry_body (Aqueous_get_adjustments ex_aqueous_scanned) False e))
                    = fit_h2_energy o2 h2o
                      + (uncorrected_energy e / num_atoms (composition e) - energy_per_atom l) \<and>
                  (energy_adjustments e = [] \<longrightarrow>
                     energy_per_atom (fst (process_entry_body (Aqueous_get_adjustments ex_aqueous_scanned) False e))
                       = fit_h2_energy o2 h2o + (energy_per_atom e - energy_per_atom l))))))"
    by (elim exE conjE)
  from es solid_pass_batch(3) have "es = [ex_H2_low, ex_H2_high]" by simp
  then have mem: "ex_H2_low \<in> set es" "ex_H2_high \<in> set es" by simp_all
  from every mem(1) formulas(5) obtain l where
    l: "h2_energy ex_aqueous_scanned = Some (energy_per_atom l)"
    and rl: "\<forall>o2 h2o h2o_adj.
            o2_energy ex_aqueous_scanned = Some o2 \<and> h2o_energy ex_aqueous_scanned = Some h2o \<and>
            h2o_adjustments ex_aqueous_scanned = Some h2o_adj \<longrightarrow>
            fit_h2_energy o2 h2o
              = py_round (0.5 * (3 * (h2o - 0.071963) - (o2 - 0.316731) - (- 2.4583))) 6 \<and>
            (\<forall>carried.
               fst (Aqueous_get_adjustments ex_aqueous_scanned (ex_H2_low\<lparr>energy_adjustments := carried\<rparr>)) =
                 Inr (ConstantEnergyAdjustment
                        ((fit_h2_energy o2 h2o - energy_per_atom l) * num_atoms (composition ex_H2_low))
                        None ''MP Aqueous H2 / H2O referencing'' (aqc_cls ex_aqueous_scanned)
                      # hydrate_adjustment ex_aqueous_scanned h2o_adj ex_H2_low)) \<and>
            (False \<or> energy_adjustments ex_H2_low = [] \<longrightarrow>
               process_entry_body (Aqueous_get_adjustments ex_aqueous_scanned) False ex_H2_low =
                 (ex_H2_low\<lparr>energy_adjustments :=
                      ConstantEnergyAdjustment
                        ((fit_h2_energy o2 h2o - energy_per_atom l) * num_atoms (composition ex_H2_low))
                        None ''MP Aqueous H2 / H2O referencing'' (aqc_cls ex_aqueous_scanned)
                      # hydrate_adjustment ex_aqueous_scanned h2o_adj ex_H2_low\<rparr>, Inr True) \<and>
               (count_nH2O (composition ex_H2_low) \<le> 0 \<and> num_atoms (composition ex_H2_low) \<noteq> 0 \<longrightarrow>
                  energy_per_atom (fst (process_entry_body (Aqueous_get_adjustments ex_aqueous_scanned) False ex_H2_low))
                    = fit_h2_energy o2 h2o
                      + (uncorrected_energy ex_H2_low / num_atoms (composition ex_H2_low) - energy_per_atom l) \<and>
                  (energy_adjustments ex_H2_low = [] \<longrightarrow>
                     energy_per_atom (fst (process_entry_body (Aqueous_get_adjustments ex_aqueous_scanned) False ex_H2_low))
                       = fit_h2_energy o2 h2o + (energy_per_atom ex_H2_low - energy_per_atom l))))"
    by blast
  from l h2 have lv: "energy_per_atom l = - 3.4" by simp
  from rl [rule_format, OF h]
  have fit: "fit_h2_energy (- 4.9) (- 5.129)
              = py_round (0.5 * (3 * (- 5.129 - 0.071963) - (- 4.9 - 0.316731) - (- 2.4583))) 6"
    and lo1: "False \<or> energy_adjustments ex_H2_low = [] \<longrightarrow>
               process_entry_body (Aqueous_get_adjustments ex_aqueous_scanned) False ex_H2_low =
                 (ex_H2_low\<lparr>energy_adjustments :=
                      ConstantEnergyAdjustment
                        ((fit_h2_energy (- 4.9) (- 5.129) - energy_per_atom l) * num_atoms (composition ex_H2_low))
                        None ''MP Aqueous H2 / H2O referencing'' (aqc_cls ex_aqueous_scanned)
                      # hydrate_adjustment ex_aqueous_scanned (- 0.229) ex_H2_low\<rparr>, Inr True) \<and>
               (count_nH2O (composition ex_H2_low) \<le> 0 \<and> num_atoms (composition ex_H2_low) \<noteq> 0 \<longrightarrow>
                  energy_per_atom (fst (process_entry_body (Aqueous_get_adjustments ex_aqueous_scanned) False ex_H2_low))
                    = fit_h2_energy (- 4.9) (- 5.129)
                      + (uncorrected_energy ex_H2_low / num_atoms (composition ex_H2_low) - energy_per_atom l) \<and>
                  (energy_adjustments ex_H2_low = [] \<longrightarrow>
                     energy_per_atom (fst (process_entry_body (Aqueous_get_adjustments ex_aqueous_scanned) False ex_H2_low))
                       = fit_h2_energy (- 4.9) (- 5.129) + (energy_per_atom ex_H2_low - energy_per_atom l)))"
    by blast+
  from lo1 c(1,2)
  have lo: "energy_per_atom (fst (process_entry_body (Aqueous_get_adjustments ex_aqueous_scanned) False ex_H2_low))
              = fit_h2_energy (- 4.9) (- 5.129) + (energy_per_atom ex_H2_low - energy_per_atom l)"
    by blast
  from fit have f: "fit_h2_energy (- 4.9) (- 5.129) = - 3.963929"
    by (simp add: py_round_def round_half_even_def)
  from lo lv f energies(4)
  have e1: "energy_per_atom (fst (process_entry_body (Aqueous_get_adjustments ex_aqueous_scanned)
                    False ex_H2_low)) = - 3.963929"
    by simp
  from every mem(2) formulas(6) obtain l2 where
    l2: "h2_energy ex_aqueous_scanned = Some (energy_per_atom l2)"
    and rl2: "\<forall>o2 h2o h2o_adj.
            o2_energy ex_aqueous_scanned = Some o2 \<and> h2o_energy ex_aqueous_scanned = Some h2o \<and>
            h2o_adjustments ex_aqueous_scanned = Some h2o_adj \<longrightarrow>
            fit_h2_energy o2 h2o
              = py_round (0.5 * (3 * (h2o - 0.071963) - (o2 - 0.316731) - (- 2.4583))) 6 \<and>
            (\<forall>carried.
               fst (Aqueous_get_adjustments ex_aqueous_scanned (ex_H2_high\<lparr>energy_adjustments := carried\<rparr>)) =
                 Inr (ConstantEnergyAdjustment
                        ((fit_h2_energy o2 h2o - energy_per_atom l2) * num_atoms (composition ex_H2_high))
                        None ''MP Aqueous H2 / H2O referencing'' (aqc_cls ex_aqueous_scanned)
                      # hydrate_adjustment ex_aqueous_scanned h2o_adj ex_H2_high)) \<and>
            (False \<or> energy_adjustments ex_H2_high = [] \<longrightarrow>
               process_entry_body (Aqueous_get_adjustments ex_aqueous_scanned) False ex_H2_high =
                 (ex_H2_high\<lparr>energy_adjustments :=
                      ConstantEnergyAdjustment
                        ((fit_h2_energy o2 h2o - energy_per_atom l2) * num_atoms (composition ex_H2_high))
                        None ''MP Aqueous H2 / H2O referencing'' (aqc_cls ex_aqueous_scanned)
                      # hydrate_adjustment ex_aqueous_scanned h2o_adj ex_H2_high\<rparr>, Inr True) \<and>
               (count_nH2O (composition ex_H2_high) \<le> 0 \<and> num_atoms (composition ex_H2_high) \<noteq> 0 \<longrightarrow>
                  energy_per_atom (fst (process_entry_body (Aqueous_get_adjustments ex_aqueous_scanned) False ex_H2_high))
                    = fit_h2_energy o2 h2o
                      + (uncorrected_energy ex_H2_high / num_atoms (composition ex_H2_high) - energy_per_atom l2) \<and>
                  (energy_adjustments ex_H2_high = [] \<longrightarrow>
                     energy_per_atom (fst (process_entry_body (Aqueous_get_adjustments ex_aqueous_scanned) False ex_H2_high))
                       = fit_h2_energy o2 h2o + (energy_per_atom ex_H2_high - energy_per_atom l2))))"
    by blast
  from l2 h2 have lv2: "energy_per_atom l2 = - 3.4" by simp
  from rl2 [rule_format, OF h]
  have g0: "\<forall>carried.
               fst (Aqueous_get_adjustments ex_aqueous_scanned (ex_H2_high\<lparr>energy_adjustments := carried\<rparr>)) =
                 Inr (ConstantEnergyAdjustment
                        ((fit_h2_energy (- 4.9) (- 5.129) - energy_per_atom l2) * num_atoms (composition ex_H2_high))
                        None ''MP Aqueous H2 / H2O referencing'' (aqc_cls ex_aqueous_scanned)
                      # hydrate_adjustment ex_aqueous_scanned (- 0.229) ex_H2_high)"
    and hi1: "False \<or> energy_adjustments ex_H2_high = [] \<longrightarrow>
               process_entry_body (Aqueous_get_adjustments ex_aqueous_scanned) False ex_H2_high =
                 (ex_H2_high\<lparr>energy_adjustments :=
                      ConstantEnergyAdjustment
                        ((fit_h2_energy (- 4.9) (- 5.129) - energy_per_atom l2) * num_atoms (composition ex_H2_high))
                        None ''MP Aqueous H2 / H2O referencing'' (aqc_cls ex_aqueous_scanned)
                      # hydrate_adjustment ex_aqueous_scanned (- 0.229) ex_H2_high\<rparr>, Inr True) \<and>
               (count_nH2O (composition ex_H2_high) \<le> 0 \<and> num_atoms (composition ex_H2_high) \<noteq> 0 \<longrightarrow>
                  energy_per_atom (fst (process_entry_body (Aqueous_get_adjustments ex_aqueous_scanned) False ex_H2_high))
                    = fit_h2_energy (- 4.9) (- 5.129)
                      + (uncorrected_energy ex_H2_high / num_atoms (composition ex_H2_high) - energy_per_atom l2) \<and>
                  (energy_adjustments ex_H2_high = [] \<longrightarrow>
                     energy_per_atom (fst (process_entry_body (Aqueous_get_adjustments ex_aqueous_scanned) False ex_H2_high))
                       = fit_h2_energy (- 4.9) (- 5.129) + (energy_per_atom ex_H2_high - energy_per_atom l2)))"
    by blast+
  from g0 have "fst (Aqueous_get_adjustments ex_aqueous_scanned
                       (ex_H2_high\<lparr>energy_adjustments := energy_adjustments ex_H2_high\<rparr>)) =
                 Inr (ConstantEnergyAdjustment
                        ((fit_h2_energy (- 4.9) (- 5.129) - energy_per_atom l2) * num_atoms (composition ex_H2_high))
                        None ''MP Aqueous H2 / H2O referencing'' (aqc_cls ex_aqueous_scanned)
                      # hydrate_adjustment ex_aqueous_scanned (- 0.229) ex_H2_high)"
    by (rule spec)
  with lv2 f c(5,6) cls
  have g: "fst (Aqueous_get_adjustments ex_aqueous_scanned ex_H2_high) = Inr [ex_H2_adjustment]"
    by (simp add: ex_H2_adjustment_def)
  from hi1 c(3,4)
  have hi: "energy_per_atom (fst (process_entry_body (Aqueous_get_adjustments ex_aqueous_scanned) False ex_H2_high))
              = fit_h2_energy (- 4.9) (- 5.129) + (energy_per_atom ex_H2_high - energy_per_atom l2)"
    by blast
  from hi lv2 f energies(5)
  have e2: "energy_per_atom (fst (process_entry_body (Aqueous_get_adjustments ex_aqueous_scanned)
                    False ex_H2_high)) = - 3.863929"
    by simp
  have v: "ea_value ex_H2_adjustment = (- 3.963929 - (- 3.4)) * 2"
    by (simp add: ex_H2_adjustment_def)
  from h2_reference_adjustment [OF h2_second_batch, THEN conjunct2] obtain es2 where
    es2: "solid_pass ex_aqueous_bare [ex_H2_low_adjusted, ex_H2_high_adjusted] = Inr es2"
    and every2: "\<forall>e\<in>set es2. reduced_formula (composition e) = ''H2'' \<longrightarrow>
      (\<exists>l\<in>set es2. reduced_formula (composition l) = ''H2'' \<and>
         h2_energy ex_aqueous_rescanned = Some (energy_per_atom l) \<and>
         (\<forall>x\<in>set es2. reduced_formula (composition x) = ''H2''
                         \<longrightarrow> energy_per_atom l \<le> energy_per_atom x) \<and>
         (\<forall>o2 h2o h2o_adj.
            o2_energy ex_aqueous_rescanned = Some o2 \<and> h2o_energy ex_aqueous_rescanned = Some h2o \<and>
            h2o_adjustments ex_aqueous_rescanned = Some h2o_adj \<longrightarrow>
            fit_h2_energy o2 h2o
              = py_round (0.5 * (3 * (h2o - 0.071963) - (o2 - 0.316731) - (- 2.4583))) 6 \<and>
            (\<forall>carried.
               fst (Aqueous_get_adjustments ex_aqueous_rescanned (e\<lparr>energy_adjustments := carried\<rparr>)) =
                 Inr (ConstantEnergyAdjustment
                        ((fit_h2_energy o2 h2o - energy_per_atom l) * num_atoms (composition e))
                        None ''MP Aqueous H2 / H2O referencing'' (aqc_cls ex_aqueous_rescanned)
                      # hydrate_adjustment ex_aqueous_rescanned h2o_adj e)) \<and>
            (True \<or> energy_adjustments e = [] \<longrightarrow>
               process_entry_body (Aqueous_get_adjustments ex_aqueous_rescanned) True e =
                 (e\<lparr>energy_adjustments :=
                      ConstantEnergyAdjustment
                        ((fit_h2_energy o2 h2o - energy_per_atom l) * num_atoms (composition e))
                        None ''MP Aqueous H2 / H2O referencing'' (aqc_cls ex_aqueous_rescanned)
                      # hydrate_adjustment ex_aqueous_rescanned h2o_adj e\<rparr>, Inr True) \<and>
               (count_nH2O (composition e) \<le> 0 \<and> num_atoms (composition e) \<noteq> 0 \<longrightarrow>
                  energy_per_atom (fst (process_entry_body (Aqueous_get_adjustments ex_aqueous_rescanned) True e))
                    = fit_h2_energy o2 h2o
                      + (uncorrected_energy e / num_atoms (composition e) - energy_per_atom l) \<and>
                  (energy_adjustments e = [] \<longrightarrow>
                     energy_per_atom (fst (process_entry_body (Aqueous_get_adjustments ex_aqueous_rescanned) True e))
                       = fit_h2_energy o2 h2o + (energy_per_atom e - energy_per_atom l))))))"
    by (elim exE conjE)
  from es2 have "es2 = [ex_H2_low_adjusted, ex_H2_high_adjusted]"
    by (simp add: solid_pass_def ex_aqueous_bare_def)
  then have mem2: "ex_H2_low_adjusted \<in> set es2" by simp
  from every2 mem2 energies_adjusted(5) obtain l3 where
    l3: "h2_energy ex_aqueous_rescanned = Some (energy_per_atom l3)"
    and rl3: "\<forall>o2 h2o h2o_adj.
            o2_energy ex_aqueous_rescanned = Some o2 \<and> h2o_energy ex_aqueous_rescanned = Some h2o \<and>
            h2o_adjustments ex_aqueous_rescanned = Some h2o_adj \<longrightarrow>
            fit_h2_energy o2 h2o
              = py_round (0.5 * (3 * (h2o - 0.071963) - (o2 - 0.316731) - (- 2.4583))) 6 \<and>
            (\<forall>carried.
               fst (Aqueous_get_adjustments ex_aqueous_rescanned
                      (ex_H2_low_adjusted\<lparr>energy_adjustments := carried\<rparr>)) =
                 Inr (ConstantEnergyAdjustment
                        ((fit_h2_energy o2 h2o - energy_per_atom l3) * num_atoms (composition ex_H2_low_adjusted))
                        None ''MP Aqueous H2 / H2O referencing'' (aqc_cls ex_aqueous_rescanned)
                      # hydrate_adjustment ex_aqueous_rescanned h2o_adj ex_H2_low_adjusted)) \<and>
            (True \<or> energy_adjustments ex_H2_low_adjusted = [] \<longrightarrow>
               process_entry_body (Aqueous_get_adjustments ex_aqueous_rescanned) True ex_H2_low_adjusted =
                 (ex_H2_low_adjusted\<lparr>energy_adjustments :=
                      ConstantEnergyAdjustment
                        ((fit_h2_energy o2 h2o - energy_per_atom l3) * num_atoms (composition ex_H2_low_adjusted))
                        None ''MP Aqueous H2 / H2O referencing'' (aqc_cls ex_aqueous_rescanned)
                      # hydrate_adjustment ex_aqueous_rescanned h2o_adj ex_H2_low_adjusted\<rparr>, Inr True) \<and>
               (count_nH2O (composition ex_H2_low_adjusted) \<le> 0 \<and>
                num_atoms (composition ex_H2_low_adjusted) \<noteq> 0 \<longrightarrow>
                  energy_per_atom (fst (process_entry_body (Aqueous_get_adjustments ex_aqueous_rescanned) True
                                          ex_H2_low_adjusted))
                    = fit_h2_energy o2 h2o
                      + (uncorrected_energy ex_H2_low_adjusted / num_atoms (composition ex_H2_low_adjusted)
                         - energy_per_atom l3) \<and>
                  (energy_adjustments ex_H2_low_adjusted = [] \<longrightarrow>
                     energy_per_atom (fst (process_entry_body (Aqueous_get_adjustments ex_aqueous_rescanned) True
                                             ex_H2_low_adjusted))
                       = fit_h2_energy o2 h2o + (energy_per_atom ex_H2_low_adjusted - energy_per_atom l3))))"
    by blast
  from l3 h2r have lv3: "energy_per_atom l3 = - 3.963929" by simp
  from rl3 [rule_format, OF hr] c(7)
  have again: "energy_per_atom (fst (process_entry_body (Aqueous_get_adjustments ex_aqueous_rescanned)
                                        True ex_H2_low_adjusted))
               = fit_h2_energy (- 4.9) (- 5.129)
                 + (uncorrected_energy ex_H2_low_adjusted / num_atoms (composition ex_H2_low_adjusted)
                    - energy_per_atom l3)"
    by blast
  from again lv3 f energies_adjusted(3)
  have e3: "energy_per_atom (fst (process_entry_body (Aqueous_get_adjustments ex_aqueous_rescanned) True
                           ex_H2_low_adjusted)) = - 3.4"
    by simp
  from h2_batch h h2 energies(4,5) f g v e1 e2 h2_second_batch energies_adjusted(1) h2r e3
  show ?thesis by blast
qed

subsection \<open>Processing an entry twice\<close>















subsection \<open>Which entries a batch call returns\<close>

lemma triple_iff:
  "ea_triple u = ea_triple v \<longleftrightarrow> ea_key u = ea_key v \<and> ea_value u = ea_value v"
  by (auto simp: ea_triple_def ea_key_def)

lemma triple_in_key_in:
  "ea_triple u \<in> set (map ea_triple eas) \<Longrightarrow> ea_key u \<in> set (map ea_key eas)"
  by (auto simp: triple_iff)

text \<open>
  When the loop over the computed adjustments marks the entry: some computed adjustment has
  the name and provenance of an adjustment of the entry and the value of none of those, or two
  computed adjustments whose name and provenance the entry does not have differ in value.
\<close>

lemma apply_adjustments_marks:
  "snd (apply_adjustments adjs (eas, ign)) \<longleftrightarrow>
   ign \<or>
   (\<exists>ea\<in>set adjs. ea_key ea \<in> set (map ea_key eas) \<and> ea_triple ea \<notin> set (map ea_triple eas)) \<or>
   (\<exists>ea\<in>set adjs. \<exists>ea'\<in>set adjs.
      ea_key ea = ea_key ea' \<and> ea_key ea \<notin> set (map ea_key eas) \<and> ea_value ea \<noteq> ea_value ea')"
proof (induction adjs arbitrary: eas ign)
  case Nil
  show ?case by simp
next
  case (Cons a rest)
  let ?C1 = "\<lambda>xs eas. \<exists>ea\<in>set xs. ea_key ea \<in> set (map ea_key eas) \<and> ea_triple ea \<notin> set (map ea_triple eas)"
  let ?C2 = "\<lambda>xs eas. \<exists>ea\<in>set xs. \<exists>ea'\<in>set xs.
      ea_key ea = ea_key ea' \<and> ea_key ea \<notin> set (map ea_key eas) \<and> ea_value ea \<noteq> ea_value ea'"
  show ?case
  proof (cases "ea_triple a \<in> set (map ea_triple eas)")
    case True
    then have k: "ea_key a \<in> set (map ea_key eas)" by (rule triple_in_key_in)
    have "snd (apply_adjustments (a # rest) (eas, ign)) = snd (apply_adjustments rest (eas, ign))"
      using True by simp
    also have "\<dots> \<longleftrightarrow> ign \<or> ?C1 rest eas \<or> ?C2 rest eas" by (rule Cons.IH)
    also have "?C1 rest eas \<longleftrightarrow> ?C1 (a # rest) eas" using True by auto
    also have "?C2 rest eas \<longleftrightarrow> ?C2 (a # rest) eas" using k by auto
    finally show ?thesis .
  next
    case nt: False
    show ?thesis
    proof (cases "ea_key a \<in> set (map ea_key eas)")
      case True
      have "snd (apply_adjustments (a # rest) (eas, ign)) = snd (apply_adjustments rest (eas, True))"
        using nt True by simp
      also have "\<dots>" using Cons.IH [of eas True] by simp
      finally have "snd (apply_adjustments (a # rest) (eas, ign))" by simp
      moreover have "?C1 (a # rest) eas" using nt True by auto
      ultimately show ?thesis by blast
    next
      case False
      have "snd (apply_adjustments (a # rest) (eas, ign)) = snd (apply_adjustments rest (eas @ [a], ign))"
        using nt False by simp
      also have "\<dots> \<longleftrightarrow> ign \<or> ?C1 rest (eas @ [a]) \<or> ?C2 rest (eas @ [a])" by (rule Cons.IH)
      also have "?C1 rest (eas @ [a]) \<or> ?C2 rest (eas @ [a]) \<longleftrightarrow> ?C1 (a # rest) eas \<or> ?C2 (a # rest) eas"
      proof
        assume "?C1 rest (eas @ [a]) \<or> ?C2 rest (eas @ [a])"
        then show "?C1 (a # rest) eas \<or> ?C2 (a # rest) eas"
        proof
          assume "?C1 rest (eas @ [a])"
          then obtain x where x: "x \<in> set rest" "ea_key x \<in> set (map ea_key eas) \<or> ea_key x = ea_key a"
            "ea_triple x \<notin> set (map ea_triple eas)" "ea_triple x \<noteq> ea_triple a" by auto
          show ?thesis
          proof (cases "ea_key x \<in> set (map ea_key eas)")
            case True
            with x have "?C1 (a # rest) eas" by auto
            then show ?thesis ..
          next
            case kx: False
            with x have "ea_key x = ea_key a" "ea_value x \<noteq> ea_value a" by (auto simp: triple_iff)
            with x(1) kx have "?C2 (a # rest) eas" by auto
            then show ?thesis ..
          qed
        next
          assume "?C2 rest (eas @ [a])"
          then have "?C2 (a # rest) eas" by auto
          then show ?thesis ..
        qed
      next
        assume "?C1 (a # rest) eas \<or> ?C2 (a # rest) eas"
        then show "?C1 rest (eas @ [a]) \<or> ?C2 rest (eas @ [a])"
        proof
          assume "?C1 (a # rest) eas"
          then obtain x where x: "x \<in> set (a # rest)" "ea_key x \<in> set (map ea_key eas)"
            "ea_triple x \<notin> set (map ea_triple eas)" by blast
          with False have "x \<noteq> a" by auto
          with x have "x \<in> set rest" by simp
          moreover from x False have "ea_triple x \<noteq> ea_triple a" by (auto simp: triple_iff)
          ultimately have "?C1 rest (eas @ [a])" using x by auto
          then show ?thesis ..
        next
          assume "?C2 (a # rest) eas"
          then obtain x y where xy: "x \<in> set (a # rest)" "y \<in> set (a # rest)" "ea_key x = ea_key y"
            "ea_key x \<notin> set (map ea_key eas)" "ea_value x \<noteq> ea_value y" by blast
          show ?thesis
          proof (cases "ea_key x = ea_key a")
            case True
            from xy(5) have "ea_value x \<noteq> ea_value a \<or> ea_value y \<noteq> ea_value a" by auto
            then obtain z where z: "z \<in> set (a # rest)" "ea_key z = ea_key a" "ea_value z \<noteq> ea_value a"
              using xy True by metis
            then have "z \<in> set rest" by auto
            moreover from z have "ea_triple z \<noteq> ea_triple a" by (simp add: triple_iff)
            moreover have "ea_triple z \<notin> set (map ea_triple eas)"
              using triple_in_key_in [of z eas] z(2) False by auto
            ultimately have "?C1 rest (eas @ [a])" using z(2) by auto
            then show ?thesis ..
          next
            case kx: False
            with xy have "x \<in> set rest" "y \<in> set rest" by auto
            with xy kx have "?C2 rest (eas @ [a])" by fastforce
            then show ?thesis ..
          qed
        qed
      qed
      finally show ?thesis by blast
    qed
  qed
qed

lemma process_entry_body_kept:
  "snd (process_entry_body ga clean e) = Inr True \<longleftrightarrow>
   (\<exists>adjs. fst (ga (if clean then e\<lparr>energy_adjustments := []\<rparr> else e)) = Inr adjs \<and>
      \<not> (\<exists>ea\<in>set adjs.
            ea_key ea \<in> set (map ea_key (if clean then [] else energy_adjustments e)) \<and>
            ea_triple ea \<notin> set (map ea_triple (if clean then [] else energy_adjustments e))) \<and>
      \<not> (\<exists>ea\<in>set adjs. \<exists>ea'\<in>set adjs.
            ea_key ea = ea_key ea' \<and>
            ea_key ea \<notin> set (map ea_key (if clean then [] else energy_adjustments e)) \<and>
            ea_value ea \<noteq> ea_value ea'))"
proof -
  let ?e0 = "if clean then e\<lparr>energy_adjustments := []\<rparr> else e"
  have c: "energy_adjustments ?e0 = (if clean then [] else energy_adjustments e)" by simp
  obtain res d where g: "ga ?e0 = (res, d)" by (cases "ga ?e0")
  show ?thesis
  proof (cases res)
    case (Inl exc)
    with g have "snd (process_entry_body ga clean e) = Inl exc"
      by (simp add: process_entry_body_def)
    with g Inl show ?thesis by simp
  next
    case (Inr adjs)
    with g have ga: "ga ?e0 = (Inr adjs, d)" by simp
    from process_entry_body_Inr [of ?e0 clean e ga adjs d, OF refl ga]
    have "snd (process_entry_body ga clean e)
            = Inr (\<not> snd (apply_adjustments adjs (energy_adjustments ?e0, False)))"
      by simp
    then show ?thesis
      unfolding c using ga apply_adjustments_marks [of adjs "if clean then [] else energy_adjustments e" False]
      by simp
  qed
qed

lemma process_entry_body_same_entry:
  "\<exists>d eas. fst (process_entry_body ga clean e) = e\<lparr>data := d, energy_adjustments := eas\<rparr>"
proof -
  let ?e0 = "if clean then e\<lparr>energy_adjustments := []\<rparr> else e"
  obtain res d where g: "ga ?e0 = (res, d)" by (cases "ga ?e0")
  show ?thesis
  proof (cases res)
    case (Inl exc)
    with g have "fst (process_entry_body ga clean e) = ?e0\<lparr>data := d\<rparr>"
      by (simp add: process_entry_body_def)
    also have "\<dots> = e\<lparr>data := d, energy_adjustments := energy_adjustments ?e0\<rparr>" by simp
    finally show ?thesis by blast
  next
    case (Inr adjs)
    with g have ga: "ga ?e0 = (Inr adjs, d)" by simp
    from process_entry_body_Inr [of ?e0 clean e ga adjs d, OF refl ga]
    have "fst (process_entry_body ga clean e)
            = ?e0\<lparr>data := d, energy_adjustments := fst (apply_adjustments adjs (energy_adjustments ?e0, False))\<rparr>"
      by simp
    also have "\<dots> = e\<lparr>data := d, energy_adjustments := fst (apply_adjustments adjs (energy_adjustments ?e0, False))\<rparr>"
      by simp
    finally show ?thesis by blast
  qed
qed

text \<open>
  C2. With \<^verbatim>\<open>on_error = 'ignore'\<close> the call never raises \<^verbatim>\<open>CompatibilityError\<close>, and
  it returns when \<^verbatim>\<open>get_adjustments\<close> raises nothing else on the entries of the batch.
  What it returns is made, in the order of the input, of the entries of the input for which
  \<^verbatim>\<open>get_adjustments\<close> returns adjustments without a conflict, each of them being the
  entry of the input with its data and its adjustment list as the pass leaves them. An entry
  on which \<^verbatim>\<open>get_adjustments\<close> raises \<^verbatim>\<open>CompatibilityError\<close> is omitted; an entry
  with a conflict is omitted: a computed adjustment has the name and provenance of an
  adjustment that the entry carries (none after a clean) and the value of none of those, or
  two computed adjustments with a name and provenance that the entry does not carry differ
  in value. So the result is an order-preserving subsequence of the input, never longer than
  the input. The overriding method of the aqueous scheme is the pass of the solid scheme, if
  there is one, over the input, followed by such a pass over what the solid pass returns, and
  has the same properties.
\<close>

theorem process_entries_ignore_subsequence:
  "process_entries ga entries clean Ignore \<noteq> Inl CompatibilityError \<and>
   ((\<forall>e\<in>set entries. \<forall>exc.
       fst (ga (if clean then e\<lparr>energy_adjustments := []\<rparr> else e)) = Inl exc
       \<longrightarrow> exc = CompatibilityError)
    \<longrightarrow> (\<exists>out. process_entries ga entries clean Ignore = Inr out)) \<and>
   (\<forall>out. process_entries ga entries clean Ignore = Inr out \<longrightarrow>
      (\<exists>kept. subseq kept entries \<and>
         kept = filter (\<lambda>e. \<exists>adjs.
                   fst (ga (if clean then e\<lparr>energy_adjustments := []\<rparr> else e)) = Inr adjs \<and>
                   \<not> (\<exists>ea\<in>set adjs.
                         ea_key ea \<in> set (map ea_key (if clean then [] else energy_adjustments e)) \<and>
                         ea_triple ea \<notin> set (map ea_triple (if clean then [] else energy_adjustments e))) \<and>
                   \<not> (\<exists>ea\<in>set adjs. \<exists>ea'\<in>set adjs.
                         ea_key ea = ea_key ea' \<and>
                         ea_key ea \<notin> set (map ea_key (if clean then [] else energy_adjustments e)) \<and>
                         ea_value ea \<noteq> ea_value ea'))
                  entries \<and>
         out = map (\<lambda>e. fst (process_entry_body ga clean e)) kept) \<and>
      length out \<le> length entries) \<and>
   (\<forall>e. \<exists>d eas. fst (process_entry_body ga clean e) = e\<lparr>data := d, energy_adjustments := eas\<rparr>) \<and>
   fst (Aqueous_process_entries sch entries clean Ignore) \<noteq> Inl CompatibilityError \<and>
   (\<forall>out. fst (Aqueous_process_entries sch entries clean Ignore) = Inr out \<longrightarrow>
      (\<exists>es. (case solid_compat sch of
                None \<Rightarrow> es = entries
              | Some solid \<Rightarrow> process_entries solid entries True Ignore = Inr es) \<and>
            snd (Aqueous_process_entries sch entries clean Ignore) = scan sch es \<and>
            process_entries (Aqueous_get_adjustments (scan sch es)) es clean Ignore = Inr out) \<and>
      (\<exists>kept. subseq kept entries \<and>
         out = map (\<lambda>e. fst (process_entry_body
                               (Aqueous_get_adjustments
                                  (snd (Aqueous_process_entries sch entries clean Ignore)))
                               clean
                               (case solid_compat sch of
                                  None \<Rightarrow> e
                                | Some solid \<Rightarrow> fst (process_entry_body solid True e))))
                   kept) \<and>
      length out \<le> length entries)"
proof (intro conjI allI impI)
  show "process_entries ga entries clean Ignore \<noteq> Inl CompatibilityError"
    by (simp add: process_entries_def process_loop_no_compat)
next
  assume "\<forall>e\<in>set entries. \<forall>exc.
       fst (ga (if clean then e\<lparr>energy_adjustments := []\<rparr> else e)) = Inl exc
       \<longrightarrow> exc = CompatibilityError"
  from process_loop_returns [OF this, of Ignore "[]"]
  show "\<exists>out. process_entries ga entries clean Ignore = Inr out"
    by (simp add: process_entries_def)
next
  fix out assume a: "process_entries ga entries clean Ignore = Inr out"
  have e: "out = map (\<lambda>e. fst (process_entry_body ga clean e))
                (filter (\<lambda>e. snd (process_entry_body ga clean e) = Inr True) entries)"
    using a by (rule process_entries_Inr)
  then show "\<exists>kept. subseq kept entries \<and>
         kept = filter (\<lambda>e. \<exists>adjs.
                   fst (ga (if clean then e\<lparr>energy_adjustments := []\<rparr> else e)) = Inr adjs \<and>
                   \<not> (\<exists>ea\<in>set adjs.
                         ea_key ea \<in> set (map ea_key (if clean then [] else energy_adjustments e)) \<and>
                         ea_triple ea \<notin> set (map ea_triple (if clean then [] else energy_adjustments e))) \<and>
                   \<not> (\<exists>ea\<in>set adjs. \<exists>ea'\<in>set adjs.
                         ea_key ea = ea_key ea' \<and>
                         ea_key ea \<notin> set (map ea_key (if clean then [] else energy_adjustments e)) \<and>
                         ea_value ea \<noteq> ea_value ea'))
                  entries \<and>
         out = map (\<lambda>e. fst (process_entry_body ga clean e)) kept"
    unfolding process_entry_body_kept by simp
  show "length out \<le> length entries" using e by simp
next
  fix e
  show "\<exists>d eas. fst (process_entry_body ga clean e) = e\<lparr>data := d, energy_adjustments := eas\<rparr>"
    by (rule process_entry_body_same_entry)
next
  show "fst (Aqueous_process_entries sch entries clean Ignore) \<noteq> Inl CompatibilityError"
  proof (cases "solid_pass sch entries")
    case (Inl exc)
    have "solid_pass sch entries \<noteq> Inl CompatibilityError"
      by (cases "solid_compat sch")
         (simp_all add: solid_pass_def process_entries_def process_loop_no_compat)
    with Inl show ?thesis by (simp add: Aqueous_process_entries_def)
  next
    case (Inr es)
    then show ?thesis
      by (simp add: Aqueous_process_entries_def Let_def process_entries_def process_loop_no_compat)
  qed
next
  fix out assume a: "fst (Aqueous_process_entries sch entries clean Ignore) = Inr out"
  let ?sch = "snd (Aqueous_process_entries sch entries clean Ignore)"
  let ?aq = "\<lambda>e. fst (process_entry_body (Aqueous_get_adjustments ?sch) clean e)"
  let ?aq_kept = "\<lambda>e. snd (process_entry_body (Aqueous_get_adjustments ?sch) clean e) = Inr True"
  let ?solid = "\<lambda>e. case solid_compat sch of
                       None \<Rightarrow> e
                     | Some solid \<Rightarrow> fst (process_entry_body solid True e)"
  obtain es where sp: "solid_pass sch entries = Inr es"
    using a by (cases "solid_pass sch entries") (simp_all add: Aqueous_process_entries_def)
  then have s: "?sch = scan sch es" by (simp add: Aqueous_process_entries_def Let_def)
  from a sp have pe: "process_entries (Aqueous_get_adjustments (scan sch es)) es clean Ignore = Inr out"
    by (simp add: Aqueous_process_entries_def Let_def)
  from sp have "case solid_compat sch of
                None \<Rightarrow> es = entries
              | Some solid \<Rightarrow> process_entries solid entries True Ignore = Inr es"
    by (cases "solid_compat sch") (auto simp: solid_pass_def)
  with s pe show "\<exists>es. (case solid_compat sch of
                None \<Rightarrow> es = entries
              | Some solid \<Rightarrow> process_entries solid entries True Ignore = Inr es) \<and>
            snd (Aqueous_process_entries sch entries clean Ignore) = scan sch es \<and>
            process_entries (Aqueous_get_adjustments (scan sch es)) es clean Ignore = Inr out"
    by blast
  from process_entries_Inr [OF pe] s
  have o: "out = map ?aq (filter ?aq_kept es)" by simp
  have "\<exists>q. es = map ?solid (filter q entries)"
  proof (cases "solid_compat sch")
    case None
    with sp have "es = map ?solid (filter (\<lambda>e. True) entries)" by (simp add: solid_pass_def)
    then show ?thesis by blast
  next
    case (Some solid)
    with sp have "process_entries solid entries True Ignore = Inr es" by (simp add: solid_pass_def)
    from process_entries_Inr [OF this] Some
    have "es = map ?solid (filter (\<lambda>e. snd (process_entry_body solid True e) = Inr True) entries)"
      by simp
    then show ?thesis by blast
  qed
  then obtain q where es: "es = map ?solid (filter q entries)" by blast
  from filter_subseq [of entries ?aq ?aq_kept ?solid q] o es
  show "\<exists>kept. subseq kept entries \<and> out = map (\<lambda>e. ?aq (?solid e)) kept" by simp
  from o es show "length out \<le> length entries"
    by (simp add: order_trans [OF length_filter_le length_filter_le])
qed

subsection \<open>A batch through the fused scheme and through the aqueous scheme\<close>

lemma run_aqueous_batch:
  "Aqueous_get_adjustments ex_aqueous_given ex_O2 = (Inr [ex_entropy_adjustment 0.316731 2], ex_data)"
  "Aqueous_get_adjustments ex_aqueous_given ex_H2O_solid
     = (Inr [ex_entropy_adjustment 0.071963 3], ex_cached)"
  "Aqueous_get_adjustments ex_aqueous_given ex_hydrate_solid = (Inr [ex_hydrate_adjustment], ex_cached)"
  by (simp_all add: aq_defs aq_ex_defs ex_H2O_solid_def ex_hydrate_solid_def ex_cached_def)

lemma body_aqueous_batch:
  "process_entry_body (Aqueous_get_adjustments ex_aqueous_given) False ex_O2 = (ex_O2_aqueous, Inr True)"
  "process_entry_body (Aqueous_get_adjustments ex_aqueous_given) False ex_H2O_solid
     = (ex_H2O_aqueous, Inr True)"
  "process_entry_body (Aqueous_get_adjustments ex_aqueous_given) False ex_hydrate_solid
     = (ex_hydrate_aqueous, Inr True)"
proof -
  show "process_entry_body (Aqueous_get_adjustments ex_aqueous_given) False ex_O2
          = (ex_O2_aqueous, Inr True)"
    by (simp add: process_entry_body_def run_aqueous_batch)
       (simp add: ex_O2_aqueous_def ex_O2_def ex_element_def)
  show "process_entry_body (Aqueous_get_adjustments ex_aqueous_given) False ex_H2O_solid
          = (ex_H2O_aqueous, Inr True)"
    by (simp add: process_entry_body_def run_aqueous_batch)
       (simp add: ex_H2O_aqueous_def ex_H2O_solid_def ex_H2O_def ea_triple_def ea_key_def
        ex_oxide_adjustment_def ex_entropy_adjustment_def)
  show "process_entry_body (Aqueous_get_adjustments ex_aqueous_given) False ex_hydrate_solid
          = (ex_hydrate_aqueous, Inr True)"
    by (simp add: process_entry_body_def run_aqueous_batch)
       (simp add: ex_hydrate_aqueous_def ex_hydrate_solid_def ex_hydrate_def ea_triple_def ea_key_def
        ex_hydrate_adjustment_def)
qed

lemma aqueous_batch:
  "Aqueous_process_entries ex_aqueous [ex_O2, ex_H2O, ex_hydrate, ex_MgO_hse] False Ignore
     = (Inr [ex_O2_aqueous, ex_H2O_aqueous, ex_hydrate_aqueous], ex_aqueous_given)"
proof -
  have "solid_pass ex_aqueous [ex_O2, ex_H2O, ex_hydrate, ex_MgO_hse]
          = Inr [ex_O2, ex_H2O_solid, ex_hydrate_solid]"
    by (simp add: solid_pass_def ex_aqueous_def process_entries_def body_solid body_MgO_hse)
  then show ?thesis
    by (simp add: Aqueous_process_entries_def scan_batch process_entries_def body_aqueous_batch)
qed

theorem process_entries_ignore_subsequence_witness:
  "fst (MP2020_get_adjustments ex_env ex_mp2020 ex_MgO) = Inr [ex_oxide_adjustment] \<and>
   energy_adjustments ex_MgO = [] \<and>
   fst (MP2020_get_adjustments ex_env ex_mp2020 ex_MgO_hse) = Inl CompatibilityError \<and>
   fst (MP2020_get_adjustments ex_env ex_mp2020 ex_MgO_manual) = Inr [ex_oxide_adjustment] \<and>
   energy_adjustments ex_MgO_manual = [ex_manual_adjustment] \<and>
   ea_key ex_oxide_adjustment = ea_key ex_manual_adjustment \<and>
   ea_value ex_oxide_adjustment \<noteq> ea_value ex_manual_adjustment \<and>
   process_entries (MP2020_get_adjustments ex_env ex_mp2020) [ex_MgO, ex_MgO_hse, ex_MgO_manual] False Ignore
     = Inr [ex_MgO\<lparr>data := ex_cached, energy_adjustments := [ex_oxide_adjustment]\<rparr>] \<and>
   subseq [ex_MgO] [ex_MgO, ex_MgO_hse, ex_MgO_manual] \<and>
   process_entries (MP2020_get_adjustments ex_env ex_mp2020) [ex_MgO, ex_MgO_hse, ex_MgO_manual] True Ignore
     = Inr [ex_MgO\<lparr>data := ex_cached, energy_adjustments := [ex_oxide_adjustment]\<rparr>,
            ex_MgO\<lparr>data := ex_cached, energy_adjustments := [ex_oxide_adjustment]\<rparr>] \<and>
   subseq [ex_MgO, ex_MgO_manual] [ex_MgO, ex_MgO_hse, ex_MgO_manual] \<and>
   Aqueous_process_entries ex_aqueous [ex_O2, ex_H2O, ex_hydrate, ex_MgO_hse] False Ignore
     = (Inr [ex_O2_aqueous, ex_H2O_aqueous, ex_hydrate_aqueous], ex_aqueous_given) \<and>
   length [ex_O2_aqueous, ex_H2O_aqueous, ex_hydrate_aqueous]
     \<le> length [ex_O2, ex_H2O, ex_hydrate, ex_MgO_hse]"
proof -
  let ?ga = "MP2020_get_adjustments ex_env ex_mp2020"
  let ?batch = "[ex_MgO, ex_MgO_hse, ex_MgO_manual]"
  note keep = process_entries_ignore_subsequence [of ?ga ?batch False ex_aqueous]
  note wipe = process_entries_ignore_subsequence [of ?ga ?batch True ex_aqueous]
  note aq = process_entries_ignore_subsequence
    [of ?ga "[ex_O2, ex_H2O, ex_hydrate, ex_MgO_hse]" False ex_aqueous]
  have r: "fst (?ga ex_MgO) = Inr [ex_oxide_adjustment]"
    "fst (?ga ex_MgO_hse) = Inl CompatibilityError"
    "fst (?ga ex_MgO_manual) = Inr [ex_oxide_adjustment]"
    "fst (?ga (ex_MgO\<lparr>energy_adjustments := []\<rparr>)) = Inr [ex_oxide_adjustment]"
    "fst (?ga (ex_MgO_hse\<lparr>energy_adjustments := []\<rparr>)) = Inl CompatibilityError"
    "fst (?ga (ex_MgO_manual\<lparr>energy_adjustments := []\<rparr>)) = Inr [ex_oxide_adjustment]"
    by (simp_all add: MP2020_ignores_adjustments run_MgO run_MgO_hse run_MgO_manual)
  have c: "energy_adjustments ex_MgO = []" "energy_adjustments ex_MgO_hse = []"
    "energy_adjustments ex_MgO_manual = [ex_manual_adjustment]"
    by (simp_all add: ex_MgO_def ex_MgO_hse_def ex_MgO_manual_def)
  have k: "ea_key ex_oxide_adjustment = ea_key ex_manual_adjustment"
    "ea_value ex_oxide_adjustment \<noteq> ea_value ex_manual_adjustment"
    "ea_triple ex_oxide_adjustment \<noteq> ea_triple ex_manual_adjustment"
    using ex_adjustment_keys by simp_all
  have "\<forall>e\<in>set ?batch. \<forall>exc.
       fst (?ga (if False then e\<lparr>energy_adjustments := []\<rparr> else e)) = Inl exc
         \<longrightarrow> exc = CompatibilityError"
    using r by simp
  with keep obtain out where o: "process_entries ?ga ?batch False Ignore = Inr out" by blast
  with keep obtain kept where kept: "subseq kept ?batch"
    "kept = filter (\<lambda>e. \<exists>adjs.
                   fst (?ga (if False then e\<lparr>energy_adjustments := []\<rparr> else e)) = Inr adjs \<and>
                   \<not> (\<exists>ea\<in>set adjs.
                         ea_key ea \<in> set (map ea_key (if False then [] else energy_adjustments e)) \<and>
                         ea_triple ea \<notin> set (map ea_triple (if False then [] else energy_adjustments e))) \<and>
                   \<not> (\<exists>ea\<in>set adjs. \<exists>ea'\<in>set adjs.
                         ea_key ea = ea_key ea' \<and>
                         ea_key ea \<notin> set (map ea_key (if False then [] else energy_adjustments e)) \<and>
                         ea_value ea \<noteq> ea_value ea'))
                  ?batch"
    "out = map (\<lambda>e. fst (process_entry_body ?ga False e)) kept"
    by blast
  from kept(2) have k1: "kept = [ex_MgO]" using r c k by simp
  with kept(3) o have p1: "process_entries ?ga ?batch False Ignore
     = Inr [ex_MgO\<lparr>data := ex_cached, energy_adjustments := [ex_oxide_adjustment]\<rparr>]"
    by (simp add: body_MgO)
  from kept(1) k1 have s1: "subseq [ex_MgO] ?batch" by simp
  have "\<forall>e\<in>set ?batch. \<forall>exc.
       fst (?ga (if True then e\<lparr>energy_adjustments := []\<rparr> else e)) = Inl exc
         \<longrightarrow> exc = CompatibilityError"
    using r by simp
  with wipe obtain out2 where o2: "process_entries ?ga ?batch True Ignore = Inr out2" by blast
  with wipe obtain kept2 where kept2: "subseq kept2 ?batch"
    "kept2 = filter (\<lambda>e. \<exists>adjs.
                   fst (?ga (if True then e\<lparr>energy_adjustments := []\<rparr> else e)) = Inr adjs \<and>
                   \<not> (\<exists>ea\<in>set adjs.
                         ea_key ea \<in> set (map ea_key (if True then [] else energy_adjustments e)) \<and>
                         ea_triple ea \<notin> set (map ea_triple (if True then [] else energy_adjustments e))) \<and>
                   \<not> (\<exists>ea\<in>set adjs. \<exists>ea'\<in>set adjs.
                         ea_key ea = ea_key ea' \<and>
                         ea_key ea \<notin> set (map ea_key (if True then [] else energy_adjustments e)) \<and>
                         ea_value ea \<noteq> ea_value ea'))
                  ?batch"
    "out2 = map (\<lambda>e. fst (process_entry_body ?ga True e)) kept2"
    by blast
  from kept2(2) have k2: "kept2 = [ex_MgO, ex_MgO_manual]" using r by simp
  with kept2(3) o2 have p2: "process_entries ?ga ?batch True Ignore
     = Inr [ex_MgO\<lparr>data := ex_cached, energy_adjustments := [ex_oxide_adjustment]\<rparr>,
            ex_MgO\<lparr>data := ex_cached, energy_adjustments := [ex_oxide_adjustment]\<rparr>]"
    by (simp add: body_MgO body_MgO_manual_clean)
  from kept2(1) k2 have s2: "subseq [ex_MgO, ex_MgO_manual] ?batch" by simp
  from aq aqueous_batch
  have la: "length [ex_O2_aqueous, ex_H2O_aqueous, ex_hydrate_aqueous]
              \<le> length [ex_O2, ex_H2O, ex_hydrate, ex_MgO_hse]"
    by simp
  from r(1,2,3) c(1,3) k(1,2) p1 s1 p2 s2 la aqueous_batch show ?thesis by blast
qed

end
